theory Spec2Isabelle
  imports Complex_Main "HOL-Library.AList"
begin

section \<open>Python values, exceptions and small library functions\<close>

text \<open>
  The runners and the metrics code pass Python dictionaries around. A dictionary is a
  partial map from its string keys to Python values; a key that was never written is
  \<open>None\<close> of the option type, a key that holds Python's \<open>None\<close> is \<open>Some PNone\<close>.
  Clock readings and means are modelled by exact reals. The quotient of two counts is
  rounded as Python rounds it, to the nearest binary64 float (\<open>py_truediv\<close> below).
\<close>

datatype pyval =
    PNone
  | PBool bool
  | PInt int
  | PFloat real
  | PStr string
  | PDict "string \<Rightarrow> pyval option"

type_synonym pydict = "string \<rightharpoonup> pyval"

text \<open>Exceptions raised by the code or by the libraries it calls; \<open>str_exn\<close> is \<open>str(e)\<close>.\<close>

datatype exn =
    ValueError string
  | IndexError
  | ZeroDivisionError
  | EngineError string
  | OSError string
  | UnicodeDecodeError string
  | UnboundLocalError string
  | KeyError string
  | TypeError string
  | StatisticsError string

fun str_exn :: "exn \<Rightarrow> string" where
  "str_exn (ValueError m) = m"
| "str_exn IndexError = ''list index out of range''"
| "str_exn ZeroDivisionError = ''division by zero''"
| "str_exn (EngineError m) = m"
| "str_exn (OSError m) = m"
| "str_exn (UnicodeDecodeError m) = m"
| "str_exn (UnboundLocalError m) = m"
| "str_exn (KeyError m) = m"
| "str_exn (TypeError m) = m"
| "str_exn (StatisticsError m) = m"

text \<open>\<open>int(x)\<close> on a float truncates towards zero.\<close>

definition py_int :: "real \<Rightarrow> int" where
  "py_int x = (if 0 \<le> x then \<lfloor>x\<rfloor> else \<lceil>x\<rceil>)"

text \<open>\<open>xs[i]\<close> for a non-negative or negative index; out of range raises.\<close>

definition py_index :: "'a list \<Rightarrow> int \<Rightarrow> exn + 'a" where
  "py_index xs i =
     (let j = (if i < 0 then i + int (length xs) else i)
      in if j < 0 \<or> int (length xs) \<le> j then Inl IndexError else Inr (xs ! nat j))"

text \<open>\<open>statistics.mean\<close> and \<open>statistics.stdev\<close> (sample standard deviation) on a list
  of integers; the callers guard the length.\<close>

definition py_mean :: "int list \<Rightarrow> real" where
  "py_mean xs = real_of_int (sum_list xs) / real (length xs)"

definition py_stdev :: "int list \<Rightarrow> real" where
  "py_stdev xs =
     sqrt (sum_list (map (\<lambda>x. (real_of_int x - py_mean xs)\<^sup>2) xs) / real (length xs - 1))"

text \<open>
  \<open>a / b\<close> on two non-negative integers, \<open>b\<close> not zero: Python returns the binary64
  float nearest to the exact quotient, ties to the even significand. The quotient is
  scaled by a power of two into \<open>[2^52, 2^53)\<close>, rounded to an integer and scaled
  back: \<open>binade_up a b 0\<close> is the least \<open>k\<close> with \<open>b \<le> a * 2^k\<close> and
  \<open>binade_down a b 0\<close> the greatest \<open>k\<close> with \<open>b * 2^k \<le> a\<close>. The counts divided
  here are far inside the range of the exponent, so overflow and subnormal results
  do not arise.
\<close>

definition round_half_even :: "real \<Rightarrow> int" where
  "round_half_even x =
     (let f = \<lfloor>x\<rfloor>; r = x - real_of_int f
      in if r < 1 / 2 then f else if 1 / 2 < r then f + 1 else if even f then f else f + 1)"

function binade_up :: "nat \<Rightarrow> nat \<Rightarrow> nat \<Rightarrow> nat" where
  "binade_up a b k = (if a = 0 \<or> b \<le> a * 2 ^ k then k else binade_up a b (Suc k))"
  by pat_completeness auto
termination
proof (relation "measure (\<lambda>(a, b, k). b - a * 2 ^ k)")
  show "wf (measure (\<lambda>(a, b, k). b - a * 2 ^ k))" by simp
next
  fix a b k :: nat
  assume "\<not> (a = 0 \<or> b \<le> a * 2 ^ k)"
  then have "0 < a * 2 ^ k" and "a * 2 ^ k < b" by simp_all
  then have "b - 2 * (a * 2 ^ k) < b - a * 2 ^ k" by linarith
  then show "((a, b, Suc k), (a, b, k)) \<in> measure (\<lambda>(a, b, k). b - a * 2 ^ k)"
    by (simp add: mult.left_commute)
qed

function binade_down :: "nat \<Rightarrow> nat \<Rightarrow> nat \<Rightarrow> nat" where
  "binade_down a b k = (if b = 0 \<or> a < b * 2 ^ Suc k then k else binade_down a b (Suc k))"
  by pat_completeness auto
termination
proof (relation "measure (\<lambda>(a, b, k). a - b * 2 ^ k)")
  show "wf (measure (\<lambda>(a, b, k). a - b * 2 ^ k))" by simp
next
  fix a b k :: nat
  assume "\<not> (b = 0 \<or> a < b * 2 ^ Suc k)"
  then have "0 < b * 2 ^ k" and "2 * (b * 2 ^ k) \<le> a" by (simp_all add: mult.left_commute)
  then have "a - 2 * (b * 2 ^ k) < a - b * 2 ^ k" by linarith
  then show "((a, b, Suc k), (a, b, k)) \<in> measure (\<lambda>(a, b, k). a - b * 2 ^ k)"
    by (simp add: mult.left_commute)
qed

declare binade_up.simps [simp del]
declare binade_down.simps [simp del]

definition py_truediv :: "nat \<Rightarrow> nat \<Rightarrow> real" where
  "py_truediv a b =
     (if a = 0 then 0
      else
        let up = binade_up a b 0;
            down = binade_down a b 0;
            scaled = real a * 2 ^ (52 + up) / (real b * 2 ^ down)
        in real_of_int (round_half_even scaled) * 2 ^ down / 2 ^ (52 + up))"

text \<open>\<open>sum(1 for m in ms if p(m))\<close>.\<close>

definition count_if :: "('a \<Rightarrow> bool) \<Rightarrow> 'a list \<Rightarrow> nat" where
  "count_if p ms = length (filter p ms)"

section \<open>backend/metrics.py\<close>

text \<open>
  One row of the table \<open>execution_metrics\<close>. The integer columns are nullable; the
  timestamp is seconds on the UTC clock.
\<close>

record ExecutionMetric =
  m_id :: nat
  m_function_name :: string
  m_runtime :: string
  m_language :: string
  m_cold_start :: bool
  m_timestamp :: real
  m_initialization_time_ms :: "int option"
  m_execution_time_ms :: "int option"
  m_total_time_ms :: "int option"
  m_status :: string
  m_error_message :: "string option"

text \<open>\<open>d.get(k, default)\<close>, and the readings of a Python value by a column of the
  table: a string column, a nullable string column, a nullable integer column and a
  boolean column. The runners store values of the column's type.\<close>

definition dict_get :: "pydict \<Rightarrow> string \<Rightarrow> pyval \<Rightarrow> pyval" where
  "dict_get d k dflt = (case d k of None \<Rightarrow> dflt | Some v \<Rightarrow> v)"

fun string_column :: "pyval \<Rightarrow> string" where
  "string_column (PStr s) = s"
| "string_column v = []"

fun nullable_string_column :: "pyval \<Rightarrow> string option" where
  "nullable_string_column (PStr s) = Some s"
| "nullable_string_column v = None"

fun integer_column :: "pyval \<Rightarrow> int option" where
  "integer_column (PInt n) = Some n"
| "integer_column (PBool b) = Some (if b then 1 else 0)"
| "integer_column v = None"

fun boolean_column :: "pyval \<Rightarrow> bool" where
  "boolean_column (PBool b) = b"
| "boolean_column (PInt n) = (n \<noteq> 0)"
| "boolean_column v = False"

text \<open>\<open>save_execution_metrics\<close>: the table is the list of its rows, oldest first; \<open>now\<close>
  is the reading of \<open>datetime.utcnow\<close> that fills the timestamp. The database calls
  are taken not to fail.\<close>

definition save_execution_metrics ::
  "ExecutionMetric list \<Rightarrow> string \<Rightarrow> pydict \<Rightarrow> real \<Rightarrow> ExecutionMetric list" where
  "save_execution_metrics db function_name result now =
     (case result ''metrics'' of
        None \<Rightarrow> db
      | Some mv \<Rightarrow>
          let metrics = (case mv of PDict d \<Rightarrow> d | _ \<Rightarrow> Map.empty) in
          db @ [\<lparr>m_id = Suc (length db),
                 m_function_name = function_name,
                 m_runtime = string_column (dict_get metrics ''runtime'' (PStr ''docker'')),
                 m_language = string_column (dict_get metrics ''language'' (PStr ''unknown'')),
                 m_cold_start = boolean_column (dict_get metrics ''cold_start'' (PBool True)),
                 m_timestamp = now,
                 m_initialization_time_ms =
                   integer_column (dict_get metrics ''initialization_time_ms'' (PInt 0)),
                 m_execution_time_ms =
                   integer_column (dict_get metrics ''execution_time_ms'' (PInt 0)),
                 m_total_time_ms = integer_column (dict_get metrics ''total_time_ms'' (PInt 0)),
                 m_status = string_column (dict_get result ''status'' (PStr ''unknown'')),
                 m_error_message = nullable_string_column (dict_get metrics ''error'' PNone)\<rparr>])"

text \<open>The query of \<open>get_aggregated_metrics\<close>: the optional filter on the function name
  (skipped when the name is \<open>None\<close> or empty) and the filter on the time range.\<close>

definition range_seconds :: "string \<Rightarrow> real option" where
  "range_seconds time_range =
     (if time_range = ''1h'' then Some 3600
      else if time_range = ''24h'' then Some 86400
      else if time_range = ''7d'' then Some 604800
      else if time_range = ''30d'' then Some 2592000
      else None)"

definition query_all ::
  "ExecutionMetric list \<Rightarrow> string option \<Rightarrow> string \<Rightarrow> real \<Rightarrow> ExecutionMetric list" where
  "query_all db fname time_range now =
     filter (\<lambda>m.
        (case fname of None \<Rightarrow> True | Some f \<Rightarrow> f = [] \<or> m_function_name m = f) \<and>
        (case range_seconds time_range of None \<Rightarrow> True | Some d \<Rightarrow> now - d \<le> m_timestamp m)) db"

definition zero_record :: pydict where
  "zero_record =
     [''count'' \<mapsto> PInt 0,
      ''avg_execution_time_ms'' \<mapsto> PInt 0,
      ''avg_total_time_ms'' \<mapsto> PInt 0,
      ''success_rate'' \<mapsto> PInt 0,
      ''error_rate'' \<mapsto> PInt 0,
      ''timeout_rate'' \<mapsto> PInt 0,
      ''cold_start_percentage'' \<mapsto> PInt 0]"

text \<open>The aggregation proper, on the rows the query selected. The two percentile reads
  are list indexings and may raise.\<close>

definition aggregate :: "ExecutionMetric list \<Rightarrow> exn + pydict" where
  "aggregate metrics =
     (if metrics = [] then Inr zero_record
      else
        let total_count = length metrics;
            success_count = count_if (\<lambda>m. m_status m = ''success'') metrics;
            error_count = count_if (\<lambda>m. m_status m = ''error'') metrics;
            timeout_count = count_if (\<lambda>m. m_status m = ''timeout'') metrics;
            cold_start_count = count_if m_cold_start metrics;
            execution_times = List.map_filter m_execution_time_ms metrics;
            total_times = List.map_filter m_total_time_ms metrics;
            avg_execution_time =
              (if execution_times \<noteq> [] then PFloat (py_mean execution_times) else PInt 0);
            avg_total_time =
              (if total_times \<noteq> [] then PFloat (py_mean total_times) else PInt 0);
            n = length execution_times;
            rate = (\<lambda>c. if 0 < total_count then PFloat (py_truediv c total_count) else PInt 0);
            rest = (\<lambda>p95 p99 stdev.
              [''count'' \<mapsto> PInt (int total_count),
               ''avg_execution_time_ms'' \<mapsto> avg_execution_time,
               ''p95_execution_time_ms'' \<mapsto> p95,
               ''p99_execution_time_ms'' \<mapsto> p99,
               ''stdev_execution_time_ms'' \<mapsto> stdev,
               ''avg_total_time_ms'' \<mapsto> avg_total_time,
               ''success_rate'' \<mapsto> rate success_count,
               ''error_rate'' \<mapsto> rate error_count,
               ''timeout_rate'' \<mapsto> rate timeout_count,
               ''cold_start_percentage'' \<mapsto> rate cold_start_count,
               ''runtime_breakdown'' \<mapsto> PDict
                  [''docker'' \<mapsto> PInt (int (count_if (\<lambda>m. m_runtime m = ''docker'') metrics)),
                   ''gvisor'' \<mapsto> PInt (int (count_if (\<lambda>m. m_runtime m = ''gvisor'') metrics))]])
        in if 2 \<le> n then
             (case py_index (sort execution_times) (py_int (real n * 0.95)) of
                Inl e \<Rightarrow> Inl e
              | Inr p95 \<Rightarrow>
                 (case py_index (sort execution_times) (py_int (real n * 0.99)) of
                    Inl e \<Rightarrow> Inl e
                  | Inr p99 \<Rightarrow>
                      Inr (rest (PInt p95) (PInt p99) (PFloat (py_stdev execution_times)))))
           else Inr (rest PNone PNone PNone))"

definition get_aggregated_metrics ::
  "ExecutionMetric list \<Rightarrow> string option \<Rightarrow> string \<Rightarrow> real \<Rightarrow> exn + pydict" where
  "get_aggregated_metrics db fname time_range now =
     aggregate (query_all db fname time_range now)"

section \<open>Effects: the container engine, the clock and the file system\<close>

text \<open>
  Code that calls the engine, the clock or the file system is a state transformer that
  may raise: it returns \<open>Inl e\<close> for a raised exception \<open>e\<close> and \<open>Inr x\<close> for a
  returned value \<open>x\<close>, together with the state it leaves behind.
\<close>

type_synonym ('s, 'a) exc = "'s \<Rightarrow> (exn + 'a) \<times> 's"

definition ret :: "'a \<Rightarrow> ('s, 'a) exc" where
  "ret x = (\<lambda>s. (Inr x, s))"

definition lift :: "exn + 'a \<Rightarrow> ('s, 'a) exc" where
  "lift r = (\<lambda>s. (r, s))"

definition bind :: "('s, 'a) exc \<Rightarrow> ('a \<Rightarrow> ('s, 'b) exc) \<Rightarrow> ('s, 'b) exc" where
  "bind m f = (\<lambda>s. case m s of (Inl e, s') \<Rightarrow> (Inl e, s') | (Inr x, s') \<Rightarrow> f x s')"

text \<open>\<open>try: m  except Exception: pass\<close> (or a handler that only logs).\<close>

definition swallow :: "('s, unit) exc \<Rightarrow> ('s, unit) exc" where
  "swallow m = (\<lambda>s. case m s of (Inl e, s') \<Rightarrow> (Inr (), s') | (Inr x, s') \<Rightarrow> (Inr (), s'))"

text \<open>
  A container object is identified by its id. A pool entry is the dictionary
  \<open>{"container", "created_at", "id"}\<close>, a pool the dictionary
  \<open>{"containers", "last_accessed"}\<close>; \<open>container_pools\<close> keeps its keys in insertion
  order, as a Python dictionary does.
\<close>

type_synonym container = string

record pool_entry =
  pe_container :: container
  pe_created_at :: real
  pe_id :: string

record pool =
  containers :: "pool_entry list"
  last_accessed :: real

text \<open>Calls that leave the process, in the order they were made.\<close>

datatype event =
    ContainersRun string string "string option"
  | ContainerStop container
  | ExecRun container string
  | FileWrite string string
  | OsSystem string
  | OsRemove string
  | ThreadStart string string

text \<open>
  The state: the module-level \<open>container_pools\<close>, the calls made so far, and the number
  of calls to the outside made so far. What the outside answers is not decided by the
  program: the environment gives, for the \<open>k\<close>-th call, the clock reading, the fresh
  uuid, or the outcome of the engine or file-system call made at that point:
  \<open>docker.from_env()\<close> may raise, \<open>os.system\<close> answers with the exit status of its
  command.
\<close>

record state =
  steps :: nat
  container_pools :: "(string \<times> pool) list"
  trace :: "event list"

record env =
  clock :: "nat \<Rightarrow> real"
  utc_clock :: "nat \<Rightarrow> real"
  uuid :: "nat \<Rightarrow> string"
  run_outcome :: "nat \<Rightarrow> exn + container"
  stop_outcome :: "nat \<Rightarrow> exn + unit"
  write_outcome :: "nat \<Rightarrow> exn + unit"
  remove_outcome :: "nat \<Rightarrow> exn + unit"
  exec_outcome :: "nat \<Rightarrow> exn + int \<times> (string option \<times> string option) option"
  from_env_outcome :: "nat \<Rightarrow> exn + unit"
  system_outcome :: "nat \<Rightarrow> int"
  decode_utf8 :: "string \<Rightarrow> exn + string"

definition time_time :: "env \<Rightarrow> (state, real) exc" where
  "time_time env = (\<lambda>s. (Inr (clock env (steps s)), s\<lparr>steps := Suc (steps s)\<rparr>))"

definition utcnow :: "env \<Rightarrow> (state, real) exc" where
  "utcnow env = (\<lambda>s. (Inr (utc_clock env (steps s)), s\<lparr>steps := Suc (steps s)\<rparr>))"

definition uuid4 :: "env \<Rightarrow> (state, string) exc" where
  "uuid4 env = (\<lambda>s. (Inr (uuid env (steps s)), s\<lparr>steps := Suc (steps s)\<rparr>))"

definition outside :: "event \<Rightarrow> (nat \<Rightarrow> exn + 'a) \<Rightarrow> (state, 'a) exc" where
  "outside ev outcome =
     (\<lambda>s. (outcome (steps s), s\<lparr>steps := Suc (steps s), trace := trace s @ [ev]\<rparr>))"

text \<open>\<open>client = docker.from_env()\<close>: the client object itself is not kept, the
  calls made through it are the engine calls below.\<close>

definition docker_from_env :: "env \<Rightarrow> (state, unit) exc" where
  "docker_from_env env = (\<lambda>s. (from_env_outcome env (steps s), s\<lparr>steps := Suc (steps s)\<rparr>))"

definition containers_run :: "env \<Rightarrow> string \<Rightarrow> string \<Rightarrow> string option \<Rightarrow> (state, container) exc" where
  "containers_run env img name rt = outside (ContainersRun img name rt) (run_outcome env)"

definition container_stop :: "env \<Rightarrow> container \<Rightarrow> (state, unit) exc" where
  "container_stop env c = outside (ContainerStop c) (stop_outcome env)"

definition exec_run ::
  "env \<Rightarrow> container \<Rightarrow> string \<Rightarrow> (state, int \<times> (string option \<times> string option) option) exc" where
  "exec_run env c cmd = outside (ExecRun c cmd) (exec_outcome env)"

text \<open>\<open>with open(filename, "w") as f: f.write(code)\<close>\<close>

definition write_file :: "env \<Rightarrow> string \<Rightarrow> string \<Rightarrow> (state, unit) exc" where
  "write_file env filename code = outside (FileWrite filename code) (write_outcome env)"

text \<open>\<open>os.system\<close> returns the exit status of the command; it does not raise when the
  command fails.\<close>

definition os_system :: "env \<Rightarrow> string \<Rightarrow> (state, int) exc" where
  "os_system env cmd = outside (OsSystem cmd) (\<lambda>k. Inr (system_outcome env k))"

definition os_remove :: "env \<Rightarrow> string \<Rightarrow> (state, unit) exc" where
  "os_remove env filename = outside (OsRemove filename) (remove_outcome env)"

text \<open>\<open>threading.Thread(target=add_container_to_pool, args=(language, img)).start()\<close>:
  the call is scheduled, not run.\<close>

definition thread_start :: "string \<Rightarrow> string \<Rightarrow> (state, unit) exc" where
  "thread_start language img =
     (\<lambda>s. (Inr (), s\<lparr>trace := trace s @ [ThreadStart language img]\<rparr>))"

text \<open>\<open>str.lower()\<close> on ASCII text and \<open>str(n)\<close> for an integer.\<close>

definition lower_char :: "char \<Rightarrow> char" where
  "lower_char c =
     (case map_of (zip ''ABCDEFGHIJKLMNOPQRSTUVWXYZ'' ''abcdefghijklmnopqrstuvwxyz'') c of
        Some l \<Rightarrow> l
      | None \<Rightarrow> c)"

definition lower :: "string \<Rightarrow> string" where
  "lower s = map lower_char s"

fun str_nat :: "nat \<Rightarrow> string" where
  "str_nat n =
     (if n < 10 then [''0123456789'' ! n] else str_nat (n div 10) @ [''0123456789'' ! (n mod 10)])"

declare str_nat.simps [simp del]

definition str_int :: "int \<Rightarrow> string" where
  "str_int i = (if i < 0 then CHR ''-'' # str_nat (nat (- i)) else str_nat (nat i))"

section \<open>virtualization/runner.py: the warm pool\<close>

definition max_pool_size :: nat where
  "max_pool_size = 5"

definition pool_expiry_seconds :: real where
  "pool_expiry_seconds = 300"

definition get_image_for_language :: "string \<Rightarrow> exn + string" where
  "get_image_for_language language =
     (if lower language = ''python'' then Inr ''python:3.9-slim''
      else if lower language = ''javascript'' \<or> lower language = ''js'' then Inr ''node:16-alpine''
      else Inl (ValueError (''Unsupported language: '' @ language)))"

definition pool_key_of :: "string \<Rightarrow> string" where
  "pool_key_of language = language @ ''_pool''"

text \<open>The three blocks that run under \<open>pool_lock\<close>, each one atomic with respect to the
  other threads.\<close>

definition init_locked :: "env \<Rightarrow> string \<Rightarrow> (state, unit) exc" where
  "init_locked env language =
     (\<lambda>s. case map_of (container_pools s) (pool_key_of language) of
        Some p \<Rightarrow> (Inr (), s)
      | None \<Rightarrow>
          bind (time_time env) (\<lambda>t s'.
            (Inr (), s'\<lparr>container_pools :=
               AList.update (pool_key_of language) \<lparr>containers = [], last_accessed = t\<rparr>
                 (container_pools s')\<rparr>)) s)"

definition add_locked :: "env \<Rightarrow> string \<Rightarrow> container \<Rightarrow> (state, unit) exc" where
  "add_locked env language c =
     (\<lambda>s. case map_of (container_pools s) (pool_key_of language) of
        None \<Rightarrow> (Inr (), s)
      | Some p \<Rightarrow>
          if length (containers p) < max_pool_size then
            bind (time_time env) (\<lambda>created. bind (time_time env) (\<lambda>accessed s'.
              (Inr (), s'\<lparr>container_pools :=
                 AList.map_entry (pool_key_of language)
                   (\<lambda>q. \<lparr>containers = containers q @
                            [\<lparr>pe_container = c, pe_created_at = created, pe_id = c\<rparr>],
                          last_accessed = accessed\<rparr>)
                   (container_pools s')\<rparr>))) s
          else container_stop env c s)"

definition get_locked :: "env \<Rightarrow> string \<Rightarrow> (state, container option) exc" where
  "get_locked env language =
     (\<lambda>s. case map_of (container_pools s) (pool_key_of language) of
        None \<Rightarrow> (Inr None, s)
      | Some p \<Rightarrow>
          (case containers p of
             [] \<Rightarrow> (Inr None, s)
           | container_data # rest \<Rightarrow>
               bind (time_time env) (\<lambda>accessed.
               bind (\<lambda>s'. (Inr (), s'\<lparr>container_pools :=
                        AList.map_entry (pool_key_of language)
                          (\<lambda>q. \<lparr>containers = tl (containers q), last_accessed = accessed\<rparr>)
                          (container_pools s')\<rparr>)) (\<lambda>_.
               bind (lift (get_image_for_language language)) (\<lambda>img.
               bind (thread_start language img) (\<lambda>_.
               ret (Some (pe_container container_data)))))) s))"

fun stop_containers :: "env \<Rightarrow> pool_entry list \<Rightarrow> (state, unit) exc" where
  "stop_containers env [] = ret ()"
| "stop_containers env (container_data # rest) =
     bind (swallow (container_stop env (pe_container container_data)))
       (\<lambda>_. stop_containers env rest)"

fun stop_expired :: "env \<Rightarrow> real \<Rightarrow> (string \<times> pool) list \<Rightarrow> (state, string list) exc" where
  "stop_expired env current_time [] = ret []"
| "stop_expired env current_time ((pool_key, pool_data) # rest) =
     (if current_time - last_accessed pool_data > pool_expiry_seconds then
        bind (stop_containers env (containers pool_data)) (\<lambda>_.
        bind (stop_expired env current_time rest) (\<lambda>to_remove. ret (pool_key # to_remove)))
      else stop_expired env current_time rest)"

definition clean_locked :: "env \<Rightarrow> real \<Rightarrow> (state, unit) exc" where
  "clean_locked env current_time =
     (\<lambda>s. bind (stop_expired env current_time (container_pools s)) (\<lambda>to_remove s'.
        (Inr (), s'\<lparr>container_pools :=
           filter (\<lambda>(k, p). k \<notin> set to_remove) (container_pools s')\<rparr>)) s)"

definition clean_expired_pools :: "env \<Rightarrow> (state, unit) exc" where
  "clean_expired_pools env = bind (time_time env) (\<lambda>current_time. clean_locked env current_time)"

definition add_container_to_pool :: "env \<Rightarrow> string \<Rightarrow> string \<Rightarrow> (state, unit) exc" where
  "add_container_to_pool env language img =
     bind (docker_from_env env) (\<lambda>client.
     swallow
       (bind (uuid4 env) (\<lambda>u.
        bind (containers_run env img (''function-'' @ language @ ''-'' @ take 8 u) None) (\<lambda>c.
        add_locked env language c))))"

definition initialize_container_pool :: "env \<Rightarrow> string \<Rightarrow> (state, unit) exc" where
  "initialize_container_pool env language =
     bind (lift (get_image_for_language language)) (\<lambda>img.
     bind (init_locked env language) (\<lambda>_.
     bind (add_container_to_pool env language img) (\<lambda>_.
     add_container_to_pool env language img)))"

definition get_container_from_pool :: "env \<Rightarrow> string \<Rightarrow> (state, container option) exc" where
  "get_container_from_pool env language = get_locked env language"

section \<open>virtualization/runner.py: \<open>run_in_docker\<close>\<close>

text \<open>
  What one call of a runner leaves behind: the dictionary it returns and, for the
  statements below, the values of its local variables when it returned: the exception
  its \<open>except\<close> clause caught (if it ran), the container it held, whether that
  container came out of the pool, and the exit code and the duration measured for the
  in-container process (once \<open>exec_run\<close> had returned).
\<close>

record run =
  run_result :: pydict
  run_caught :: "exn option"
  run_container :: "container option"
  run_pooled :: bool
  run_exit_code :: "int option"
  run_execution_time :: "real option"

text \<open>Container acquisition (the \<open>if warm: ... else: ...\<close> at the head of the
  \<open>try\<close> block). The flag tells whether the container was checked out of the pool.\<close>

definition create_function_container :: "env \<Rightarrow> string \<Rightarrow> (state, container) exc" where
  "create_function_container env language =
     bind (lift (get_image_for_language language)) (\<lambda>img.
     bind (uuid4 env) (\<lambda>u.
     containers_run env img (''function-'' @ language @ ''-'' @ take 8 u) None))"

definition acquire :: "env \<Rightarrow> string \<Rightarrow> bool \<Rightarrow> (state, container \<times> bool) exc" where
  "acquire env language warm =
     (if warm then
        bind (get_container_from_pool env language) (\<lambda>got.
          case got of
            Some c \<Rightarrow> ret (c, True)
          | None \<Rightarrow>
              bind (initialize_container_pool env language) (\<lambda>_.
              bind (create_function_container env language) (\<lambda>c. ret (c, False))))
      else bind (create_function_container env language) (\<lambda>c. ret (c, False)))"

text \<open>Staging: write the code to a local file, \<open>docker cp\<close> it, remove the local file.
  The exit status of \<open>docker cp\<close> is not looked at. The result is \<open>exec_cmd\<close>, unbound
  (\<open>None\<close>) when neither branch ran.\<close>

definition docker_stage ::
  "env \<Rightarrow> string \<Rightarrow> string \<Rightarrow> container \<Rightarrow> string \<Rightarrow> (state, string option) exc" where
  "docker_stage env code language c execution_id =
     (if lower language = ''python'' then
        let filename = ''/tmp/function_'' @ execution_id @ ''.py'' in
        bind (write_file env filename code) (\<lambda>_.
        bind (os_system env (''docker cp '' @ filename @ '' '' @ c @ '':/app/function_''
                          @ execution_id @ ''.py'')) (\<lambda>status.
        bind (os_remove env filename) (\<lambda>_.
        ret (Some (''python /app/function_'' @ execution_id @ ''.py'')))))
      else if lower language = ''javascript'' \<or> lower language = ''js'' then
        let filename = ''/tmp/function_'' @ execution_id @ ''.js'' in
        bind (write_file env filename code) (\<lambda>_.
        bind (os_system env (''docker cp '' @ filename @ '' '' @ c @ '':/app/function_''
                          @ execution_id @ ''.js'')) (\<lambda>status.
        bind (os_remove env filename) (\<lambda>_.
        ret (Some (''node /app/function_'' @ execution_id @ ''.js'')))))
      else ret None)"

text \<open>\<open>b.decode('utf-8') if b else ""\<close>\<close>

definition decode_or_empty :: "env \<Rightarrow> string option \<Rightarrow> (state, string) exc" where
  "decode_or_empty env b =
     (case b of None \<Rightarrow> ret [] | Some bs \<Rightarrow> if bs = [] then ret [] else lift (decode_utf8 env bs))"

text \<open>Execution: from \<open>exec_start_time\<close> to \<open>execution_time\<close>. Returns the exit code,
  the decoded output and the measured duration in seconds.\<close>

definition execute ::
  "env \<Rightarrow> container \<Rightarrow> string option \<Rightarrow> (state, int \<times> string \<times> string \<times> real) exc" where
  "execute env c exec_cmd =
     bind (time_time env) (\<lambda>exec_start_time.
     bind (case exec_cmd of
             None \<Rightarrow> lift (Inl (UnboundLocalError
                       ''local variable 'exec_cmd' referenced before assignment''))
           | Some cmd \<Rightarrow> exec_run env c cmd) (\<lambda>(exit_code, output).
     let (out, err) = (case output of Some (a, b) \<Rightarrow> (a, b) | None \<Rightarrow> (Some [], Some [])) in
     bind (decode_or_empty env out) (\<lambda>stdout.
     bind (decode_or_empty env err) (\<lambda>stderr.
     bind (time_time env) (\<lambda>exec_end_time.
     ret (exit_code, stdout, stderr, exec_end_time - exec_start_time))))))"

text \<open>The middle of the \<open>try\<close> block of \<open>run_in_docker\<close>, from \<open>execution_id\<close>
  to \<open>execution_time\<close>.\<close>

definition docker_stage_and_execute ::
  "env \<Rightarrow> string \<Rightarrow> string \<Rightarrow> container
     \<Rightarrow> (state, string \<times> int \<times> string \<times> string \<times> real) exc" where
  "docker_stage_and_execute env code language c =
     bind (uuid4 env) (\<lambda>execution_id.
     bind (docker_stage env code language c execution_id) (\<lambda>exec_cmd.
     bind (execute env c exec_cmd) (\<lambda>r. ret (execution_id, r))))"

text \<open>Classification (\<open># Check if execution exceeded timeout\<close>): the result dictionary
  and the metrics with their \<open>error\<close> entry.\<close>

definition classify ::
  "int \<Rightarrow> string \<Rightarrow> string \<Rightarrow> real \<Rightarrow> int \<Rightarrow> pydict \<Rightarrow> pydict \<times> pydict" where
  "classify exit_code stdout stderr execution_time timeout metrics =
     (if execution_time > real_of_int timeout then
        ([''status'' \<mapsto> PStr ''timeout'',
          ''stdout'' \<mapsto> PStr stdout,
          ''stderr'' \<mapsto> PStr (''Function execution timed out after '' @ str_int timeout
                                 @ '' seconds''),
          ''exit_code'' \<mapsto> PInt (- 1)],
         metrics(''error'' \<mapsto> PStr ''timeout''))
      else
        ([''status'' \<mapsto> PStr (if exit_code = 0 then ''success'' else ''error''),
          ''stdout'' \<mapsto> PStr stdout,
          ''stderr'' \<mapsto> PStr stderr,
          ''exit_code'' \<mapsto> PInt exit_code],
         if exit_code \<noteq> 0 then metrics(''error'' \<mapsto> PStr (''exit_code_'' @ str_int exit_code))
         else metrics))"

text \<open>Teardown (\<open># Return container to pool if using warm start\<close>): in the first branch
  only the staged file is removed and the container is neither stopped nor put into the
  pool; in the second the container is stopped.\<close>

definition docker_teardown ::
  "env \<Rightarrow> bool \<Rightarrow> container \<Rightarrow> real \<Rightarrow> int \<Rightarrow> int \<Rightarrow> string \<Rightarrow> (state, unit) exc" where
  "docker_teardown env warm c execution_time timeout exit_code execution_id =
     (if (warm \<and> \<not> warm) \<or> (warm \<and> execution_time < real_of_int timeout \<and> exit_code = 0) then
        bind (exec_run env c (''rm -f /app/function_'' @ execution_id @ ''.*'')) (\<lambda>_. ret ())
      else container_stop env c)"

text \<open>The result of an \<open>except\<close> clause.\<close>

definition error_result :: "exn \<Rightarrow> pydict \<Rightarrow> pydict" where
  "error_result e metrics =
     [''status'' \<mapsto> PStr ''error'',
      ''stdout'' \<mapsto> PStr [],
      ''stderr'' \<mapsto> PStr (''Error executing function: '' @ str_exn e),
      ''exit_code'' \<mapsto> PInt (- 1),
      ''metrics'' \<mapsto> PDict metrics]"

text \<open>The \<open>except Exception as e\<close> clause of \<open>run_in_docker\<close>; the last two arguments
  are the bookkeeping values of the run record.\<close>

definition docker_except ::
  "env \<Rightarrow> container option \<Rightarrow> bool \<Rightarrow> real \<Rightarrow> pydict \<Rightarrow> exn \<Rightarrow> bool \<Rightarrow> (int \<times> real) option
     \<Rightarrow> (state, run) exc" where
  "docker_except env cont warm start_time metrics e from_pool measured =
     bind (case cont of
             Some c \<Rightarrow> if \<not> warm then swallow (container_stop env c) else ret ()
           | None \<Rightarrow> ret ()) (\<lambda>_.
     bind (time_time env) (\<lambda>end_time.
     let metrics1 = metrics(''total_time_ms'' \<mapsto> PInt (py_int ((end_time - start_time) * 1000)));
         metrics2 = metrics1(''error'' \<mapsto> PStr (str_exn e))
     in ret \<lparr>run_result = error_result e metrics2, run_caught = Some e, run_container = cont,
             run_pooled = from_pool, run_exit_code = map_option fst measured,
             run_execution_time = map_option snd measured\<rparr>))"

definition run_in_docker :: "string \<Rightarrow> string \<Rightarrow> int \<Rightarrow> bool \<Rightarrow> env \<Rightarrow> (state, run) exc" where
  "run_in_docker code language timeout warm env =
     bind (time_time env) (\<lambda>start_time.
     bind (docker_from_env env) (\<lambda>client.
     let metrics =
           [''start_time'' \<mapsto> PFloat start_time,
            ''runtime'' \<mapsto> PStr ''docker'',
            ''language'' \<mapsto> PStr language,
            ''execution_time_ms'' \<mapsto> PInt 0,
            ''initialization_time_ms'' \<mapsto> PInt 0,
            ''total_time_ms'' \<mapsto> PInt 0,
            ''warm_start'' \<mapsto> PBool warm,
            ''error'' \<mapsto> PNone]
     in (\<lambda>s. case acquire env language warm s of
          (Inl e, s1) \<Rightarrow> docker_except env None warm start_time metrics e False None s1
        | (Inr (c, from_pool), s1) \<Rightarrow>
            bind (time_time env) (\<lambda>init_end_time.
            let metrics1 = metrics(''initialization_time_ms'' \<mapsto>
                                     PInt (py_int ((init_end_time - start_time) * 1000)))
            in (\<lambda>s2. case docker_stage_and_execute env code language c s2 of
                 (Inl e, s3) \<Rightarrow>
                   docker_except env (Some c) warm start_time metrics1 e from_pool None s3
               | (Inr (execution_id, exit_code, stdout, stderr, execution_time), s3) \<Rightarrow>
                   let metrics2 = metrics1(''execution_time_ms'' \<mapsto>
                                             PInt (py_int (execution_time * 1000)));
                       (result, metrics3) =
                          classify exit_code stdout stderr execution_time timeout metrics2
                   in bind (time_time env) (\<lambda>end_time.
                      let metrics4 = metrics3(''total_time_ms'' \<mapsto>
                                                PInt (py_int ((end_time - start_time) * 1000)))
                      in (\<lambda>s4. case docker_teardown env warm c execution_time timeout exit_code
                                      execution_id s4 of
                           (Inl e, s5) \<Rightarrow>
                             docker_except env (Some c) warm start_time metrics4 e from_pool
                               (Some (exit_code, execution_time)) s5
                         | (Inr _, s5) \<Rightarrow>
                             (Inr \<lparr>run_result = result(''metrics'' \<mapsto> PDict metrics4),
                                   run_caught = None, run_container = Some c,
                                   run_pooled = from_pool, run_exit_code = Some exit_code,
                                   run_execution_time = Some execution_time\<rparr>, s5))) s3)) s1)))"

section \<open>virtualization/gvisor_runner.py: \<open>run_in_gvisor\<close>\<close>

definition gvisor_stage ::
  "env \<Rightarrow> string \<Rightarrow> string \<Rightarrow> container \<Rightarrow> string \<Rightarrow> (state, string option) exc" where
  "gvisor_stage env code language c execution_id =
     (if lower language = ''python'' then
        let filename = ''function_'' @ execution_id @ ''.py'' in
        bind (write_file env (''/tmp/'' @ filename) code) (\<lambda>_.
        bind (os_system env (''docker cp /tmp/'' @ filename @ '' '' @ c @ '':/app/'')) (\<lambda>status.
        bind (os_remove env (''/tmp/'' @ filename)) (\<lambda>_.
        ret (Some (''python /app/'' @ filename)))))
      else if lower language = ''javascript'' \<or> lower language = ''js'' then
        let filename = ''function_'' @ execution_id @ ''.js'' in
        bind (write_file env (''/tmp/'' @ filename) code) (\<lambda>_.
        bind (os_system env (''docker cp /tmp/'' @ filename @ '' '' @ c @ '':/app/'')) (\<lambda>status.
        bind (os_remove env (''/tmp/'' @ filename)) (\<lambda>_.
        ret (Some (''node /app/'' @ filename)))))
      else ret None)"

definition gvisor_stage_and_execute ::
  "env \<Rightarrow> string \<Rightarrow> string \<Rightarrow> container \<Rightarrow> (state, int \<times> string \<times> string \<times> real) exc" where
  "gvisor_stage_and_execute env code language c =
     bind (uuid4 env) (\<lambda>execution_id.
     bind (gvisor_stage env code language c execution_id) (\<lambda>exec_cmd.
     execute env c exec_cmd))"

definition gvisor_acquire :: "env \<Rightarrow> string \<Rightarrow> (state, container) exc" where
  "gvisor_acquire env language =
     bind (lift (get_image_for_language language)) (\<lambda>img.
     bind (uuid4 env) (\<lambda>u.
     containers_run env img (''gvisor-function-'' @ take 8 u) (Some ''runsc'')))"

text \<open>The \<open>except Exception as e\<close> clause of \<open>run_in_gvisor\<close>: it stops no container.\<close>

definition gvisor_except ::
  "env \<Rightarrow> container option \<Rightarrow> real \<Rightarrow> pydict \<Rightarrow> exn \<Rightarrow> (int \<times> real) option \<Rightarrow> (state, run) exc" where
  "gvisor_except env cont start_time metrics e measured =
     bind (time_time env) (\<lambda>end_time.
     let metrics1 = metrics(''total_time_ms'' \<mapsto> PInt (py_int ((end_time - start_time) * 1000)));
         metrics2 = metrics1(''error'' \<mapsto> PStr (str_exn e))
     in ret \<lparr>run_result = error_result e metrics2, run_caught = Some e, run_container = cont,
             run_pooled = False, run_exit_code = map_option fst measured,
             run_execution_time = map_option snd measured\<rparr>)"

definition run_in_gvisor :: "string \<Rightarrow> string \<Rightarrow> int \<Rightarrow> env \<Rightarrow> (state, run) exc" where
  "run_in_gvisor code language timeout env =
     bind (time_time env) (\<lambda>start_time.
     bind (docker_from_env env) (\<lambda>client.
     let metrics =
           [''start_time'' \<mapsto> PFloat start_time,
            ''runtime'' \<mapsto> PStr ''gvisor'',
            ''language'' \<mapsto> PStr language,
            ''execution_time_ms'' \<mapsto> PInt 0,
            ''initialization_time_ms'' \<mapsto> PInt 0,
            ''total_time_ms'' \<mapsto> PInt 0,
            ''error'' \<mapsto> PNone]
     in (\<lambda>s. case gvisor_acquire env language s of
          (Inl e, s1) \<Rightarrow> gvisor_except env None start_time metrics e None s1
        | (Inr c, s1) \<Rightarrow>
            bind (time_time env) (\<lambda>init_end_time.
            let metrics1 = metrics(''initialization_time_ms'' \<mapsto>
                                     PInt (py_int ((init_end_time - start_time) * 1000)))
            in (\<lambda>s2. case gvisor_stage_and_execute env code language c s2 of
                 (Inl e, s3) \<Rightarrow> gvisor_except env (Some c) start_time metrics1 e None s3
               | (Inr (exit_code, stdout, stderr, execution_time), s3) \<Rightarrow>
                   let metrics2 = metrics1(''execution_time_ms'' \<mapsto>
                                             PInt (py_int (execution_time * 1000)));
                       (result, metrics3) =
                          classify exit_code stdout stderr execution_time timeout metrics2
                   in bind (time_time env) (\<lambda>end_time.
                      let metrics4 = metrics3(''total_time_ms'' \<mapsto>
                                                PInt (py_int ((end_time - start_time) * 1000)))
                      in (\<lambda>s4. case container_stop env c s4 of
                           (Inl e, s5) \<Rightarrow>
                             gvisor_except env (Some c) start_time metrics4 e
                               (Some (exit_code, execution_time)) s5
                         | (Inr _, s5) \<Rightarrow>
                             (Inr \<lparr>run_result = result(''metrics'' \<mapsto> PDict metrics4),
                                   run_caught = None, run_container = Some c,
                                   run_pooled = False, run_exit_code = Some exit_code,
                                   run_execution_time = Some execution_time\<rparr>, s5))) s3)) s1)))"

section \<open>backend/main.py\<close>

text \<open>A row of the table \<open>functions\<close>, and the body of an execute request.\<close>

record function_row =
  f_name :: string
  f_language :: string
  f_code :: string
  f_timeout :: int

record execute_params =
  p_runtime :: "string option"
  p_warm_start :: "bool option"

text \<open>\<open>execute_function\<close>, once the function has been found: run it under the chosen
  runtime and store the metrics. \<open>warm_start\<close> may be \<open>None\<close>, which every test of the
  runner takes as false.\<close>

definition execute_function ::
  "env \<Rightarrow> function_row \<Rightarrow> execute_params \<Rightarrow> ExecutionMetric list
     \<Rightarrow> (state, run \<times> ExecutionMetric list) exc" where
  "execute_function env func params db =
     bind (if p_runtime params = Some ''gvisor'' then
             run_in_gvisor (f_code func) (f_language func) (f_timeout func) env
           else
             run_in_docker (f_code func) (f_language func) (f_timeout func)
               (p_warm_start params = Some True) env) (\<lambda>r.
     bind (utcnow env) (\<lambda>now.
     ret (r, save_execution_metrics db (f_name func) (run_result r) now)))"

text \<open>The two loops of \<open>compare_runtimes\<close>, over \<open>range(iterations)\<close>.\<close>

fun docker_iterations ::
  "env \<Rightarrow> function_row \<Rightarrow> nat list \<Rightarrow> ExecutionMetric list
     \<Rightarrow> (state, pydict list \<times> ExecutionMetric list) exc" where
  "docker_iterations env func [] db = ret ([], db)"
| "docker_iterations env func (i # rest) db =
     bind (run_in_docker (f_code func) (f_language func) (f_timeout func) (0 < i) env) (\<lambda>r.
     bind (utcnow env) (\<lambda>now.
     bind (docker_iterations env func rest
             (save_execution_metrics db (f_name func) (run_result r) now)) (\<lambda>(results, db').
     ret (run_result r # results, db'))))"

fun gvisor_iterations ::
  "env \<Rightarrow> function_row \<Rightarrow> nat list \<Rightarrow> ExecutionMetric list
     \<Rightarrow> (state, pydict list \<times> ExecutionMetric list) exc" where
  "gvisor_iterations env func [] db = ret ([], db)"
| "gvisor_iterations env func (i # rest) db =
     bind (run_in_gvisor (f_code func) (f_language func) (f_timeout func) env) (\<lambda>r.
     bind (utcnow env) (\<lambda>now.
     bind (gvisor_iterations env func rest
             (save_execution_metrics db (f_name func) (run_result r) now)) (\<lambda>(results, db').
     ret (run_result r # results, db'))))"

text \<open>Pure computations that may raise.\<close>

definition and_then :: "exn + 'a \<Rightarrow> ('a \<Rightarrow> exn + 'b) \<Rightarrow> exn + 'b" where
  "and_then r f = (case r of Inl e \<Rightarrow> Inl e | Inr x \<Rightarrow> f x)"

fun all_or_raise :: "(exn + 'a) list \<Rightarrow> exn + 'a list" where
  "all_or_raise [] = Inr []"
| "all_or_raise (r # rs) = and_then r (\<lambda>x. and_then (all_or_raise rs) (\<lambda>xs. Inr (x # xs)))"

text \<open>\<open>r['metrics'][key]\<close>, \<open>statistics.mean\<close>, \<open>min\<close>, \<open>max\<close> and true division.\<close>

definition metric_of :: "string \<Rightarrow> pydict \<Rightarrow> exn + int" where
  "metric_of key r =
     (case r ''metrics'' of
        Some (PDict m) \<Rightarrow>
          (case m key of
             Some (PInt n) \<Rightarrow> Inr n
           | Some v \<Rightarrow> Inl (TypeError ''unsupported operand'')
           | None \<Rightarrow> Inl (KeyError key))
      | Some v \<Rightarrow> Inl (TypeError ''not subscriptable'')
      | None \<Rightarrow> Inl (KeyError ''metrics''))"

definition mean_or_raise :: "int list \<Rightarrow> exn + real" where
  "mean_or_raise xs =
     (if xs = [] then Inl (StatisticsError ''mean requires at least one data point'')
      else Inr (py_mean xs))"

definition min_or_raise :: "int list \<Rightarrow> exn + int" where
  "min_or_raise xs =
     (case xs of [] \<Rightarrow> Inl (ValueError ''min() arg is an empty sequence'')
      | x # rest \<Rightarrow> Inr (fold min rest x))"

definition max_or_raise :: "int list \<Rightarrow> exn + int" where
  "max_or_raise xs =
     (case xs of [] \<Rightarrow> Inl (ValueError ''max() arg is an empty sequence'')
      | x # rest \<Rightarrow> Inr (fold max rest x))"

definition py_div :: "real \<Rightarrow> real \<Rightarrow> exn + real" where
  "py_div a b = (if b = 0 then Inl ZeroDivisionError else Inr (a / b))"

text \<open>The statistics of one runtime (\<open>docker_stats\<close>, \<open>gvisor_stats\<close>).\<close>

record stats =
  avg_init_time_ms :: real
  avg_exec_time_ms :: real
  avg_total_time_ms :: real
  min_total_time_ms :: int
  max_total_time_ms :: int
  success_rate :: real

definition runtime_stats :: "pydict list \<Rightarrow> nat \<Rightarrow> exn + stats" where
  "runtime_stats results iterations =
     and_then (all_or_raise (map (metric_of ''initialization_time_ms'') results)) (\<lambda>init_times.
     and_then (all_or_raise (map (metric_of ''execution_time_ms'') results)) (\<lambda>exec_times.
     and_then (all_or_raise (map (metric_of ''total_time_ms'') results)) (\<lambda>total_times.
     and_then (mean_or_raise init_times) (\<lambda>avg_init.
     and_then (mean_or_raise exec_times) (\<lambda>avg_exec.
     and_then (mean_or_raise total_times) (\<lambda>avg_total.
     and_then (min_or_raise total_times) (\<lambda>min_total.
     and_then (max_or_raise total_times) (\<lambda>max_total.
     and_then (py_div (real (count_if (\<lambda>r. r ''status'' = Some (PStr ''success'')) results))
                      (real iterations)) (\<lambda>rate.
     Inr \<lparr>avg_init_time_ms = avg_init, avg_exec_time_ms = avg_exec,
          avg_total_time_ms = avg_total, min_total_time_ms = min_total,
          max_total_time_ms = max_total, success_rate = rate\<rparr>)))))))))"

text \<open>The dictionary \<open>comparison\<close>; \<open>difference_percent\<close> holds the three percentages
  \<open>init_time\<close>, \<open>exec_time\<close> and \<open>total_time\<close>.\<close>

record comparison =
  cmp_iterations :: nat
  cmp_docker :: stats
  cmp_gvisor :: stats
  cmp_difference_percent :: "real \<times> real \<times> real"
  cmp_recommendation :: string

definition compare_stats :: "nat \<Rightarrow> stats \<Rightarrow> stats \<Rightarrow> exn + comparison" where
  "compare_stats iterations docker_stats gvisor_stats =
     and_then (py_div (avg_init_time_ms gvisor_stats - avg_init_time_ms docker_stats)
                      (avg_init_time_ms docker_stats)) (\<lambda>d_init.
     and_then (py_div (avg_exec_time_ms gvisor_stats - avg_exec_time_ms docker_stats)
                      (avg_exec_time_ms docker_stats)) (\<lambda>d_exec.
     and_then (py_div (avg_total_time_ms gvisor_stats - avg_total_time_ms docker_stats)
                      (avg_total_time_ms docker_stats)) (\<lambda>d_total.
     Inr \<lparr>cmp_iterations = iterations,
          cmp_docker = docker_stats,
          cmp_gvisor = gvisor_stats,
          cmp_difference_percent = (d_init * 100, d_exec * 100, d_total * 100),
          cmp_recommendation =
            (if avg_total_time_ms docker_stats < avg_total_time_ms gvisor_stats
             then ''docker'' else ''gvisor'')\<rparr>)))"

text \<open>\<open>compare_runtimes\<close>, once the function has been found; the request layer admits
  \<open>1 \<le> iterations \<le> 20\<close> only.\<close>

definition compare_runtimes ::
  "env \<Rightarrow> function_row \<Rightarrow> nat \<Rightarrow> ExecutionMetric list
     \<Rightarrow> (state, comparison \<times> ExecutionMetric list) exc" where
  "compare_runtimes env func iterations db =
     bind (docker_iterations env func [0..<iterations] db) (\<lambda>(docker_results, db1).
     bind (gvisor_iterations env func [0..<iterations] db1) (\<lambda>(gvisor_results, db2).
     bind (lift (runtime_stats docker_results iterations)) (\<lambda>docker_stats.
     bind (lift (runtime_stats gvisor_results iterations)) (\<lambda>gvisor_stats.
     bind (lift (compare_stats iterations docker_stats gvisor_stats)) (\<lambda>comparison.
     ret (comparison, db2))))))"

section \<open>The pool as a transition system\<close>

text \<open>
  Threads interleave, but every read and write of \<open>container_pools\<close> happens in one of
  the four blocks under \<open>pool_lock\<close>, and each block runs to its end before another
  starts. The states the pool can be in are therefore those reached from the empty
  dictionary by running locked blocks, in any order, with any arguments and any answers
  of the outside, and by steps outside the lock, which leave the dictionary alone.
\<close>

inductive pool_reachable :: "state \<Rightarrow> bool" where
  start: "container_pools s = [] \<Longrightarrow> pool_reachable s"
| init: "pool_reachable s \<Longrightarrow> pool_reachable (snd (init_locked env language s))"
| add: "pool_reachable s \<Longrightarrow> pool_reachable (snd (add_locked env language c s))"
| get: "pool_reachable s \<Longrightarrow> pool_reachable (snd (get_locked env language s))"
| clean: "pool_reachable s \<Longrightarrow> pool_reachable (snd (clean_locked env current_time s))"
| unlocked: "pool_reachable s \<Longrightarrow> container_pools s' = container_pools s \<Longrightarrow> pool_reachable s'"

definition pools_bounded :: "(string \<times> pool) list \<Rightarrow> bool" where
  "pools_bounded pools = (\<forall>(k, p) \<in> set pools. length (containers p) \<le> max_pool_size)"

section \<open>A concrete outside world\<close>

text \<open>
  An environment for running the model on concrete inputs: the clock advances by one
  second per call, every engine and file-system call succeeds (\<open>docker cp\<close> with exit
  status 0), the \<open>k\<close>-th call creates the container \<open>c<k>\<close>, and the in-container
  process prints a greeting and exits with code 0. The concrete runs below vary it
  field by field.
\<close>

definition sample_env :: env where
  "sample_env =
     \<lparr>clock = (\<lambda>k. real k),
      utc_clock = (\<lambda>k. real k),
      uuid = (\<lambda>k. ''0f8fad5b-d9cb-469f-a165-70867728950e''),
      run_outcome = (\<lambda>k. Inr (CHR ''c'' # str_nat k)),
      stop_outcome = (\<lambda>k. Inr ()),
      write_outcome = (\<lambda>k. Inr ()),
      remove_outcome = (\<lambda>k. Inr ()),
      exec_outcome = (\<lambda>k. Inr (0, Some (Some ''Hello, World!'', None))),
      from_env_outcome = (\<lambda>k. Inr ()),
      system_outcome = (\<lambda>k. 0),
      decode_utf8 = (\<lambda>b. Inr b)\<rparr>"

definition empty_state :: state where
  "empty_state = \<lparr>steps = 0, container_pools = [], trace = []\<rparr>"

text \<open>A state whose python bucket holds five idle containers.\<close>

definition full_state :: state where
  "full_state =
     \<lparr>steps = 11,
      container_pools =
        [(''python_pool'',
          \<lparr>containers =
             [\<lparr>pe_container = ''a'', pe_created_at = 1, pe_id = ''a''\<rparr>,
              \<lparr>pe_container = ''b'', pe_created_at = 3, pe_id = ''b''\<rparr>,
              \<lparr>pe_container = ''c'', pe_created_at = 5, pe_id = ''c''\<rparr>,
              \<lparr>pe_container = ''d'', pe_created_at = 7, pe_id = ''d''\<rparr>,
              \<lparr>pe_container = ''e'', pe_created_at = 9, pe_id = ''e''\<rparr>],
           last_accessed = 10\<rparr>)],
      trace = []\<rparr>"

text \<open>Reading a returned dictionary: \<open>result['metrics']\<close> as a dictionary, and the
  fields of what a runner returned (nothing when it raised).\<close>

definition metrics_of :: "pydict \<Rightarrow> pydict" where
  "metrics_of result = (case result ''metrics'' of Some (PDict m) \<Rightarrow> m | _ \<Rightarrow> Map.empty)"

text \<open>A populated metrics block: the runtime and language tags, the start time, the
  three durations and the \<open>error\<close> entry are there, each with a value of its type.\<close>

definition populated :: "string \<Rightarrow> string \<Rightarrow> pydict \<Rightarrow> bool" where
  "populated rt language m =
     (m ''runtime'' = Some (PStr rt) \<and> m ''language'' = Some (PStr language)
      \<and> (\<exists>t. m ''start_time'' = Some (PFloat t))
      \<and> (\<exists>n. m ''initialization_time_ms'' = Some (PInt n))
      \<and> (\<exists>n. m ''execution_time_ms'' = Some (PInt n))
      \<and> (\<exists>n. m ''total_time_ms'' = Some (PInt n))
      \<and> (m ''error'' = Some PNone \<or> (\<exists>msg. m ''error'' = Some (PStr msg))))"

definition run_of :: "(exn + run) \<times> state \<Rightarrow> run option" where
  "run_of out = (case fst out of Inr r \<Rightarrow> Some r | Inl e \<Rightarrow> None)"

definition run_field :: "(exn + run) \<times> state \<Rightarrow> string \<Rightarrow> pyval option" where
  "run_field out k = (case fst out of Inr r \<Rightarrow> run_result r k | Inl e \<Rightarrow> None)"

definition run_metric :: "(exn + run) \<times> state \<Rightarrow> string \<Rightarrow> pyval option" where
  "run_metric out k = (case fst out of Inr r \<Rightarrow> metrics_of (run_result r) k | Inl e \<Rightarrow> None)"

text \<open>Concrete runs. In \<open>slow_run\<close> the clock advances by 0.50025 s per call, so the
  in-container process is measured at 1.0005 s against a timeout of 1 s. In
  \<open>stop_fails_run\<close> the process succeeds and every \<open>stop\<close> raises. In
  \<open>create_fails_run\<close> the engine refuses to create a container. \<open>warm_run\<close> checks a
  container out of the full python bucket and succeeds. \<open>ruby_run\<close> asks for a language
  without a profile. In \<open>warm_write_fails_run\<close> and \<open>gvisor_write_fails_run\<close> the
  code cannot be written to the local file, under the default runtime with a pooled
  container and under the hardened runtime. In \<open>no_client_run\<close> the engine client cannot
  be built. In \<open>replenish_fails_run\<close> the pool is empty and the engine refuses the two
  containers that warm the pool up (the calls before the ninth), then creates the
  container of the run. In \<open>copy_fails_run\<close> \<open>docker cp\<close> exits with status 1 and the
  interpreter, not finding the file, exits with code 2.\<close>

definition slow_run :: "(exn + run) \<times> state" where
  "slow_run =
     run_in_docker ''import time; time.sleep(1)'' ''python'' 1 False
       (sample_env\<lparr>clock := \<lambda>k. real k * 0.50025\<rparr>) empty_state"

definition stop_fails_run :: "(exn + run) \<times> state" where
  "stop_fails_run =
     run_in_docker ''print(1)'' ''python'' 30 False
       (sample_env\<lparr>stop_outcome := \<lambda>k. Inl (EngineError ''No such container'')\<rparr>) empty_state"

definition create_fails_run :: "(exn + run) \<times> state" where
  "create_fails_run =
     run_in_docker ''print(1)'' ''python'' 30 False
       (sample_env\<lparr>run_outcome := \<lambda>k. Inl (EngineError ''Cannot connect to the Docker daemon'')\<rparr>)
       empty_state"

definition warm_run :: "(exn + run) \<times> state" where
  "warm_run = run_in_docker ''print(1)'' ''python'' 30 True sample_env full_state"

definition ruby_run :: "(exn + run) \<times> state" where
  "ruby_run = run_in_docker ''puts 1'' ''ruby'' 30 True sample_env empty_state"

definition warm_write_fails_run :: "(exn + run) \<times> state" where
  "warm_write_fails_run =
     run_in_docker ''print(1)'' ''python'' 30 True
       (sample_env\<lparr>write_outcome := \<lambda>k. Inl (OSError ''No space left on device'')\<rparr>) full_state"

definition gvisor_write_fails_run :: "(exn + run) \<times> state" where
  "gvisor_write_fails_run =
     run_in_gvisor ''print(1)'' ''python'' 30
       (sample_env\<lparr>write_outcome := \<lambda>k. Inl (OSError ''No space left on device'')\<rparr>) empty_state"

definition no_client_run :: "(exn + run) \<times> state" where
  "no_client_run =
     run_in_docker ''print(1)'' ''python'' 30 False
       (sample_env\<lparr>from_env_outcome :=
          \<lambda>k. Inl (EngineError ''Error while fetching server API version'')\<rparr>) empty_state"

definition replenish_fails_run :: "(exn + run) \<times> state" where
  "replenish_fails_run =
     run_in_docker ''print(1)'' ''python'' 30 True
       (sample_env\<lparr>run_outcome :=
          \<lambda>k. if k < 9 then Inl (EngineError ''Conflict: name already in use'')
              else Inr (CHR ''c'' # str_nat k)\<rparr>) empty_state"

definition copy_fails_run :: "(exn + run) \<times> state" where
  "copy_fails_run =
     run_in_docker ''print(1)'' ''python'' 30 False
       (sample_env\<lparr>system_outcome := \<lambda>k. 1,
          exec_outcome := \<lambda>k. Inr (2, Some (None, Some ''python: can't open file''))\<rparr>)
       empty_state"

section \<open>The metrics table as the program fills it\<close>

text \<open>
  \<open>save_execution_metrics\<close> is the only writer of the table, and its two callers,
  \<open>execute_function\<close> and \<open>compare_runtimes\<close>, pass it what a runner has just returned.
  The tables the program can hold are therefore those built from the empty table by
  saving results of \<open>run_in_docker\<close> and \<open>run_in_gvisor\<close>.
\<close>

inductive_set stores :: "ExecutionMetric list set" where
  empty: "[] \<in> stores"
| docker:
    "db \<in> stores \<Longrightarrow> run_in_docker code language timeout warm env s = (Inr r, s') \<Longrightarrow>
       save_execution_metrics db function_name (run_result r) now \<in> stores"
| gvisor:
    "db \<in> stores \<Longrightarrow> run_in_gvisor code language timeout env s = (Inr r, s') \<Longrightarrow>
       save_execution_metrics db function_name (run_result r) now \<in> stores"

text \<open>Concrete requests and tables: a warm execute request on the full python bucket,
  a function in a language without a profile, and the tables holding the rows of
  \<open>warm_run\<close>, of \<open>warm_run\<close> followed by \<open>slow_run\<close>, and of these two followed by
  four times \<open>create_fails_run\<close>: one success, one timeout and four errors.\<close>

definition hello_function :: function_row where
  "hello_function =
     \<lparr>f_name = ''hello'', f_language = ''python'', f_code = ''print(1)'', f_timeout = 30\<rparr>"

definition warm_execute :: "(exn + run \<times> ExecutionMetric list) \<times> state" where
  "warm_execute =
     execute_function sample_env hello_function
       \<lparr>p_runtime = Some ''docker'', p_warm_start = Some True\<rparr> [] full_state"

definition ruby_function :: function_row where
  "ruby_function =
     \<lparr>f_name = ''hello_ruby'', f_language = ''ruby'', f_code = ''puts 1'', f_timeout = 30\<rparr>"

definition one_row_db :: "ExecutionMetric list" where
  "one_row_db = save_execution_metrics [] ''hello'' (run_result (the (run_of warm_run))) 100"

definition two_row_db :: "ExecutionMetric list" where
  "two_row_db =
     save_execution_metrics one_row_db ''sleepy'' (run_result (the (run_of slow_run))) 200"

definition six_row_db :: "ExecutionMetric list" where
  "six_row_db =
     fold (\<lambda>now db. save_execution_metrics db ''broken''
                       (run_result (the (run_of create_fails_run))) now)
       [300, 400, 500, 600] two_row_db"

text \<open>Reading a field of what the aggregation returned (nothing when it raised).\<close>

definition aggregate_field :: "exn + pydict \<Rightarrow> string \<Rightarrow> pyval option" where
  "aggregate_field out k = (case out of Inr d \<Rightarrow> d k | Inl e \<Rightarrow> None)"

section \<open>Properties of the aggregation\<close>

lemma py_int_nonneg: "0 \<le> x \<Longrightarrow> py_int x = \<lfloor>x\<rfloor>"
  by (simp add: py_int_def)

lemma idx95: "0 < n \<Longrightarrow> 0 \<le> py_int (real n * 0.95) \<and> py_int (real n * 0.95) < int n"
  by (simp add: py_int_def floor_less_iff)

lemma idx99: "0 < n \<Longrightarrow> 0 \<le> py_int (real n * 0.99) \<and> py_int (real n * 0.99) < int n"
  by (simp add: py_int_def floor_less_iff)

lemma py_index_in: "0 \<le> i \<Longrightarrow> i < int (length xs) \<Longrightarrow> py_index xs i = Inr (xs ! nat i)"
  by (simp add: py_index_def)

lemma p95_lookup:
  assumes "0 < length xs"
  shows "py_index (sort xs) (py_int (real (length xs) * 0.95))
           = Inr (sort xs ! nat (py_int (real (length xs) * 0.95)))"
  using idx95[OF assms] by (intro py_index_in) simp_all

lemma p99_lookup:
  assumes "0 < length xs"
  shows "py_index (sort xs) (py_int (real (length xs) * 0.99))
           = Inr (sort xs ! nat (py_int (real (length xs) * 0.99)))"
  using idx99[OF assms] by (intro py_index_in) simp_all

lemma aggregate_total: "\<exists>d. aggregate ms = Inr d"
proof (cases "2 \<le> length (List.map_filter m_execution_time_ms ms)")
  case True
  let ?xs = "List.map_filter m_execution_time_ms ms"
  from True have pos: "0 < length ?xs" by auto
  show ?thesis
    using True p95_lookup[OF pos] p99_lookup[OF pos] by (simp add: aggregate_def Let_def)
next
  case False
  then show ?thesis by (simp add: aggregate_def Let_def)
qed

text \<open>
  Claim C10. For every list of \<open>n \<ge> 2\<close> execution times the two percentile indices
  \<open>int(n * 0.95)\<close> and \<open>int(n * 0.99)\<close> lie in \<open>[0, n)\<close>, both reads of the sorted
  list return an element, and \<open>get_aggregated_metrics\<close> returns a dictionary and never
  raises, whatever rows the query selects.
\<close>

theorem percentile_indices_in_bounds:
  assumes "2 \<le> length execution_times"
  shows "0 \<le> py_int (real (length execution_times) * 0.95)
       \<and> py_int (real (length execution_times) * 0.95) < int (length execution_times)
       \<and> 0 \<le> py_int (real (length execution_times) * 0.99)
       \<and> py_int (real (length execution_times) * 0.99) < int (length execution_times)
       \<and> (\<exists>p. py_index (sort execution_times) (py_int (real (length execution_times) * 0.95)) = Inr p)
       \<and> (\<exists>p. py_index (sort execution_times) (py_int (real (length execution_times) * 0.99)) = Inr p)
       \<and> (\<exists>d. get_aggregated_metrics db fname time_range now = Inr d)"
proof -
  from assms have pos: "0 < length execution_times" by auto
  show ?thesis
    using idx95[OF pos] idx99[OF pos] p95_lookup[OF pos] p99_lookup[OF pos]
      aggregate_total[of "query_all db fname time_range now"]
    by (simp add: get_aggregated_metrics_def)
qed

theorem percentile_indices_in_bounds_witness:
  "2 \<le> length [40, 10 :: int]
   \<and> py_int (real (length [40, 10 :: int]) * 0.95) = 1
   \<and> py_int (real (length [40, 10 :: int]) * 0.95) < int (length [40, 10 :: int])
   \<and> py_int (real (length [40, 10 :: int]) * 0.99) < int (length [40, 10 :: int])
   \<and> py_index (sort [40, 10 :: int]) (py_int (real (length [40, 10 :: int]) * 0.95)) = Inr 40"
  using percentile_indices_in_bounds[of "[40, 10]"]
  by (simp add: py_int_def py_index_def)

section \<open>The warm pool stays within its bound\<close>

lemma bind_apply: "bind m f s = (case m s of (Inl e, s') \<Rightarrow> (Inl e, s') | (Inr x, s') \<Rightarrow> f x s')"
  by (simp add: bind_def)

lemma time_time_apply: "time_time env s = (Inr (clock env (steps s)), s\<lparr>steps := Suc (steps s)\<rparr>)"
  by (simp add: time_time_def)

lemma set_update_cases:
  "(k', v') \<in> set (AList.update k v al) \<Longrightarrow> (k', v') \<in> set al \<or> (k' = k \<and> v' = v)"
  by (induction al) (auto split: if_splits)

lemma set_map_entry_cases:
  "(k', v') \<in> set (AList.map_entry k f al) \<Longrightarrow>
     (k', v') \<in> set al \<or> (k' = k \<and> (\<exists>q. map_of al k = Some q \<and> v' = f q))"
  by (induction al) (auto split: if_splits)

lemma bounded_lookup:
  "pools_bounded pools \<Longrightarrow> map_of pools k = Some p \<Longrightarrow> length (containers p) \<le> max_pool_size"
  by (auto simp: pools_bounded_def dest!: map_of_SomeD)

lemma bounded_update:
  "pools_bounded al \<Longrightarrow> length (containers v) \<le> max_pool_size \<Longrightarrow> pools_bounded (AList.update k v al)"
  by (auto simp: pools_bounded_def dest!: set_update_cases)

lemma bounded_map_entry:
  "pools_bounded al \<Longrightarrow> (\<And>q. map_of al k = Some q \<Longrightarrow> length (containers (f q)) \<le> max_pool_size)
     \<Longrightarrow> pools_bounded (AList.map_entry k f al)"
  by (auto simp: pools_bounded_def dest!: set_map_entry_cases)

lemma bounded_filter: "pools_bounded al \<Longrightarrow> pools_bounded (filter P al)"
  by (auto simp: pools_bounded_def)

lemma init_locked_bounded:
  "pools_bounded (container_pools s) \<Longrightarrow> pools_bounded (container_pools (snd (init_locked env language s)))"
  by (auto simp: init_locked_def bind_apply time_time_apply split: option.splits intro!: bounded_update)

lemma add_locked_bounded:
  "pools_bounded (container_pools s) \<Longrightarrow> pools_bounded (container_pools (snd (add_locked env language c s)))"
  by (auto simp: add_locked_def bind_apply time_time_apply container_stop_def outside_def
           split: option.splits intro!: bounded_map_entry)

lemma get_locked_bounded:
  "pools_bounded (container_pools s) \<Longrightarrow> pools_bounded (container_pools (snd (get_locked env language s)))"
  by (auto simp: get_locked_def bind_apply time_time_apply lift_def ret_def thread_start_def
           split: option.splits list.splits sum.splits intro!: bounded_map_entry dest: bounded_lookup)

lemma bind_pools:
  assumes "\<And>s. container_pools (snd (m s)) = container_pools s"
      and "\<And>x s. container_pools (snd (f x s)) = container_pools s"
  shows "container_pools (snd (bind m f s)) = container_pools s"
proof (cases "m s")
  case (Pair r s')
  have "container_pools s' = container_pools s" using assms(1)[of s] Pair by simp
  then show ?thesis using Pair assms(2) by (cases r) (simp_all add: bind_apply)
qed

lemma swallow_pools:
  assumes "\<And>s. container_pools (snd (m s)) = container_pools s"
  shows "container_pools (snd (swallow m s)) = container_pools s"
  using assms[of s] by (cases "m s") (auto simp: swallow_def split: sum.splits)

lemma outside_pools: "container_pools (snd (outside ev outcome s)) = container_pools s"
  by (simp add: outside_def)

lemma ret_pools: "container_pools (snd (ret x s)) = container_pools s"
  by (simp add: ret_def)

lemma stop_containers_pools:
  "container_pools (snd (stop_containers env cs s)) = container_pools s"
  by (induction cs arbitrary: s)
     (simp_all add: ret_pools bind_pools swallow_pools container_stop_def outside_pools)

lemma stop_expired_pools:
  "container_pools (snd (stop_expired env t ps s)) = container_pools s"
proof (induction ps arbitrary: s)
  case Nil
  then show ?case by (simp add: ret_def)
next
  case (Cons a ps)
  obtain k p where a: "a = (k, p)" by (cases a)
  show ?case
    by (simp add: a Cons.IH bind_pools stop_containers_pools ret_pools)
qed

lemma clean_locked_bounded:
  "pools_bounded (container_pools s) \<Longrightarrow> pools_bounded (container_pools (snd (clean_locked env t s)))"
  using stop_expired_pools[of env t "container_pools s" s]
  by (auto simp: clean_locked_def bind_apply split: sum.splits prod.splits intro!: bounded_filter)

lemma reachable_bounded: "pool_reachable s \<Longrightarrow> pools_bounded (container_pools s)"
proof (induction rule: pool_reachable.induct)
  case (start s)
  then show ?case by (simp add: pools_bounded_def)
qed (simp_all add: init_locked_bounded add_locked_bounded get_locked_bounded clean_locked_bounded)

lemma add_locked_full:
  assumes "map_of (container_pools s) (pool_key_of language) = Some p"
      and "max_pool_size \<le> length (containers p)"
  shows "add_locked env language c s =
           (stop_outcome env (steps s), s\<lparr>steps := Suc (steps s), trace := trace s @ [ContainerStop c]\<rparr>)"
  using assms by (simp add: add_locked_def container_stop_def outside_def)


lemma full_state_steps:
  "full_state =
     snd (add_locked sample_env ''python'' ''e''
      (snd (add_locked sample_env ''python'' ''d''
       (snd (add_locked sample_env ''python'' ''c''
        (snd (add_locked sample_env ''python'' ''b''
         (snd (add_locked sample_env ''python'' ''a''
          (snd (init_locked sample_env ''python'' empty_state)))))))))))"
  by (simp add: full_state_def empty_state_def sample_env_def init_locked_def add_locked_def
        pool_key_of_def bind_apply time_time_apply max_pool_size_def)

lemma full_state_reachable: "pool_reachable full_state"
  unfolding full_state_steps
  by (intro pool_reachable.add pool_reachable.init pool_reachable.start) (simp add: empty_state_def)

text \<open>
  Claim C9. In every state the pool can reach, no bucket holds more than
  \<open>max_pool_size = 5\<close> idle containers; and when the locked block of
  \<open>add_container_to_pool\<close> finds its bucket full, it leaves \<open>container_pools\<close> as it
  is and calls \<open>stop\<close> on the container it was given.
\<close>

theorem pool_never_exceeds_max_size:
  assumes "pool_reachable s"
  shows "max_pool_size = 5
       \<and> (\<forall>(k, p) \<in> set (container_pools s). length (containers p) \<le> max_pool_size)
       \<and> (\<forall>env language c p.
             map_of (container_pools s) (pool_key_of language) = Some p
               \<and> max_pool_size \<le> length (containers p) \<longrightarrow>
             add_locked env language c s =
               (stop_outcome env (steps s),
                s\<lparr>steps := Suc (steps s), trace := trace s @ [ContainerStop c]\<rparr>))"
  using reachable_bounded[OF assms] add_locked_full
  by (auto simp: pools_bounded_def max_pool_size_def)

theorem pool_never_exceeds_max_size_witness:
  "pool_reachable full_state
   \<and> map (\<lambda>(k, p). (k, length (containers p))) (container_pools full_state) = [(''python_pool'', 5)]
   \<and> (5 :: nat) \<le> max_pool_size
   \<and> add_locked sample_env ''python'' ''f'' full_state =
        (Inr (), full_state\<lparr>steps := 12, trace := [ContainerStop ''f'']\<rparr>)"
proof -
  note T = pool_never_exceeds_max_size[OF full_state_reachable]
  have full: "map_of (container_pools full_state) (pool_key_of ''python'')
                = Some (snd (hd (container_pools full_state)))
              \<and> max_pool_size \<le> length (containers (snd (hd (container_pools full_state))))"
    by (simp add: full_state_def pool_key_of_def max_pool_size_def)
  have bound: "\<forall>(k, p) \<in> set (container_pools full_state). length (containers p) \<le> 5"
    using T by simp
  have stop: "add_locked sample_env ''python'' ''f'' full_state =
      (stop_outcome sample_env (steps full_state),
       full_state\<lparr>steps := Suc (steps full_state), trace := trace full_state @ [ContainerStop ''f'']\<rparr>)"
    using T full by blast
  have shape: "map (\<lambda>(k, p). (k, length (containers p))) (container_pools full_state)
                 = [(''python_pool'', 5)]"
    by (simp add: full_state_def)
  have vals: "stop_outcome sample_env (steps full_state) = Inr ()
              \<and> Suc (steps full_state) = 12 \<and> trace full_state = []"
    by (simp add: full_state_def sample_env_def)
  have m: "(5 :: nat) \<le> max_pool_size" using T by simp
  show ?thesis using full_state_reachable stop shape vals m by simp
qed

section \<open>What the runners return\<close>

lemma docker_except_eq:
  "docker_except env cont warm start_time metrics e from_pool measured s =
     (let stops = (case cont of Some c \<Rightarrow> if warm then [] else [ContainerStop c] | None \<Rightarrow> []);
          k = steps s + length stops
      in (Inr \<lparr>run_result = error_result e
                 (metrics(''total_time_ms'' \<mapsto> PInt (py_int ((clock env k - start_time) * 1000)),
                          ''error'' \<mapsto> PStr (str_exn e))),
               run_caught = Some e, run_container = cont, run_pooled = from_pool,
               run_exit_code = map_option fst measured,
               run_execution_time = map_option snd measured\<rparr>,
          s\<lparr>steps := Suc k, trace := trace s @ stops\<rparr>))"
  by (cases cont; cases "stop_outcome env (steps s)")
     (simp_all add: docker_except_def bind_apply time_time_apply ret_def swallow_def
        container_stop_def outside_def Let_def)

lemma gvisor_except_eq:
  "gvisor_except env cont start_time metrics e measured s =
     (Inr \<lparr>run_result = error_result e
              (metrics(''total_time_ms'' \<mapsto> PInt (py_int ((clock env (steps s) - start_time) * 1000)),
                       ''error'' \<mapsto> PStr (str_exn e))),
           run_caught = Some e, run_container = cont, run_pooled = False,
           run_exit_code = map_option fst measured,
           run_execution_time = map_option snd measured\<rparr>,
      s\<lparr>steps := Suc (steps s)\<rparr>)"
  by (simp add: gvisor_except_def bind_apply time_time_apply ret_def Let_def)


lemma classify_status:
  "fst (classify x out err t timeout m) ''status'' =
     Some (PStr (if t > real_of_int timeout then ''timeout'' else if x = 0 then ''success'' else ''error''))"
  by (simp add: classify_def)

lemma classify_exit_code:
  "fst (classify x out err t timeout m) ''exit_code'' =
     Some (PInt (if t > real_of_int timeout then - 1 else x))"
  by (simp add: classify_def)

lemma classify_error:
  "snd (classify x out err t timeout m) ''error'' =
     (if t > real_of_int timeout then Some (PStr ''timeout'')
      else if x \<noteq> 0 then Some (PStr (''exit_code_'' @ str_int x)) else m ''error'')"
  by (simp add: classify_def)

lemma classify_other:
  "k \<noteq> ''error'' \<Longrightarrow> snd (classify x out err t timeout m) k = m k"
  by (simp add: classify_def)

lemma classify_no_metrics: "fst (classify x out err t timeout m) ''metrics'' = None"
  by (simp add: classify_def)

text \<open>\<open>docker.from_env()\<close> runs before the \<open>try\<close> block: what it raises leaves the
  runner, and a runner that returned had its client built.\<close>

lemma docker_from_env_apply:
  "docker_from_env env s = (from_env_outcome env (steps s), s\<lparr>steps := Suc (steps s)\<rparr>)"
  by (simp add: docker_from_env_def)

lemma run_in_docker_no_client:
  assumes "from_env_outcome env (Suc (steps s)) = Inl e"
  shows "run_in_docker code language timeout warm env s
           = (Inl e, s\<lparr>steps := Suc (Suc (steps s))\<rparr>)"
  using assms by (simp add: run_in_docker_def bind_apply time_time_apply docker_from_env_apply)

lemma run_in_gvisor_no_client:
  assumes "from_env_outcome env (Suc (steps s)) = Inl e"
  shows "run_in_gvisor code language timeout env s
           = (Inl e, s\<lparr>steps := Suc (Suc (steps s))\<rparr>)"
  using assms by (simp add: run_in_gvisor_def bind_apply time_time_apply docker_from_env_apply)

lemma run_in_docker_client:
  assumes "run_in_docker code language timeout warm env s = (Inr r, s')"
  shows "from_env_outcome env (Suc (steps s)) = Inr ()"
proof (cases "from_env_outcome env (Suc (steps s))")
  case (Inl e)
  from run_in_docker_no_client[OF this, of code language timeout warm] assms show ?thesis by simp
qed simp

lemma run_in_gvisor_client:
  assumes "run_in_gvisor code language timeout env s = (Inr r, s')"
  shows "from_env_outcome env (Suc (steps s)) = Inr ()"
proof (cases "from_env_outcome env (Suc (steps s))")
  case (Inl e)
  from run_in_gvisor_no_client[OF this, of code language timeout] assms show ?thesis by simp
qed simp

lemma run_in_docker_shape:
  assumes "from_env_outcome env (Suc (steps s)) = Inr ()"
  shows "\<exists>r s'. run_in_docker code language timeout warm env s = (Inr r, s')
     \<and> populated ''docker'' language (metrics_of (run_result r))
     \<and> metrics_of (run_result r) ''cold_start'' = None
     \<and> (case run_caught r of
          Some e \<Rightarrow>
            run_result r = error_result e (metrics_of (run_result r))
            \<and> metrics_of (run_result r) ''error'' = Some (PStr (str_exn e))
        | None \<Rightarrow>
            (\<exists>x t out err. run_exit_code r = Some x \<and> run_execution_time r = Some t
               \<and> run_container r \<noteq> None
               \<and> run_result r = (fst (classify x out err t timeout Map.empty))
                                   (''metrics'' \<mapsto> PDict (metrics_of (run_result r)))
               \<and> metrics_of (run_result r) ''error'' =
                   snd (classify x out err t timeout [''error'' \<mapsto> PNone]) ''error''
               \<and> metrics_of (run_result r) ''execution_time_ms'' = Some (PInt (py_int (t * 1000)))))"
  using assms
  apply (simp add: run_in_docker_def bind_apply time_time_apply docker_from_env_apply
       docker_except_eq Let_def split: prod.splits sum.splits)
  apply (auto simp: populated_def metrics_of_def error_result_def classify_def)
  done

lemma run_in_gvisor_shape:
  assumes "from_env_outcome env (Suc (steps s)) = Inr ()"
  shows "\<exists>r s'. run_in_gvisor code language timeout env s = (Inr r, s')
     \<and> populated ''gvisor'' language (metrics_of (run_result r))
     \<and> metrics_of (run_result r) ''cold_start'' = None
     \<and> (case run_caught r of
          Some e \<Rightarrow>
            run_result r = error_result e (metrics_of (run_result r))
            \<and> metrics_of (run_result r) ''error'' = Some (PStr (str_exn e))
        | None \<Rightarrow>
            (\<exists>x t out err. run_exit_code r = Some x \<and> run_execution_time r = Some t
               \<and> run_container r \<noteq> None
               \<and> run_result r = (fst (classify x out err t timeout Map.empty))
                                   (''metrics'' \<mapsto> PDict (metrics_of (run_result r)))
               \<and> metrics_of (run_result r) ''error'' =
                   snd (classify x out err t timeout [''error'' \<mapsto> PNone]) ''error''
               \<and> metrics_of (run_result r) ''execution_time_ms'' = Some (PInt (py_int (t * 1000)))))"
  using assms
  apply (simp add: run_in_gvisor_def bind_apply time_time_apply docker_from_env_apply
       gvisor_except_eq Let_def split: prod.splits sum.splits)
  apply (auto simp: populated_def metrics_of_def error_result_def classify_def)
  done

lemma lift_apply: "lift r s = (r, s)"
  by (simp add: lift_def)

lemma acquire_unsupported:
  assumes "get_image_for_language language = Inl err"
  shows "\<exists>s'. acquire env language warm s = (Inl err, s') \<and> trace s' = trace s"
  using assms
  by (auto simp: acquire_def get_container_from_pool_def get_locked_def bind_apply lift_apply
        time_time_apply ret_def initialize_container_pool_def create_function_container_def
        split: option.splits list.splits)

lemma gvisor_acquire_unsupported:
  assumes "get_image_for_language language = Inl err"
  shows "gvisor_acquire env language s = (Inl err, s)"
  using assms by (simp add: gvisor_acquire_def bind_apply lift_apply)

lemma run_in_docker_unsupported:
  assumes "get_image_for_language language = Inl err"
      and ok: "from_env_outcome env (Suc (steps s)) = Inr ()"
  shows "\<exists>r s'. run_in_docker code language timeout warm env s = (Inr r, s')
           \<and> run_caught r = Some err \<and> run_container r = None
           \<and> metrics_of (run_result r) ''initialization_time_ms'' = Some (PInt 0)
           \<and> metrics_of (run_result r) ''execution_time_ms'' = Some (PInt 0)
           \<and> trace s' = trace s"
proof -
  obtain s1 where a: "acquire env language warm (s\<lparr>steps := Suc (Suc (steps s))\<rparr>) = (Inl err, s1)"
    and t: "trace s1 = trace s"
    using acquire_unsupported[OF assms(1), of env warm "s\<lparr>steps := Suc (Suc (steps s))\<rparr>"] by auto
  show ?thesis
    by (simp add: run_in_docker_def bind_apply time_time_apply docker_from_env_apply ok
          docker_except_eq Let_def a t metrics_of_def error_result_def)
qed

lemma run_in_gvisor_unsupported:
  assumes "get_image_for_language language = Inl err"
      and ok: "from_env_outcome env (Suc (steps s)) = Inr ()"
  shows "\<exists>r s'. run_in_gvisor code language timeout env s = (Inr r, s')
           \<and> run_caught r = Some err \<and> run_container r = None
           \<and> metrics_of (run_result r) ''initialization_time_ms'' = Some (PInt 0)
           \<and> metrics_of (run_result r) ''execution_time_ms'' = Some (PInt 0)
           \<and> trace s' = trace s"
  by (simp add: run_in_gvisor_def bind_apply time_time_apply docker_from_env_apply ok
        gvisor_except_eq Let_def gvisor_acquire_unsupported[OF assms(1)] metrics_of_def
        error_result_def)

lemmas eval_defs = run_in_docker_def run_in_gvisor_def acquire_def gvisor_acquire_def
  create_function_container_def bind_apply time_time_apply docker_from_env_apply
  uuid4_def containers_run_def outside_def lift_def ret_def get_image_for_language_def lower_def lower_char_def
  docker_stage_and_execute_def gvisor_stage_and_execute_def gvisor_stage_def
  docker_stage_def write_file_def os_system_def os_remove_def execute_def exec_run_def decode_or_empty_def
  classify_def docker_teardown_def container_stop_def docker_except_eq gvisor_except_eq error_result_def
  get_container_from_pool_def get_locked_def initialize_container_pool_def init_locked_def add_container_to_pool_def
  add_locked_def thread_start_def pool_key_of_def max_pool_size_def swallow_def
  sample_env_def empty_state_def full_state_def Let_def py_int_def str_nat.simps str_int_def
  run_of_def run_field_def run_metric_def metrics_of_def

lemma py_int_ge: "real_of_int n \<le> x \<Longrightarrow> n \<le> py_int x"
  by (auto simp: py_int_def le_floor_iff le_ceiling_iff intro: order_trans)

lemma py_int_le: "x \<le> real_of_int n \<Longrightarrow> py_int x \<le> n"
  by (auto simp: py_int_def floor_le_iff ceiling_le_iff)

lemma ms_timeout: "real_of_int timeout < t \<Longrightarrow> timeout * 1000 \<le> py_int (t * 1000)"
  by (rule py_int_ge) simp

lemma ms_in_time: "t \<le> real_of_int timeout \<Longrightarrow> py_int (t * 1000) \<le> timeout * 1000"
  by (rule py_int_le) simp

lemma slow_run_eval:
  "run_field slow_run ''status'' = Some (PStr ''timeout'')
   \<and> run_metric slow_run ''execution_time_ms'' = Some (PInt 1000)
   \<and> map_option run_execution_time (run_of slow_run) = Some (Some 1.0005)
   \<and> map_option run_caught (run_of slow_run) = Some None"
  by (simp add: slow_run_def eval_defs)


lemma runner_shape:
  assumes "run_in_docker code language timeout warm env s = (Inr r, s')
           \<or> run_in_gvisor code language timeout env s = (Inr r, s')"
  shows "(populated ''docker'' language (metrics_of (run_result r))
            \<or> populated ''gvisor'' language (metrics_of (run_result r)))
     \<and> metrics_of (run_result r) ''cold_start'' = None
     \<and> (case run_caught r of
          Some e \<Rightarrow>
            run_result r = error_result e (metrics_of (run_result r))
            \<and> metrics_of (run_result r) ''error'' = Some (PStr (str_exn e))
        | None \<Rightarrow>
            (\<exists>x t out err. run_exit_code r = Some x \<and> run_execution_time r = Some t
               \<and> run_container r \<noteq> None
               \<and> run_result r = (fst (classify x out err t timeout Map.empty))
                                   (''metrics'' \<mapsto> PDict (metrics_of (run_result r)))
               \<and> metrics_of (run_result r) ''error'' =
                   snd (classify x out err t timeout [''error'' \<mapsto> PNone]) ''error''
               \<and> metrics_of (run_result r) ''execution_time_ms'' = Some (PInt (py_int (t * 1000)))))"
  using assms
proof
  assume run: "run_in_docker code language timeout warm env s = (Inr r, s')"
  from run_in_docker_shape[OF run_in_docker_client[OF run], of code language timeout warm] run
  show ?thesis by auto
next
  assume run: "run_in_gvisor code language timeout env s = (Inr r, s')"
  from run_in_gvisor_shape[OF run_in_gvisor_client[OF run], of code language timeout] run
  show ?thesis by auto
qed

text \<open>
  Claim C1 (as amended). The runners decide \<open>timeout\<close> on the measured seconds,
  \<open>execution_time > timeout\<close>, and store the milliseconds truncated. For every
  execution, under either runtime: a \<open>success\<close> result has
  \<open>execution_time_ms \<le> timeout * 1000\<close> and a measured time of at most \<open>timeout\<close>
  seconds; a \<open>timeout\<close> result has \<open>execution_time_ms \<ge> timeout * 1000\<close>; and when
  the \<open>except\<close> clause did not run, \<open>execution_time_ms > timeout * 1000\<close> implies
  \<open>timeout\<close>, and the status is \<open>timeout\<close> exactly when the measured time exceeds
  \<open>timeout\<close> seconds.
\<close>

theorem timeout_status_law:
  assumes "run_in_docker code language timeout warm env s = (Inr r, s')
           \<or> run_in_gvisor code language timeout env s = (Inr r, s')"
  shows "\<exists>ms. metrics_of (run_result r) ''execution_time_ms'' = Some (PInt ms)
      \<and> (run_result r ''status'' = Some (PStr ''success'') \<longrightarrow>
            ms \<le> timeout * 1000
            \<and> (\<exists>t. run_execution_time r = Some t \<and> t \<le> real_of_int timeout))
      \<and> (run_result r ''status'' = Some (PStr ''timeout'') \<longrightarrow>
            timeout * 1000 \<le> ms \<and> run_caught r = None)
      \<and> (run_caught r = None \<longrightarrow>
            (timeout * 1000 < ms \<longrightarrow> run_result r ''status'' = Some (PStr ''timeout''))
            \<and> (\<exists>t. run_execution_time r = Some t \<and> ms = py_int (t * 1000)
                  \<and> (run_result r ''status'' = Some (PStr ''timeout'') \<longleftrightarrow>
                       real_of_int timeout < t)))"
proof (cases "run_caught r")
  case None
  with runner_shape[OF assms] obtain x t out err where
    t: "run_execution_time r = Some t"
    and res: "run_result r = (fst (classify x out err t timeout Map.empty))
                               (''metrics'' \<mapsto> PDict (metrics_of (run_result r)))"
    and ms: "metrics_of (run_result r) ''execution_time_ms'' = Some (PInt (py_int (t * 1000)))"
    by auto
  have st: "run_result r ''status'' =
      Some (PStr (if t > real_of_int timeout then ''timeout'' else if x = 0 then ''success'' else ''error''))"
    by (subst res) (simp add: classify_status)
  show ?thesis
    using None t ms st ms_timeout[of timeout t] ms_in_time[of t timeout]
    by (auto split: if_splits)
next
  case (Some e)
  with runner_shape[OF assms] have
    res: "run_result r = error_result e (metrics_of (run_result r))"
    and pop: "populated ''docker'' language (metrics_of (run_result r))
            \<or> populated ''gvisor'' language (metrics_of (run_result r))"
    by auto
  have st: "run_result r ''status'' = Some (PStr ''error'')"
    by (subst res) (simp add: error_result_def)
  from pop obtain ms where "metrics_of (run_result r) ''execution_time_ms'' = Some (PInt ms)"
    by (auto simp: populated_def)
  then show ?thesis using Some st by auto
qed

theorem timeout_status_law_counterexample:
  "run_field slow_run ''status'' = Some (PStr ''timeout'')
   \<and> run_metric slow_run ''execution_time_ms'' = Some (PInt 1000)
   \<and> \<not> (1000 :: int) > 1 * 1000"
  by (simp add: slow_run_def eval_defs)

lemma run_of_docker:
  assumes "from_env_outcome env (Suc (steps s)) = Inr ()"
  shows "\<exists>r. run_of (run_in_docker code language timeout warm env s) = Some r
       \<and> run_in_docker code language timeout warm env s
           = (Inr r, snd (run_in_docker code language timeout warm env s))"
  using run_in_docker_shape[OF assms, of code language timeout warm] by (auto simp: run_of_def)

lemma sample_client:
  "from_env_outcome sample_env k = Inr ()"
  "from_env_outcome (sample_env\<lparr>clock := c\<rparr>) k = Inr ()"
  "from_env_outcome (sample_env\<lparr>stop_outcome := st\<rparr>) k = Inr ()"
  "from_env_outcome (sample_env\<lparr>run_outcome := ru\<rparr>) k = Inr ()"
  "from_env_outcome (sample_env\<lparr>write_outcome := wr\<rparr>) k = Inr ()"
  "from_env_outcome (sample_env\<lparr>system_outcome := sy, exec_outcome := ex\<rparr>) k = Inr ()"
  by (simp_all add: sample_env_def)

theorem timeout_status_law_witness:
  "run_in_docker ''import time; time.sleep(1)'' ''python'' 1 False
       (sample_env\<lparr>clock := \<lambda>k. real k * 0.50025\<rparr>) empty_state
     = (Inr (the (run_of slow_run)), snd slow_run)
   \<and> metrics_of (run_result (the (run_of slow_run))) ''execution_time_ms'' = Some (PInt 1000)
   \<and> run_result (the (run_of slow_run)) ''status'' = Some (PStr ''timeout'')
   \<and> run_caught (the (run_of slow_run)) = None
   \<and> (1 :: int) * 1000 \<le> 1000"
proof -
  have ok: "from_env_outcome (sample_env\<lparr>clock := \<lambda>k. real k * 0.50025\<rparr>)
              (Suc (steps empty_state)) = Inr ()"
    by (rule sample_client)
  have h: "run_in_docker ''import time; time.sleep(1)'' ''python'' 1 False
       (sample_env\<lparr>clock := \<lambda>k. real k * 0.50025\<rparr>) empty_state
     = (Inr (the (run_of slow_run)), snd slow_run)"
    using run_of_docker[OF ok, of "''import time; time.sleep(1)''" "''python''" 1 False]
    by (auto simp: slow_run_def)
  have st: "run_result (the (run_of slow_run)) ''status'' = Some (PStr ''timeout'')"
    using slow_run_eval by (auto simp: run_field_def run_of_def split: sum.splits)
  have ms: "metrics_of (run_result (the (run_of slow_run))) ''execution_time_ms'' = Some (PInt 1000)"
    using slow_run_eval by (auto simp: run_metric_def run_of_def split: sum.splits)
  from timeout_status_law[OF disjI1[OF h]] st ms h show ?thesis by auto
qed

lemma run_in_docker_paths:
  assumes "from_env_outcome env (Suc (steps s)) = Inr ()"
  shows "\<exists>r s'. run_in_docker code language timeout warm env s = (Inr r, s') \<and>
     (case acquire env language warm (s\<lparr>steps := Suc (Suc (steps s))\<rparr>) of
        (Inl e, s1) \<Rightarrow>
          run_caught r = Some e \<and> run_container r = None \<and> \<not> run_pooled r
          \<and> run_execution_time r = None
          \<and> trace s' = trace s1 \<and> container_pools s' = container_pools s1
      | (Inr (c, from_pool), s1) \<Rightarrow>
          run_container r = Some c \<and> run_pooled r = from_pool
          \<and> (case docker_stage_and_execute env code language c (s1\<lparr>steps := Suc (steps s1)\<rparr>) of
                (Inl e, s3) \<Rightarrow>
                  run_caught r = Some e \<and> run_execution_time r = None
                  \<and> trace s' = trace s3 @ (if warm then [] else [ContainerStop c])
                  \<and> container_pools s' = container_pools s3
              | (Inr (execution_id, x, out, err, t), s3) \<Rightarrow>
                  run_exit_code r = Some x \<and> run_execution_time r = Some t
                  \<and> (case docker_teardown env warm c t timeout x execution_id
                              (s3\<lparr>steps := Suc (steps s3)\<rparr>) of
                        (Inl e, s5) \<Rightarrow>
                          run_caught r = Some e
                          \<and> trace s' = trace s5 @ (if warm then [] else [ContainerStop c])
                          \<and> container_pools s' = container_pools s5
                      | (Inr u, s5) \<Rightarrow> run_caught r = None \<and> s' = s5)))"
  using assms
  by (simp add: run_in_docker_def bind_apply time_time_apply docker_from_env_apply
       docker_except_eq Let_def split: prod.splits sum.splits)

lemma docker_path_acquire_raises:
  assumes ok: "from_env_outcome env (Suc (steps s)) = Inr ()"
      and "acquire env language warm (s\<lparr>steps := Suc (Suc (steps s))\<rparr>) = (Inl e, s1)"
  shows "\<exists>r s'. run_in_docker code language timeout warm env s = (Inr r, s')
           \<and> run_caught r = Some e \<and> run_container r = None \<and> \<not> run_pooled r
           \<and> trace s' = trace s1 \<and> container_pools s' = container_pools s1"
  using run_in_docker_paths[OF ok, of code language timeout warm]
  by (simp only: assms(2-) prod.case sum.case) blast

lemma docker_path_stage_raises:
  assumes ok: "from_env_outcome env (Suc (steps s)) = Inr ()"
      and "acquire env language warm (s\<lparr>steps := Suc (Suc (steps s))\<rparr>) = (Inr (c, from_pool), s1)"
      and "docker_stage_and_execute env code language c (s1\<lparr>steps := Suc (steps s1)\<rparr>) = (Inl e, s3)"
  shows "\<exists>r s'. run_in_docker code language timeout warm env s = (Inr r, s')
           \<and> run_caught r = Some e \<and> run_container r = Some c \<and> run_pooled r = from_pool
           \<and> trace s' = trace s3 @ (if warm then [] else [ContainerStop c])
           \<and> container_pools s' = container_pools s3"
  using run_in_docker_paths[OF ok, of code language timeout warm]
  by (simp only: assms(2-) prod.case sum.case) blast

lemma docker_path_teardown_raises:
  assumes ok: "from_env_outcome env (Suc (steps s)) = Inr ()"
      and "acquire env language warm (s\<lparr>steps := Suc (Suc (steps s))\<rparr>) = (Inr (c, from_pool), s1)"
      and "docker_stage_and_execute env code language c (s1\<lparr>steps := Suc (steps s1)\<rparr>)
             = (Inr (execution_id, x, out, err, t), s3)"
      and "docker_teardown env warm c t timeout x execution_id (s3\<lparr>steps := Suc (steps s3)\<rparr>)
             = (Inl e, s5)"
  shows "\<exists>r s'. run_in_docker code language timeout warm env s = (Inr r, s')
           \<and> run_caught r = Some e \<and> run_container r = Some c \<and> run_pooled r = from_pool
           \<and> run_exit_code r = Some x \<and> run_execution_time r = Some t
           \<and> trace s' = trace s5 @ (if warm then [] else [ContainerStop c])
           \<and> container_pools s' = container_pools s5"
  using run_in_docker_paths[OF ok, of code language timeout warm]
  by (simp only: assms(2-) prod.case sum.case) blast

lemma docker_path_returns:
  assumes ok: "from_env_outcome env (Suc (steps s)) = Inr ()"
      and "acquire env language warm (s\<lparr>steps := Suc (Suc (steps s))\<rparr>) = (Inr (c, from_pool), s1)"
      and "docker_stage_and_execute env code language c (s1\<lparr>steps := Suc (steps s1)\<rparr>)
             = (Inr (execution_id, x, out, err, t), s3)"
      and "docker_teardown env warm c t timeout x execution_id (s3\<lparr>steps := Suc (steps s3)\<rparr>)
             = (Inr u, s5)"
  shows "\<exists>r. run_in_docker code language timeout warm env s = (Inr r, s5)
           \<and> run_caught r = None \<and> run_container r = Some c \<and> run_pooled r = from_pool
           \<and> run_exit_code r = Some x \<and> run_execution_time r = Some t"
  using run_in_docker_paths[OF ok, of code language timeout warm]
  by (simp only: assms(2-) prod.case sum.case) blast

text \<open>
  When no call inside the \<open>try\<close> block raises, the exit code decides between
  \<open>success\<close> and \<open>error\<close> for a process measured within the timeout, and every
  \<open>timeout\<close> result carries exit code -1 and the error tag \<open>timeout\<close>.
\<close>

lemma classification_without_exception:
  assumes "run_in_docker code language timeout warm env s = (Inr r, s')
           \<or> run_in_gvisor code language timeout env s = (Inr r, s')"
  shows "(run_caught r = None \<longrightarrow>
           (\<exists>x t. run_exit_code r = Some x \<and> run_execution_time r = Some t
              \<and> (t \<le> real_of_int timeout \<longrightarrow>
                    (run_result r ''status'' = Some (PStr ''success'') \<longleftrightarrow> x = 0)
                    \<and> (x \<noteq> 0 \<longrightarrow>
                          run_result r ''status'' = Some (PStr ''error'')
                          \<and> metrics_of (run_result r) ''error''
                              = Some (PStr (''exit_code_'' @ str_int x)))
                    \<and> (x = 0 \<longrightarrow> metrics_of (run_result r) ''error'' = Some PNone)
                    \<and> run_result r ''exit_code'' = Some (PInt x))
              \<and> (real_of_int timeout < t \<longrightarrow>
                    run_result r ''status'' = Some (PStr ''timeout''))))
       \<and> (run_result r ''status'' = Some (PStr ''timeout'') \<longrightarrow>
             run_result r ''exit_code'' = Some (PInt (- 1))
             \<and> metrics_of (run_result r) ''error'' = Some (PStr ''timeout''))"
proof (cases "run_caught r")
  case None
  with runner_shape[OF assms] obtain x t out err where
    x: "run_exit_code r = Some x" and t: "run_execution_time r = Some t"
    and res: "run_result r = (fst (classify x out err t timeout Map.empty))
                               (''metrics'' \<mapsto> PDict (metrics_of (run_result r)))"
    and er: "metrics_of (run_result r) ''error'' =
               snd (classify x out err t timeout [''error'' \<mapsto> PNone]) ''error''"
    by auto
  have st: "run_result r ''status'' =
      Some (PStr (if t > real_of_int timeout then ''timeout'' else if x = 0 then ''success'' else ''error''))"
    by (subst res) (simp add: classify_status)
  have ec: "run_result r ''exit_code'' = Some (PInt (if t > real_of_int timeout then - 1 else x))"
    by (subst res) (simp add: classify_exit_code)
  show ?thesis
    using None x t st ec er by (auto simp: classify_error split: if_splits)
next
  case (Some e)
  with runner_shape[OF assms] have
    res: "run_result r = error_result e (metrics_of (run_result r))"
    by auto
  have st: "run_result r ''status'' = Some (PStr ''error'')"
    by (subst res) (simp add: error_result_def)
  show ?thesis using Some st by auto
qed

lemma caught_fields:
  assumes "run_in_docker code language timeout warm env s = (Inr r, s')
           \<or> run_in_gvisor code language timeout env s = (Inr r, s')"
      and "run_caught r = Some e"
  shows "run_result r ''status'' = Some (PStr ''error'')"
    and "run_result r ''exit_code'' = Some (PInt (- 1))"
    and "run_result r ''stdout'' = Some (PStr [])"
    and "run_result r ''stderr'' = Some (PStr (''Error executing function: '' @ str_exn e))"
    and "metrics_of (run_result r) ''error'' = Some (PStr (str_exn e))"
proof -
  from runner_shape[OF assms(1)] assms(2) have
    res: "run_result r = error_result e (metrics_of (run_result r))"
    and er: "metrics_of (run_result r) ''error'' = Some (PStr (str_exn e))"
    by auto
  show "run_result r ''status'' = Some (PStr ''error'')"
    by (subst res) (simp add: error_result_def)
  show "run_result r ''exit_code'' = Some (PInt (- 1))"
    by (subst res) (simp add: error_result_def)
  show "run_result r ''stdout'' = Some (PStr [])"
    by (subst res) (simp add: error_result_def)
  show "run_result r ''stderr'' = Some (PStr (''Error executing function: '' @ str_exn e))"
    by (subst res) (simp add: error_result_def)
  show "metrics_of (run_result r) ''error'' = Some (PStr (str_exn e))" by (rule er)
qed

lemma stop_fails_run_eval:
  "\<exists>r s'. stop_fails_run = (Inr r, s')
     \<and> run_caught r = Some (EngineError ''No such container'')
     \<and> run_exit_code r = Some 0 \<and> run_execution_time r = Some 2
     \<and> run_container r = Some ''c3''"
proof -
  let ?E = "sample_env\<lparr>stop_outcome := \<lambda>k. Inl (EngineError ''No such container'')\<rparr>"
  let ?id = "''0f8fad5b-d9cb-469f-a165-70867728950e''"
  have ok: "from_env_outcome ?E (Suc (steps empty_state)) = Inr ()"
    by (rule sample_client)
  have "\<exists>s1. acquire ?E ''python'' False (empty_state\<lparr>steps := Suc (Suc (steps empty_state))\<rparr>)
               = (Inr (''c3'', False), s1) \<and> steps s1 = 4"
    by (simp add: eval_defs)
  then obtain s1 where a: "acquire ?E ''python'' False (empty_state\<lparr>steps := Suc (Suc (steps empty_state))\<rparr>)
               = (Inr (''c3'', False), s1)" and k1: "steps s1 = 4" by (elim exE conjE)
  have "\<exists>s3. docker_stage_and_execute ?E ''print(1)'' ''python'' ''c3'' (s1\<lparr>steps := Suc (steps s1)\<rparr>)
               = (Inr (?id, 0, ''Hello, World!'', [], 2), s3)"
    using k1 by (simp add: eval_defs)
  then obtain s3 where b: "docker_stage_and_execute ?E ''print(1)'' ''python'' ''c3'' (s1\<lparr>steps := Suc (steps s1)\<rparr>)
               = (Inr (?id, 0, ''Hello, World!'', [], 2), s3)" by (elim exE)
  have "\<exists>s5. docker_teardown ?E False ''c3'' 2 30 0 ?id (s3\<lparr>steps := Suc (steps s3)\<rparr>)
               = (Inl (EngineError ''No such container''), s5)"
    by (simp add: eval_defs)
  then obtain s5 where c: "docker_teardown ?E False ''c3'' 2 30 0 ?id (s3\<lparr>steps := Suc (steps s3)\<rparr>)
               = (Inl (EngineError ''No such container''), s5)" by (elim exE)
  show ?thesis
    using docker_path_teardown_raises[OF ok a b c] unfolding stop_fails_run_def by blast
qed

text \<open>
  Claim C5 (a defect of the code). The classification is made before the teardown, but
  the \<open>container.stop\<close> of the teardown sits unprotected inside the \<open>try\<close> block,
  unlike every other \<open>stop\<close> of \<open>runner.py\<close>: in the run below the process exits with code 0 after 2 of the 30
  seconds allowed and prints its output, \<open>stop\<close> raises, and the \<open>except\<close> clause
  replaces the classified result: status \<open>error\<close>, exit code -1, an empty stdout and
  the engine's message as error tag.
\<close>

theorem stop_failure_discards_classification:
  "map_option run_exit_code (run_of stop_fails_run) = Some (Some 0)
   \<and> map_option run_execution_time (run_of stop_fails_run) = Some (Some 2)
   \<and> (2 :: real) \<le> real_of_int 30
   \<and> run_field stop_fails_run ''status'' = Some (PStr ''error'')
   \<and> run_field stop_fails_run ''status'' \<noteq> Some (PStr ''success'')
   \<and> run_field stop_fails_run ''exit_code'' = Some (PInt (- 1))
   \<and> run_field stop_fails_run ''stdout'' = Some (PStr [])
   \<and> run_metric stop_fails_run ''error'' = Some (PStr ''No such container'')"
proof -
  from stop_fails_run_eval obtain r s' where
    run: "stop_fails_run = (Inr r, s')"
    and c: "run_caught r = Some (EngineError ''No such container'')"
    and x: "run_exit_code r = Some 0" and t: "run_execution_time r = Some 2"
    by blast
  have d: "run_in_docker ''print(1)'' ''python'' 30 False
       (sample_env\<lparr>stop_outcome := \<lambda>k. Inl (EngineError ''No such container'')\<rparr>) empty_state
       = (Inr r, s')
     \<or> run_in_gvisor ''print(1)'' ''python'' 30
       (sample_env\<lparr>stop_outcome := \<lambda>k. Inl (EngineError ''No such container'')\<rparr>) empty_state
       = (Inr r, s')"
    using run by (simp add: stop_fails_run_def)
  show ?thesis
    using caught_fields(1)[OF d c] caught_fields(2)[OF d c] caught_fields(3)[OF d c]
      caught_fields(5)[OF d c] x t
    by (simp add: run run_of_def run_field_def run_metric_def)
qed

lemma warm_run_eval:
  "\<exists>r s'. warm_run = (Inr r, s')
     \<and> run_caught r = None \<and> run_exit_code r = Some 0 \<and> run_execution_time r = Some 2
     \<and> run_container r = Some ''a'' \<and> run_pooled r
     \<and> ContainerStop ''a'' \<notin> set (trace s')
     \<and> map (\<lambda>(k, p). (k, map pe_container (containers p))) (container_pools s')
           = [(''python_pool'', [''b'', ''c'', ''d'', ''e''])]"
proof -
  let ?id = "''0f8fad5b-d9cb-469f-a165-70867728950e''"
  let ?left = "\<lambda>s. map (\<lambda>(k, p). (k, map pe_container (containers p))) (container_pools s)
                  = [(''python_pool'', [''b'', ''c'', ''d'', ''e''])]"
  have ok: "from_env_outcome sample_env (Suc (steps full_state)) = Inr ()"
    by (rule sample_client)
  have "\<exists>s1. acquire sample_env ''python'' True (full_state\<lparr>steps := Suc (Suc (steps full_state))\<rparr>)
               = (Inr (''a'', True), s1) \<and> steps s1 = 14
          \<and> ContainerStop ''a'' \<notin> set (trace s1) \<and> ?left s1"
    by (simp add: eval_defs)
  then obtain s1 where a: "acquire sample_env ''python'' True (full_state\<lparr>steps := Suc (Suc (steps full_state))\<rparr>)
               = (Inr (''a'', True), s1)" and k1: "steps s1 = 14"
     and t1: "ContainerStop ''a'' \<notin> set (trace s1)" and p1: "?left s1" by (elim exE conjE)
  have "\<exists>s3. docker_stage_and_execute sample_env ''print(1)'' ''python'' ''a'' (s1\<lparr>steps := Suc (steps s1)\<rparr>)
               = (Inr (?id, 0, ''Hello, World!'', [], 2), s3)
          \<and> ContainerStop ''a'' \<notin> set (trace s3) \<and> ?left s3"
    using k1 t1 p1 by (simp add: eval_defs)
  then obtain s3 where b: "docker_stage_and_execute sample_env ''print(1)'' ''python'' ''a'' (s1\<lparr>steps := Suc (steps s1)\<rparr>)
               = (Inr (?id, 0, ''Hello, World!'', [], 2), s3)"
     and t3: "ContainerStop ''a'' \<notin> set (trace s3)" and p3: "?left s3" by (elim exE conjE)
  have "\<exists>s5. docker_teardown sample_env True ''a'' 2 30 0 ?id (s3\<lparr>steps := Suc (steps s3)\<rparr>)
               = (Inr (), s5) \<and> ContainerStop ''a'' \<notin> set (trace s5) \<and> ?left s5"
    using t3 p3 by (simp add: eval_defs)
  then obtain s5 where c: "docker_teardown sample_env True ''a'' 2 30 0 ?id (s3\<lparr>steps := Suc (steps s3)\<rparr>)
               = (Inr (), s5)"
     and t5: "ContainerStop ''a'' \<notin> set (trace s5)" and p5: "?left s5" by (elim exE conjE)
  from docker_path_returns[OF ok a b c] obtain r where
    r: "run_in_docker ''print(1)'' ''python'' 30 True sample_env full_state = (Inr r, s5)"
      "run_caught r = None" "run_container r = Some ''a''" "run_pooled r = True"
      "run_exit_code r = Some 0" "run_execution_time r = Some 2"
    by (elim exE conjE)
  show ?thesis
    unfolding warm_run_def using r t5 p5 by (intro exI[of _ r] exI[of _ s5]) simp
qed

lemma run_in_gvisor_paths:
  assumes "from_env_outcome env (Suc (steps s)) = Inr ()"
  shows "\<exists>r s'. run_in_gvisor code language timeout env s = (Inr r, s') \<and> \<not> run_pooled r \<and>
     (case gvisor_acquire env language (s\<lparr>steps := Suc (Suc (steps s))\<rparr>) of
        (Inl e, s1) \<Rightarrow>
          run_caught r = Some e \<and> run_container r = None \<and> run_execution_time r = None
          \<and> trace s' = trace s1 \<and> container_pools s' = container_pools s1
      | (Inr c, s1) \<Rightarrow>
          run_container r = Some c
          \<and> (case gvisor_stage_and_execute env code language c (s1\<lparr>steps := Suc (steps s1)\<rparr>) of
                (Inl e, s3) \<Rightarrow>
                  run_caught r = Some e \<and> run_execution_time r = None
                  \<and> trace s' = trace s3 \<and> container_pools s' = container_pools s3
              | (Inr (x, out, err, t), s3) \<Rightarrow>
                  run_exit_code r = Some x \<and> run_execution_time r = Some t
                  \<and> trace s' = trace s3 @ [ContainerStop c]
                  \<and> container_pools s' = container_pools s3
                  \<and> (case stop_outcome env (Suc (steps s3)) of
                        Inl e \<Rightarrow> run_caught r = Some e
                      | Inr u \<Rightarrow> run_caught r = None)))"
  using assms
  by (simp add: run_in_gvisor_def bind_apply time_time_apply docker_from_env_apply
        gvisor_except_eq Let_def container_stop_def outside_def
       split: prod.splits sum.splits)

lemma unsupported_message:
  "get_image_for_language language = Inl err \<Longrightarrow>
     err = ValueError (''Unsupported language: '' @ language)"
  by (auto simp: get_image_for_language_def split: if_splits)

lemma docker_failures:
  assumes ok: "from_env_outcome env (Suc (steps s)) = Inr ()"
  shows "\<exists>r s'. run_in_docker code language timeout warm env s = (Inr r, s')
      \<and> (\<forall>e. run_caught r = Some e \<longrightarrow>
            run_result r ''status'' = Some (PStr ''error'')
            \<and> run_result r ''exit_code'' = Some (PInt (- 1))
            \<and> run_result r ''stdout'' = Some (PStr [])
            \<and> run_result r ''stderr'' = Some (PStr (''Error executing function: '' @ str_exn e))
            \<and> run_result r ''metrics'' = Some (PDict (metrics_of (run_result r)))
            \<and> populated ''docker'' language (metrics_of (run_result r))
            \<and> metrics_of (run_result r) ''error'' = Some (PStr (str_exn e)))
      \<and> (\<forall>e s1. acquire env language warm (s\<lparr>steps := Suc (Suc (steps s))\<rparr>) = (Inl e, s1) \<longrightarrow>
            run_caught r = Some e)
      \<and> (\<forall>c p s1 e s3.
            acquire env language warm (s\<lparr>steps := Suc (Suc (steps s))\<rparr>) = (Inr (c, p), s1)
            \<and> docker_stage_and_execute env code language c (s1\<lparr>steps := Suc (steps s1)\<rparr>)
                = (Inl e, s3) \<longrightarrow>
            run_caught r = Some e)
      \<and> (\<forall>c p s1 i x out err t s3 e s5.
            acquire env language warm (s\<lparr>steps := Suc (Suc (steps s))\<rparr>) = (Inr (c, p), s1)
            \<and> docker_stage_and_execute env code language c (s1\<lparr>steps := Suc (steps s1)\<rparr>)
                = (Inr (i, x, out, err, t), s3)
            \<and> docker_teardown env warm c t timeout x i (s3\<lparr>steps := Suc (steps s3)\<rparr>)
                = (Inl e, s5) \<longrightarrow>
            run_caught r = Some e)
      \<and> (\<forall>err. get_image_for_language language = Inl err \<longrightarrow>
            run_caught r = Some (ValueError (''Unsupported language: '' @ language))
            \<and> metrics_of (run_result r) ''initialization_time_ms'' = Some (PInt 0)
            \<and> metrics_of (run_result r) ''execution_time_ms'' = Some (PInt 0)
            \<and> run_container r = None \<and> trace s' = trace s)"
  (is "\<exists>r s'. ?run r s' \<and> ?A r \<and> ?B r \<and> ?C r \<and> ?D r \<and> ?U r s'")
proof -
  from run_in_docker_paths[OF ok, of code language timeout warm]
  obtain r s' where run: "?run r s'"
    and paths: "(case acquire env language warm (s\<lparr>steps := Suc (Suc (steps s))\<rparr>) of
        (Inl e, s1) \<Rightarrow>
          run_caught r = Some e \<and> run_container r = None \<and> \<not> run_pooled r
          \<and> run_execution_time r = None
          \<and> trace s' = trace s1 \<and> container_pools s' = container_pools s1
      | (Inr (c, from_pool), s1) \<Rightarrow>
          run_container r = Some c \<and> run_pooled r = from_pool
          \<and> (case docker_stage_and_execute env code language c (s1\<lparr>steps := Suc (steps s1)\<rparr>) of
                (Inl e, s3) \<Rightarrow>
                  run_caught r = Some e \<and> run_execution_time r = None
                  \<and> trace s' = trace s3 @ (if warm then [] else [ContainerStop c])
                  \<and> container_pools s' = container_pools s3
              | (Inr (execution_id, x, out, err, t), s3) \<Rightarrow>
                  run_exit_code r = Some x \<and> run_execution_time r = Some t
                  \<and> (case docker_teardown env warm c t timeout x execution_id
                              (s3\<lparr>steps := Suc (steps s3)\<rparr>) of
                        (Inl e, s5) \<Rightarrow>
                          run_caught r = Some e
                          \<and> trace s' = trace s5 @ (if warm then [] else [ContainerStop c])
                          \<and> container_pools s' = container_pools s5
                      | (Inr u, s5) \<Rightarrow> run_caught r = None \<and> s' = s5)))"
    by (elim exE conjE)
  have d: "run_in_docker code language timeout warm env s = (Inr r, s')
           \<or> run_in_gvisor code language timeout env s = (Inr r, s')"
    using run by simp
  have pop: "populated ''docker'' language (metrics_of (run_result r))"
    using run_in_docker_shape[OF ok, of code language timeout warm] run by auto
  have m: "run_result r ''metrics'' = Some (PDict (metrics_of (run_result r)))"
    if "run_caught r = Some e" for e
  proof -
    from that runner_shape[OF d]
    have res: "run_result r = error_result e (metrics_of (run_result r))" by auto
    show ?thesis by (subst res) (simp add: error_result_def)
  qed
  have A: "?A r" using caught_fields[OF d] m pop by blast
  have B: "?B r" using paths by auto
  have C: "?C r" using paths by auto
  have D: "?D r" using paths by auto
  have U: "?U r s'"
  proof (intro allI impI)
    fix err assume g: "get_image_for_language language = Inl err"
    from run_in_docker_unsupported[OF g ok, of code timeout warm] run unsupported_message[OF g]
    show "run_caught r = Some (ValueError (''Unsupported language: '' @ language))
            \<and> metrics_of (run_result r) ''initialization_time_ms'' = Some (PInt 0)
            \<and> metrics_of (run_result r) ''execution_time_ms'' = Some (PInt 0)
            \<and> run_container r = None \<and> trace s' = trace s"
      by auto
  qed
  show ?thesis using run A B C D U by blast
qed

lemma gvisor_failures:
  assumes ok: "from_env_outcome env (Suc (steps s)) = Inr ()"
  shows "\<exists>r s'. run_in_gvisor code language timeout env s = (Inr r, s')
      \<and> (\<forall>e. run_caught r = Some e \<longrightarrow>
            run_result r ''status'' = Some (PStr ''error'')
            \<and> run_result r ''exit_code'' = Some (PInt (- 1))
            \<and> run_result r ''stdout'' = Some (PStr [])
            \<and> run_result r ''stderr'' = Some (PStr (''Error executing function: '' @ str_exn e))
            \<and> run_result r ''metrics'' = Some (PDict (metrics_of (run_result r)))
            \<and> populated ''gvisor'' language (metrics_of (run_result r))
            \<and> metrics_of (run_result r) ''error'' = Some (PStr (str_exn e)))
      \<and> (\<forall>e s1. gvisor_acquire env language (s\<lparr>steps := Suc (Suc (steps s))\<rparr>) = (Inl e, s1) \<longrightarrow>
            run_caught r = Some e)
      \<and> (\<forall>c s1 e s3.
            gvisor_acquire env language (s\<lparr>steps := Suc (Suc (steps s))\<rparr>) = (Inr c, s1)
            \<and> gvisor_stage_and_execute env code language c (s1\<lparr>steps := Suc (steps s1)\<rparr>)
                = (Inl e, s3) \<longrightarrow>
            run_caught r = Some e)
      \<and> (\<forall>c s1 res s3 e s5.
            gvisor_acquire env language (s\<lparr>steps := Suc (Suc (steps s))\<rparr>) = (Inr c, s1)
            \<and> gvisor_stage_and_execute env code language c (s1\<lparr>steps := Suc (steps s1)\<rparr>)
                = (Inr res, s3)
            \<and> container_stop env c (s3\<lparr>steps := Suc (steps s3)\<rparr>) = (Inl e, s5) \<longrightarrow>
            run_caught r = Some e)
      \<and> (\<forall>err. get_image_for_language language = Inl err \<longrightarrow>
            run_caught r = Some (ValueError (''Unsupported language: '' @ language))
            \<and> metrics_of (run_result r) ''initialization_time_ms'' = Some (PInt 0)
            \<and> metrics_of (run_result r) ''execution_time_ms'' = Some (PInt 0)
            \<and> run_container r = None \<and> trace s' = trace s)"
  (is "\<exists>r s'. ?run r s' \<and> ?A r \<and> ?B r \<and> ?C r \<and> ?D r \<and> ?U r s'")
proof -
  from run_in_gvisor_paths[OF ok, of code language timeout]
  obtain r s' where run: "?run r s'"
    and paths: "(case gvisor_acquire env language (s\<lparr>steps := Suc (Suc (steps s))\<rparr>) of
        (Inl e, s1) \<Rightarrow>
          run_caught r = Some e \<and> run_container r = None \<and> run_execution_time r = None
          \<and> trace s' = trace s1 \<and> container_pools s' = container_pools s1
      | (Inr c, s1) \<Rightarrow>
          run_container r = Some c
          \<and> (case gvisor_stage_and_execute env code language c (s1\<lparr>steps := Suc (steps s1)\<rparr>) of
                (Inl e, s3) \<Rightarrow>
                  run_caught r = Some e \<and> run_execution_time r = None
                  \<and> trace s' = trace s3 \<and> container_pools s' = container_pools s3
              | (Inr (x, out, err, t), s3) \<Rightarrow>
                  run_exit_code r = Some x \<and> run_execution_time r = Some t
                  \<and> trace s' = trace s3 @ [ContainerStop c]
                  \<and> container_pools s' = container_pools s3
                  \<and> (case stop_outcome env (Suc (steps s3)) of
                        Inl e \<Rightarrow> run_caught r = Some e
                      | Inr u \<Rightarrow> run_caught r = None)))"
    by (elim exE conjE)
  have d: "run_in_docker code language timeout warm env s = (Inr r, s')
           \<or> run_in_gvisor code language timeout env s = (Inr r, s')" for warm
    using run by simp
  have pop: "populated ''gvisor'' language (metrics_of (run_result r))"
    using run_in_gvisor_shape[OF ok, of code language timeout] run by auto
  have m: "run_result r ''metrics'' = Some (PDict (metrics_of (run_result r)))"
    if "run_caught r = Some e" for e
  proof -
    from that runner_shape[OF d]
    have res: "run_result r = error_result e (metrics_of (run_result r))" by auto
    show ?thesis by (subst res) (simp add: error_result_def)
  qed
  have A: "?A r" using caught_fields[OF d] m pop by blast
  have B: "?B r" using paths by auto
  have C: "?C r" using paths by auto
  have D: "?D r" using paths by (auto simp: container_stop_def outside_def)
  have U: "?U r s'"
  proof (intro allI impI)
    fix err assume g: "get_image_for_language language = Inl err"
    from run_in_gvisor_unsupported[OF g ok, of code timeout] run unsupported_message[OF g]
    show "run_caught r = Some (ValueError (''Unsupported language: '' @ language))
            \<and> metrics_of (run_result r) ''initialization_time_ms'' = Some (PInt 0)
            \<and> metrics_of (run_result r) ''execution_time_ms'' = Some (PInt 0)
            \<and> run_container r = None \<and> trace s' = trace s"
      by auto
  qed
  show ?thesis using run A B C D U by blast
qed

lemma add_container_to_pool_result:
  "fst (add_container_to_pool env language img s)
     = (case from_env_outcome env (steps s) of Inl e \<Rightarrow> Inl e | Inr u \<Rightarrow> Inr ())"
  by (simp add: add_container_to_pool_def bind_apply docker_from_env_apply swallow_def
       split: sum.splits prod.splits)

lemma create_fails_run_eval:
  "\<exists>r s'. create_fails_run = (Inr r, s')
     \<and> run_caught r = Some (EngineError ''Cannot connect to the Docker daemon'')
     \<and> run_container r = None"
proof -
  let ?E = "sample_env\<lparr>run_outcome := \<lambda>k. Inl (EngineError ''Cannot connect to the Docker daemon'')\<rparr>"
  have ok: "from_env_outcome ?E (Suc (steps empty_state)) = Inr ()"
    by (rule sample_client)
  have "\<exists>s1. acquire ?E ''python'' False (empty_state\<lparr>steps := Suc (Suc (steps empty_state))\<rparr>)
               = (Inl (EngineError ''Cannot connect to the Docker daemon''), s1)"
    by (simp add: eval_defs)
  then obtain s1 where a: "acquire ?E ''python'' False (empty_state\<lparr>steps := Suc (Suc (steps empty_state))\<rparr>)
               = (Inl (EngineError ''Cannot connect to the Docker daemon''), s1)" by (elim exE)
  show ?thesis
    using docker_path_acquire_raises[OF ok a] unfolding create_fails_run_def by blast
qed

lemma replenish_fails_run_eval:
  "\<exists>r s'. replenish_fails_run = (Inr r, s')
     \<and> run_caught r = None \<and> run_exit_code r = Some 0 \<and> run_execution_time r = Some 2
     \<and> run_container r = Some ''c10'' \<and> \<not> run_pooled r
     \<and> map (\<lambda>(k, p). (k, map pe_container (containers p))) (container_pools s')
           = [(''python_pool'', [])]"
proof -
  let ?E = "sample_env\<lparr>run_outcome :=
          \<lambda>k. if k < 9 then Inl (EngineError ''Conflict: name already in use'')
              else Inr (CHR ''c'' # str_nat k)\<rparr>"
  let ?id = "''0f8fad5b-d9cb-469f-a165-70867728950e''"
  let ?left = "\<lambda>s. map (\<lambda>(k, p). (k, map pe_container (containers p))) (container_pools s)
                  = [(''python_pool'', [])]"
  have ok: "from_env_outcome ?E (Suc (steps empty_state)) = Inr ()"
    by (rule sample_client)
  have "\<exists>s1. acquire ?E ''python'' True (empty_state\<lparr>steps := Suc (Suc (steps empty_state))\<rparr>)
               = (Inr (''c10'', False), s1) \<and> steps s1 = 11 \<and> ?left s1"
    by (simp add: eval_defs)
  then obtain s1 where a: "acquire ?E ''python'' True (empty_state\<lparr>steps := Suc (Suc (steps empty_state))\<rparr>)
               = (Inr (''c10'', False), s1)" and k1: "steps s1 = 11" and p1: "?left s1"
    by (elim exE conjE)
  have "\<exists>s3. docker_stage_and_execute ?E ''print(1)'' ''python'' ''c10'' (s1\<lparr>steps := Suc (steps s1)\<rparr>)
               = (Inr (?id, 0, ''Hello, World!'', [], 2), s3) \<and> ?left s3"
    using k1 p1 by (simp add: eval_defs)
  then obtain s3 where b: "docker_stage_and_execute ?E ''print(1)'' ''python'' ''c10'' (s1\<lparr>steps := Suc (steps s1)\<rparr>)
               = (Inr (?id, 0, ''Hello, World!'', [], 2), s3)" and p3: "?left s3"
    by (elim exE conjE)
  have "\<exists>s5. docker_teardown ?E True ''c10'' 2 30 0 ?id (s3\<lparr>steps := Suc (steps s3)\<rparr>)
               = (Inr (), s5) \<and> ?left s5"
    using p3 by (simp add: eval_defs)
  then obtain s5 where c: "docker_teardown ?E True ''c10'' 2 30 0 ?id (s3\<lparr>steps := Suc (steps s3)\<rparr>)
               = (Inr (), s5)" and p5: "?left s5"
    by (elim exE conjE)
  from docker_path_returns[OF ok a b c] obtain r where
    r: "run_in_docker ''print(1)'' ''python'' 30 True ?E empty_state = (Inr r, s5)"
      "run_caught r = None" "run_container r = Some ''c10''" "run_pooled r = False"
      "run_exit_code r = Some 0" "run_execution_time r = Some 2"
    by (elim exE conjE)
  show ?thesis
    unfolding replenish_fails_run_def using r p5 by (intro exI[of _ r] exI[of _ s5]) simp
qed

lemma copy_fails_run_eval:
  "\<exists>r s'. copy_fails_run = (Inr r, s')
     \<and> run_caught r = None \<and> run_exit_code r = Some 2 \<and> run_execution_time r = Some 2"
proof -
  let ?E = "sample_env\<lparr>system_outcome := \<lambda>k. 1,
          exec_outcome := \<lambda>k. Inr (2, Some (None, Some ''python: can't open file''))\<rparr>"
  let ?id = "''0f8fad5b-d9cb-469f-a165-70867728950e''"
  have ok: "from_env_outcome ?E (Suc (steps empty_state)) = Inr ()"
    by (rule sample_client)
  have "\<exists>s1. acquire ?E ''python'' False (empty_state\<lparr>steps := Suc (Suc (steps empty_state))\<rparr>)
               = (Inr (''c3'', False), s1) \<and> steps s1 = 4"
    by (simp add: eval_defs)
  then obtain s1 where a: "acquire ?E ''python'' False (empty_state\<lparr>steps := Suc (Suc (steps empty_state))\<rparr>)
               = (Inr (''c3'', False), s1)" and k1: "steps s1 = 4" by (elim exE conjE)
  have "\<exists>s3. docker_stage_and_execute ?E ''print(1)'' ''python'' ''c3'' (s1\<lparr>steps := Suc (steps s1)\<rparr>)
               = (Inr (?id, 2, [], ''python: can't open file'', 2), s3)"
    using k1 by (simp add: eval_defs)
  then obtain s3 where b: "docker_stage_and_execute ?E ''print(1)'' ''python'' ''c3'' (s1\<lparr>steps := Suc (steps s1)\<rparr>)
               = (Inr (?id, 2, [], ''python: can't open file'', 2), s3)" by (elim exE)
  have "\<exists>s5. docker_teardown ?E False ''c3'' 2 30 2 ?id (s3\<lparr>steps := Suc (steps s3)\<rparr>)
               = (Inr (), s5)"
    by (simp add: eval_defs)
  then obtain s5 where c: "docker_teardown ?E False ''c3'' 2 30 2 ?id (s3\<lparr>steps := Suc (steps s3)\<rparr>)
               = (Inr (), s5)" by (elim exE)
  show ?thesis
    using docker_path_returns[OF ok a b c] unfolding copy_fails_run_def by blast
qed

text \<open>
  A \<open>docker cp\<close> that fails raises nothing, as \<open>os.system\<close> only returns its exit
  status and the runners do not read it: the run goes on, and what comes back is the
  classification of the interpreter's exit code.
\<close>

lemma copy_failure_classified_by_exit_code:
  "map_option run_caught (run_of copy_fails_run) = Some None
   \<and> run_field copy_fails_run ''status'' = Some (PStr ''error'')
   \<and> run_field copy_fails_run ''exit_code'' = Some (PInt 2)
   \<and> run_metric copy_fails_run ''error'' = Some (PStr ''exit_code_2'')"
proof -
  from copy_fails_run_eval obtain r s' where
    run: "copy_fails_run = (Inr r, s')" and c: "run_caught r = None"
    and x: "run_exit_code r = Some 2" and t: "run_execution_time r = Some 2"
    by blast
  have d: "run_in_docker ''print(1)'' ''python'' 30 False
       (sample_env\<lparr>system_outcome := \<lambda>k. 1,
          exec_outcome := \<lambda>k. Inr (2, Some (None, Some ''python: can't open file''))\<rparr>)
       empty_state = (Inr r, s')
     \<or> run_in_gvisor ''print(1)'' ''python'' 30
       (sample_env\<lparr>system_outcome := \<lambda>k. 1,
          exec_outcome := \<lambda>k. Inr (2, Some (None, Some ''python: can't open file''))\<rparr>)
       empty_state = (Inr r, s')"
    using run by (simp add: copy_fails_run_def)
  from classification_without_exception[OF d] c x t
  show ?thesis
    by (simp add: run run_of_def run_field_def run_metric_def str_int_def str_nat.simps)
qed

text \<open>
  Claim C8 (as amended). \<open>docker.from_env()\<close> runs before the \<open>try\<close> block of either
  runner: what it raises leaves the runner. Once the client is built, both runners
  return a result, and whatever acquisition, staging and execution, or teardown raise
  inside the \<open>try\<close> block is caught: the result of a caught exception \<open>e\<close> has
  status \<open>error\<close>, exit code -1, an empty stdout, the stderr
  \<open>Error executing function: <message of e>\<close>, and a populated metrics block whose
  \<open>error\<close> entry is the message of \<open>e\<close>. A language tag without a profile raises
  \<open>Unsupported language: <tag>\<close> before any call to the engine on a container: both
  times stay 0 and no container is created. A failure while a container is added to
  the pool is not a failure of the run: \<open>add_container_to_pool\<close> swallows everything
  but the exception of its own \<open>docker.from_env()\<close>.
\<close>

theorem failures_become_error_results:
  "(\<forall>e. from_env_outcome env (Suc (steps s)) = Inl e \<longrightarrow>
       fst (run_in_docker code language timeout warm env s) = Inl e
       \<and> fst (run_in_gvisor code language timeout env s) = Inl e)
   \<and> (from_env_outcome env (Suc (steps s)) = Inr () \<longrightarrow>
       (\<exists>r s'. run_in_docker code language timeout warm env s = (Inr r, s')
           \<and> (\<forall>e. run_caught r = Some e \<longrightarrow>
                 run_result r ''status'' = Some (PStr ''error'')
                 \<and> run_result r ''exit_code'' = Some (PInt (- 1))
                 \<and> run_result r ''stdout'' = Some (PStr [])
                 \<and> run_result r ''stderr'' = Some (PStr (''Error executing function: '' @ str_exn e))
                 \<and> run_result r ''metrics'' = Some (PDict (metrics_of (run_result r)))
                 \<and> populated ''docker'' language (metrics_of (run_result r))
                 \<and> metrics_of (run_result r) ''error'' = Some (PStr (str_exn e)))
           \<and> (\<forall>e s1. acquire env language warm (s\<lparr>steps := Suc (Suc (steps s))\<rparr>) = (Inl e, s1) \<longrightarrow>
                 run_caught r = Some e)
           \<and> (\<forall>c p s1 e s3.
                 acquire env language warm (s\<lparr>steps := Suc (Suc (steps s))\<rparr>) = (Inr (c, p), s1)
                 \<and> docker_stage_and_execute env code language c (s1\<lparr>steps := Suc (steps s1)\<rparr>)
                     = (Inl e, s3) \<longrightarrow>
                 run_caught r = Some e)
           \<and> (\<forall>c p s1 i x out err t s3 e s5.
                 acquire env language warm (s\<lparr>steps := Suc (Suc (steps s))\<rparr>) = (Inr (c, p), s1)
                 \<and> docker_stage_and_execute env code language c (s1\<lparr>steps := Suc (steps s1)\<rparr>)
                     = (Inr (i, x, out, err, t), s3)
                 \<and> docker_teardown env warm c t timeout x i (s3\<lparr>steps := Suc (steps s3)\<rparr>)
                     = (Inl e, s5) \<longrightarrow>
                 run_caught r = Some e)
           \<and> (\<forall>err. get_image_for_language language = Inl err \<longrightarrow>
                 run_caught r = Some (ValueError (''Unsupported language: '' @ language))
                 \<and> metrics_of (run_result r) ''initialization_time_ms'' = Some (PInt 0)
                 \<and> metrics_of (run_result r) ''execution_time_ms'' = Some (PInt 0)
                 \<and> run_container r = None \<and> trace s' = trace s))
     \<and> (\<exists>r s'. run_in_gvisor code language timeout env s = (Inr r, s')
         \<and> (\<forall>e. run_caught r = Some e \<longrightarrow>
               run_result r ''status'' = Some (PStr ''error'')
               \<and> run_result r ''exit_code'' = Some (PInt (- 1))
               \<and> run_result r ''stdout'' = Some (PStr [])
               \<and> run_result r ''stderr'' = Some (PStr (''Error executing function: '' @ str_exn e))
               \<and> run_result r ''metrics'' = Some (PDict (metrics_of (run_result r)))
               \<and> populated ''gvisor'' language (metrics_of (run_result r))
               \<and> metrics_of (run_result r) ''error'' = Some (PStr (str_exn e)))
         \<and> (\<forall>e s1. gvisor_acquire env language (s\<lparr>steps := Suc (Suc (steps s))\<rparr>) = (Inl e, s1) \<longrightarrow>
               run_caught r = Some e)
         \<and> (\<forall>c s1 e s3.
               gvisor_acquire env language (s\<lparr>steps := Suc (Suc (steps s))\<rparr>) = (Inr c, s1)
               \<and> gvisor_stage_and_execute env code language c (s1\<lparr>steps := Suc (steps s1)\<rparr>)
                   = (Inl e, s3) \<longrightarrow>
               run_caught r = Some e)
         \<and> (\<forall>c s1 res s3 e s5.
               gvisor_acquire env language (s\<lparr>steps := Suc (Suc (steps s))\<rparr>) = (Inr c, s1)
               \<and> gvisor_stage_and_execute env code language c (s1\<lparr>steps := Suc (steps s1)\<rparr>)
                   = (Inr res, s3)
               \<and> container_stop env c (s3\<lparr>steps := Suc (steps s3)\<rparr>) = (Inl e, s5) \<longrightarrow>
               run_caught r = Some e)
         \<and> (\<forall>err. get_image_for_language language = Inl err \<longrightarrow>
               run_caught r = Some (ValueError (''Unsupported language: '' @ language))
               \<and> metrics_of (run_result r) ''initialization_time_ms'' = Some (PInt 0)
               \<and> metrics_of (run_result r) ''execution_time_ms'' = Some (PInt 0)
               \<and> run_container r = None \<and> trace s' = trace s)))
   \<and> fst (add_container_to_pool env language img s)
       = (case from_env_outcome env (steps s) of Inl e \<Rightarrow> Inl e | Inr u \<Rightarrow> Inr ())"
proof (intro conjI allI impI)
  fix e assume "from_env_outcome env (Suc (steps s)) = Inl e"
  then show "fst (run_in_docker code language timeout warm env s) = Inl e"
    and "fst (run_in_gvisor code language timeout env s) = Inl e"
    by (simp_all add: run_in_docker_no_client run_in_gvisor_no_client)
next
  assume ok: "from_env_outcome env (Suc (steps s)) = Inr ()"
  show "\<exists>r s'. run_in_docker code language timeout warm env s = (Inr r, s')
          \<and> (\<forall>e. run_caught r = Some e \<longrightarrow>
                run_result r ''status'' = Some (PStr ''error'')
                \<and> run_result r ''exit_code'' = Some (PInt (- 1))
                \<and> run_result r ''stdout'' = Some (PStr [])
                \<and> run_result r ''stderr'' = Some (PStr (''Error executing function: '' @ str_exn e))
                \<and> run_result r ''metrics'' = Some (PDict (metrics_of (run_result r)))
                \<and> populated ''docker'' language (metrics_of (run_result r))
                \<and> metrics_of (run_result r) ''error'' = Some (PStr (str_exn e)))
          \<and> (\<forall>e s1. acquire env language warm (s\<lparr>steps := Suc (Suc (steps s))\<rparr>) = (Inl e, s1) \<longrightarrow>
                run_caught r = Some e)
          \<and> (\<forall>c p s1 e s3.
                acquire env language warm (s\<lparr>steps := Suc (Suc (steps s))\<rparr>) = (Inr (c, p), s1)
                \<and> docker_stage_and_execute env code language c (s1\<lparr>steps := Suc (steps s1)\<rparr>)
                    = (Inl e, s3) \<longrightarrow>
                run_caught r = Some e)
          \<and> (\<forall>c p s1 i x out err t s3 e s5.
                acquire env language warm (s\<lparr>steps := Suc (Suc (steps s))\<rparr>) = (Inr (c, p), s1)
                \<and> docker_stage_and_execute env code language c (s1\<lparr>steps := Suc (steps s1)\<rparr>)
                    = (Inr (i, x, out, err, t), s3)
                \<and> docker_teardown env warm c t timeout x i (s3\<lparr>steps := Suc (steps s3)\<rparr>)
                    = (Inl e, s5) \<longrightarrow>
                run_caught r = Some e)
          \<and> (\<forall>err. get_image_for_language language = Inl err \<longrightarrow>
                run_caught r = Some (ValueError (''Unsupported language: '' @ language))
                \<and> metrics_of (run_result r) ''initialization_time_ms'' = Some (PInt 0)
                \<and> metrics_of (run_result r) ''execution_time_ms'' = Some (PInt 0)
                \<and> run_container r = None \<and> trace s' = trace s)"
    by (rule docker_failures[OF ok])
  show "\<exists>r s'. run_in_gvisor code language timeout env s = (Inr r, s')
          \<and> (\<forall>e. run_caught r = Some e \<longrightarrow>
                run_result r ''status'' = Some (PStr ''error'')
                \<and> run_result r ''exit_code'' = Some (PInt (- 1))
                \<and> run_result r ''stdout'' = Some (PStr [])
                \<and> run_result r ''stderr'' = Some (PStr (''Error executing function: '' @ str_exn e))
                \<and> run_result r ''metrics'' = Some (PDict (metrics_of (run_result r)))
                \<and> populated ''gvisor'' language (metrics_of (run_result r))
                \<and> metrics_of (run_result r) ''error'' = Some (PStr (str_exn e)))
          \<and> (\<forall>e s1. gvisor_acquire env language (s\<lparr>steps := Suc (Suc (steps s))\<rparr>) = (Inl e, s1) \<longrightarrow>
                run_caught r = Some e)
          \<and> (\<forall>c s1 e s3.
                gvisor_acquire env language (s\<lparr>steps := Suc (Suc (steps s))\<rparr>) = (Inr c, s1)
                \<and> gvisor_stage_and_execute env code language c (s1\<lparr>steps := Suc (steps s1)\<rparr>)
                    = (Inl e, s3) \<longrightarrow>
                run_caught r = Some e)
          \<and> (\<forall>c s1 res s3 e s5.
                gvisor_acquire env language (s\<lparr>steps := Suc (Suc (steps s))\<rparr>) = (Inr c, s1)
                \<and> gvisor_stage_and_execute env code language c (s1\<lparr>steps := Suc (steps s1)\<rparr>)
                    = (Inr res, s3)
                \<and> container_stop env c (s3\<lparr>steps := Suc (steps s3)\<rparr>) = (Inl e, s5) \<longrightarrow>
                run_caught r = Some e)
          \<and> (\<forall>err. get_image_for_language language = Inl err \<longrightarrow>
                run_caught r = Some (ValueError (''Unsupported language: '' @ language))
                \<and> metrics_of (run_result r) ''initialization_time_ms'' = Some (PInt 0)
                \<and> metrics_of (run_result r) ''execution_time_ms'' = Some (PInt 0)
                \<and> run_container r = None \<and> trace s' = trace s)"
    by (rule gvisor_failures[OF ok])
next
  show "fst (add_container_to_pool env language img s)
       = (case from_env_outcome env (steps s) of Inl e \<Rightarrow> Inl e | Inr u \<Rightarrow> Inr ())"
    by (rule add_container_to_pool_result)
qed

theorem failures_become_error_results_counterexample:
  "fst no_client_run = Inl (EngineError ''Error while fetching server API version'')
   \<and> run_of no_client_run = None
   \<and> run_field no_client_run ''status'' = None
   \<and> map_option run_caught (run_of replenish_fails_run) = Some None
   \<and> map_option run_container (run_of replenish_fails_run) = Some (Some ''c10'')
   \<and> run_field replenish_fails_run ''status'' = Some (PStr ''success'')
   \<and> run_field replenish_fails_run ''exit_code'' = Some (PInt 0)
   \<and> map (\<lambda>(k, p). (k, map pe_container (containers p)))
         (container_pools (snd replenish_fails_run)) = [(''python_pool'', [])]"
proof -
  have n: "no_client_run
             = (Inl (EngineError ''Error while fetching server API version''),
                empty_state\<lparr>steps := Suc (Suc (steps empty_state))\<rparr>)"
    unfolding no_client_run_def
    by (rule run_in_docker_no_client) (simp add: sample_env_def)
  from replenish_fails_run_eval obtain r s' where
    run: "replenish_fails_run = (Inr r, s')" and c: "run_caught r = None"
    and x: "run_exit_code r = Some 0" and t: "run_execution_time r = Some 2"
    and k: "run_container r = Some ''c10''" and np: "\<not> run_pooled r"
    and p: "map (\<lambda>(k, p). (k, map pe_container (containers p))) (container_pools s')
              = [(''python_pool'', [])]"
    by (elim exE conjE)
  have d: "run_in_docker ''print(1)'' ''python'' 30 True
       (sample_env\<lparr>run_outcome :=
          \<lambda>k. if k < 9 then Inl (EngineError ''Conflict: name already in use'')
              else Inr (CHR ''c'' # str_nat k)\<rparr>) empty_state = (Inr r, s')
     \<or> run_in_gvisor ''print(1)'' ''python'' 30
       (sample_env\<lparr>run_outcome :=
          \<lambda>k. if k < 9 then Inl (EngineError ''Conflict: name already in use'')
              else Inr (CHR ''c'' # str_nat k)\<rparr>) empty_state = (Inr r, s')"
    using run by (simp add: replenish_fails_run_def)
  from classification_without_exception[OF d] c x t
  have "run_result r ''status'' = Some (PStr ''success'')"
    and "run_result r ''exit_code'' = Some (PInt 0)"
    by simp_all
  then show ?thesis
    using c k p by (simp add: n run run_of_def run_field_def)
qed

theorem failures_become_error_results_witness:
  "from_env_outcome (sample_env\<lparr>run_outcome :=
       \<lambda>k. Inl (EngineError ''Cannot connect to the Docker daemon'')\<rparr>) (Suc (steps empty_state))
     = Inr ()
   \<and> map_option run_caught (run_of create_fails_run)
     = Some (Some (EngineError ''Cannot connect to the Docker daemon''))
   \<and> run_field create_fails_run ''status'' = Some (PStr ''error'')
   \<and> run_field create_fails_run ''exit_code'' = Some (PInt (- 1))
   \<and> run_field create_fails_run ''stdout'' = Some (PStr [])
   \<and> run_field create_fails_run ''stderr''
       = Some (PStr ''Error executing function: Cannot connect to the Docker daemon'')
   \<and> run_metric create_fails_run ''error'' = Some (PStr ''Cannot connect to the Docker daemon'')
   \<and> get_image_for_language ''ruby'' = Inl (ValueError ''Unsupported language: ruby'')
   \<and> map_option run_caught (run_of ruby_run) = Some (Some (ValueError ''Unsupported language: ruby''))
   \<and> run_metric ruby_run ''initialization_time_ms'' = Some (PInt 0)
   \<and> run_metric ruby_run ''execution_time_ms'' = Some (PInt 0)
   \<and> trace (snd ruby_run) = []
   \<and> from_env_outcome (sample_env\<lparr>from_env_outcome :=
          \<lambda>k. Inl (EngineError ''Error while fetching server API version'')\<rparr>)
        (Suc (steps empty_state)) = Inl (EngineError ''Error while fetching server API version'')
   \<and> fst no_client_run = Inl (EngineError ''Error while fetching server API version'')"
proof -
  let ?E1 = "sample_env\<lparr>run_outcome := \<lambda>k. Inl (EngineError ''Cannot connect to the Docker daemon'')\<rparr>"
  let ?E3 = "sample_env\<lparr>from_env_outcome :=
          \<lambda>k. Inl (EngineError ''Error while fetching server API version'')\<rparr>"
  have ok1: "from_env_outcome ?E1 (Suc (steps empty_state)) = Inr ()"
    by (rule sample_client)
  have ok2: "from_env_outcome sample_env (Suc (steps empty_state)) = Inr ()"
    by (rule sample_client)
  have no3: "from_env_outcome ?E3 (Suc (steps empty_state))
               = Inl (EngineError ''Error while fetching server API version'')"
    by (simp add: sample_env_def)
  from create_fails_run_eval obtain r1 s1 where
    run1: "create_fails_run = (Inr r1, s1)"
    and c1: "run_caught r1 = Some (EngineError ''Cannot connect to the Docker daemon'')"
    by blast
  note t1 = failures_become_error_results[of ?E1 empty_state "''print(1)''" "''python''" 30 False]
  from conjunct1[OF conjunct1[OF conjunct2[OF t1], THEN mp, OF ok1]]
  have first: "run_result r1 ''status'' = Some (PStr ''error'')
            \<and> run_result r1 ''exit_code'' = Some (PInt (- 1))
            \<and> run_result r1 ''stdout'' = Some (PStr [])
            \<and> run_result r1 ''stderr''
                = Some (PStr ''Error executing function: Cannot connect to the Docker daemon'')
            \<and> metrics_of (run_result r1) ''error''
                = Some (PStr ''Cannot connect to the Docker daemon'')"
    using run1 c1 unfolding create_fails_run_def by auto
  have g: "get_image_for_language ''ruby'' = Inl (ValueError ''Unsupported language: ruby'')"
    by (simp add: get_image_for_language_def lower_def lower_char_def)
  note t2 = failures_become_error_results[of sample_env empty_state "''puts 1''" "''ruby''" 30 True]
  from conjunct1[OF conjunct1[OF conjunct2[OF t2], THEN mp, OF ok2]] g
  obtain r2 s2 where run2: "ruby_run = (Inr r2, s2)"
    and second: "run_caught r2 = Some (ValueError ''Unsupported language: ruby'')
            \<and> metrics_of (run_result r2) ''initialization_time_ms'' = Some (PInt 0)
            \<and> metrics_of (run_result r2) ''execution_time_ms'' = Some (PInt 0)
            \<and> trace s2 = trace empty_state"
    unfolding ruby_run_def by auto
  note t3 = failures_become_error_results[of ?E3 empty_state "''print(1)''" "''python''" 30 False]
  from conjunct1[OF t3] no3
  have third: "fst no_client_run = Inl (EngineError ''Error while fetching server API version'')"
    unfolding no_client_run_def by blast
  show ?thesis
    using ok1 no3 c1 first g second third
    by (simp add: run1 run2 run_of_def run_field_def run_metric_def empty_state_def)
qed

section \<open>What happens to the container\<close>

lemma docker_stage_and_execute_trace:
  "\<exists>evs. trace (snd (docker_stage_and_execute env code language c s)) = trace s @ evs
         \<and> (\<forall>c'. ContainerStop c' \<notin> set evs)
         \<and> container_pools (snd (docker_stage_and_execute env code language c s)) = container_pools s"
  by (auto simp: docker_stage_and_execute_def docker_stage_def execute_def decode_or_empty_def
        bind_apply time_time_apply uuid4_def write_file_def os_system_def os_remove_def exec_run_def
        outside_def ret_def lift_def Let_def
      split: sum.splits prod.splits option.splits)

lemma docker_teardown_trace:
  "trace (snd (docker_teardown env warm c t timeout x i s))
     = trace s @ [if warm \<and> t < real_of_int timeout \<and> x = 0
                  then ExecRun c (''rm -f /app/function_'' @ i @ ''.*'') else ContainerStop c]
   \<and> container_pools (snd (docker_teardown env warm c t timeout x i s)) = container_pools s"
  by (auto simp: docker_teardown_def bind_apply exec_run_def container_stop_def outside_def ret_def
      split: sum.splits prod.splits)

lemma docker_except_trace:
  "trace (snd (docker_except env cont warm start_time m e from_pool measured s))
     = trace s @ (case cont of Some c \<Rightarrow> if warm then [] else [ContainerStop c] | None \<Rightarrow> [])
   \<and> container_pools (snd (docker_except env cont warm start_time m e from_pool measured s))
       = container_pools s"
  by (simp add: docker_except_eq Let_def)

lemma gvisor_path_stage_raises:
  assumes ok: "from_env_outcome env (Suc (steps s)) = Inr ()"
      and "gvisor_acquire env language (s\<lparr>steps := Suc (Suc (steps s))\<rparr>) = (Inr c, s1)"
      and "gvisor_stage_and_execute env code language c (s1\<lparr>steps := Suc (steps s1)\<rparr>)
             = (Inl e, s3)"
  shows "\<exists>r s'. run_in_gvisor code language timeout env s = (Inr r, s')
           \<and> run_caught r = Some e \<and> run_container r = Some c
           \<and> trace s' = trace s3"
  using run_in_gvisor_paths[OF ok, of code language timeout]
  by (simp only: assms(2-) prod.case sum.case) blast

lemma warm_write_fails_run_eval:
  "\<exists>r s'. warm_write_fails_run = (Inr r, s')
     \<and> run_caught r = Some (OSError ''No space left on device'')
     \<and> run_container r = Some ''a'' \<and> run_pooled r
     \<and> ContainerStop ''a'' \<notin> set (trace s')
     \<and> map (\<lambda>(k, p). (k, map pe_container (containers p))) (container_pools s')
           = [(''python_pool'', [''b'', ''c'', ''d'', ''e''])]"
proof -
  let ?E = "sample_env\<lparr>write_outcome := \<lambda>k. Inl (OSError ''No space left on device'')\<rparr>"
  let ?left = "\<lambda>s. map (\<lambda>(k, p). (k, map pe_container (containers p))) (container_pools s)
                  = [(''python_pool'', [''b'', ''c'', ''d'', ''e''])]"
  have ok: "from_env_outcome ?E (Suc (steps full_state)) = Inr ()"
    by (rule sample_client)
  have "\<exists>s1. acquire ?E ''python'' True (full_state\<lparr>steps := Suc (Suc (steps full_state))\<rparr>)
               = (Inr (''a'', True), s1) \<and> steps s1 = 14
          \<and> ContainerStop ''a'' \<notin> set (trace s1) \<and> ?left s1"
    by (simp add: eval_defs)
  then obtain s1 where a: "acquire ?E ''python'' True (full_state\<lparr>steps := Suc (Suc (steps full_state))\<rparr>)
               = (Inr (''a'', True), s1)" and k1: "steps s1 = 14"
     and t1: "ContainerStop ''a'' \<notin> set (trace s1)" and p1: "?left s1" by (elim exE conjE)
  have "\<exists>s3. docker_stage_and_execute ?E ''print(1)'' ''python'' ''a'' (s1\<lparr>steps := Suc (steps s1)\<rparr>)
               = (Inl (OSError ''No space left on device''), s3)
          \<and> ContainerStop ''a'' \<notin> set (trace s3) \<and> ?left s3"
    using k1 t1 p1 by (simp add: eval_defs)
  then obtain s3 where b: "docker_stage_and_execute ?E ''print(1)'' ''python'' ''a'' (s1\<lparr>steps := Suc (steps s1)\<rparr>)
               = (Inl (OSError ''No space left on device''), s3)"
     and t3: "ContainerStop ''a'' \<notin> set (trace s3)" and p3: "?left s3" by (elim exE conjE)
  from docker_path_stage_raises[OF ok a b, of 30] obtain r s' where
    "run_in_docker ''print(1)'' ''python'' 30 True ?E full_state = (Inr r, s')"
    "run_caught r = Some (OSError ''No space left on device'')"
    "run_container r = Some ''a''" "run_pooled r"
    "trace s' = trace s3 @ (if True then [] else [ContainerStop ''a''])"
    "container_pools s' = container_pools s3"
    by blast
  then show ?thesis
    using t3 p3 unfolding warm_write_fails_run_def by (intro exI[of _ r] exI[of _ s']) simp
qed

lemma gvisor_write_fails_run_eval:
  "\<exists>r s'. gvisor_write_fails_run = (Inr r, s')
     \<and> run_caught r = Some (OSError ''No space left on device'')
     \<and> run_container r = Some ''c3''
     \<and> ContainerStop ''c3'' \<notin> set (trace s')"
proof -
  let ?E = "sample_env\<lparr>write_outcome := \<lambda>k. Inl (OSError ''No space left on device'')\<rparr>"
  have ok: "from_env_outcome ?E (Suc (steps empty_state)) = Inr ()"
    by (rule sample_client)
  have "\<exists>s1. gvisor_acquire ?E ''python'' (empty_state\<lparr>steps := Suc (Suc (steps empty_state))\<rparr>)
               = (Inr ''c3'', s1) \<and> steps s1 = 4
          \<and> ContainerStop ''c3'' \<notin> set (trace s1)"
    by (simp add: eval_defs)
  then obtain s1 where a: "gvisor_acquire ?E ''python'' (empty_state\<lparr>steps := Suc (Suc (steps empty_state))\<rparr>)
               = (Inr ''c3'', s1)" and k1: "steps s1 = 4"
     and t1: "ContainerStop ''c3'' \<notin> set (trace s1)" by (elim exE conjE)
  have "\<exists>s3. gvisor_stage_and_execute ?E ''print(1)'' ''python'' ''c3'' (s1\<lparr>steps := Suc (steps s1)\<rparr>)
               = (Inl (OSError ''No space left on device''), s3)
          \<and> ContainerStop ''c3'' \<notin> set (trace s3)"
    using k1 t1 by (simp add: eval_defs)
  then obtain s3 where b: "gvisor_stage_and_execute ?E ''print(1)'' ''python'' ''c3'' (s1\<lparr>steps := Suc (steps s1)\<rparr>)
               = (Inl (OSError ''No space left on device''), s3)"
     and t3: "ContainerStop ''c3'' \<notin> set (trace s3)" by (elim exE conjE)
  from gvisor_path_stage_raises[OF ok a b, of 30] obtain r s' where
    "run_in_gvisor ''print(1)'' ''python'' 30 ?E empty_state = (Inr r, s')"
    "run_caught r = Some (OSError ''No space left on device'')"
    "run_container r = Some ''c3''" "trace s' = trace s3"
    by blast
  then show ?thesis
    using t3 unfolding gvisor_write_fails_run_def by (intro exI[of _ r] exI[of _ s']) simp
qed

text \<open>
  Claim C2 (a defect of the code). The teardown of \<open>run_in_docker\<close> stops the
  container in its \<open>else\<close> branch only. The branch announced as
  \<open>Return container to pool\<close> removes the staged file and ends in \<open>pass\<close>: the warm
  run below checks container \<open>a\<close> out of the pool, succeeds, and returns with \<open>a\<close>
  neither stopped nor back in the pool, which holds \<open>b\<close> to \<open>e\<close>. The \<open>except\<close>
  clauses lose the container in the same way: that of \<open>run_in_docker\<close> stops it only
  when \<open>warm\<close> is false, that of \<open>run_in_gvisor\<close> never; in the two runs below the
  code cannot be staged, and the container acquired (\<open>a\<close> from the pool, \<open>c3\<close> freshly
  created) is not stopped.
\<close>

theorem acquired_container_left_running:
  "map_option run_container (run_of warm_run) = Some (Some ''a'')
   \<and> map_option run_pooled (run_of warm_run) = Some True
   \<and> map_option run_caught (run_of warm_run) = Some None
   \<and> run_field warm_run ''status'' = Some (PStr ''success'')
   \<and> ContainerStop ''a'' \<notin> set (trace (snd warm_run))
   \<and> map (\<lambda>(k, p). (k, map pe_container (containers p))) (container_pools (snd warm_run))
       = [(''python_pool'', [''b'', ''c'', ''d'', ''e''])]
   \<and> map_option run_container (run_of warm_write_fails_run) = Some (Some ''a'')
   \<and> map_option run_caught (run_of warm_write_fails_run)
       = Some (Some (OSError ''No space left on device''))
   \<and> ContainerStop ''a'' \<notin> set (trace (snd warm_write_fails_run))
   \<and> map (\<lambda>(k, p). (k, map pe_container (containers p)))
         (container_pools (snd warm_write_fails_run))
       = [(''python_pool'', [''b'', ''c'', ''d'', ''e''])]
   \<and> map_option run_container (run_of gvisor_write_fails_run) = Some (Some ''c3'')
   \<and> map_option run_caught (run_of gvisor_write_fails_run)
       = Some (Some (OSError ''No space left on device''))
   \<and> ContainerStop ''c3'' \<notin> set (trace (snd gvisor_write_fails_run))"
proof -
  from warm_run_eval obtain r s' where run: "warm_run = (Inr r, s')"
    and f: "run_caught r = None" "run_exit_code r = Some 0" "run_execution_time r = Some 2"
      "run_container r = Some ''a''" "run_pooled r"
      "ContainerStop ''a'' \<notin> set (trace s')"
      "map (\<lambda>(k, p). (k, map pe_container (containers p))) (container_pools s')
         = [(''python_pool'', [''b'', ''c'', ''d'', ''e''])]"
    by (elim exE conjE)
  have d: "run_in_docker ''print(1)'' ''python'' 30 True sample_env full_state = (Inr r, s')
     \<or> run_in_gvisor ''print(1)'' ''python'' 30 sample_env full_state = (Inr r, s')"
    using run by (simp add: warm_run_def)
  from classification_without_exception[OF d] f(1,2,3)
  have st: "run_result r ''status'' = Some (PStr ''success'')" by simp
  from warm_write_fails_run_eval obtain r2 s2 where run2: "warm_write_fails_run = (Inr r2, s2)"
    and f2: "run_caught r2 = Some (OSError ''No space left on device'')"
      "run_container r2 = Some ''a''" "run_pooled r2"
      "ContainerStop ''a'' \<notin> set (trace s2)"
      "map (\<lambda>(k, p). (k, map pe_container (containers p))) (container_pools s2)
         = [(''python_pool'', [''b'', ''c'', ''d'', ''e''])]"
    by (elim exE conjE)
  from gvisor_write_fails_run_eval obtain r3 s3 where run3: "gvisor_write_fails_run = (Inr r3, s3)"
    and f3: "run_caught r3 = Some (OSError ''No space left on device'')"
      "run_container r3 = Some ''c3''"
      "ContainerStop ''c3'' \<notin> set (trace s3)"
    by blast
  show ?thesis
    using f(1,4,5,6,7) st f2 f3 by (simp add: run run2 run3 run_of_def run_field_def)
qed

section \<open>What is stored and what is compared\<close>

lemma runner_metrics_key:
  assumes "run_in_docker code language timeout warm env s = (Inr r, s')
           \<or> run_in_gvisor code language timeout env s = (Inr r, s')"
  shows "run_result r ''metrics'' = Some (PDict (metrics_of (run_result r)))"
proof (cases "run_caught r")
  case None
  with runner_shape[OF assms] obtain x t out err where
    res: "run_result r = (fst (classify x out err t timeout Map.empty))
                               (''metrics'' \<mapsto> PDict (metrics_of (run_result r)))"
    by auto
  show ?thesis by (subst res) simp
next
  case (Some e)
  with runner_shape[OF assms] have
    res: "run_result r = error_result e (metrics_of (run_result r))" by auto
  show ?thesis by (subst res) (simp add: error_result_def)
qed

lemma runner_status:
  assumes "run_in_docker code language timeout warm env s = (Inr r, s')
           \<or> run_in_gvisor code language timeout env s = (Inr r, s')"
  shows "\<exists>st. run_result r ''status'' = Some (PStr st) \<and> st \<in> {''success'', ''error'', ''timeout''}"
proof (cases "run_caught r")
  case None
  with runner_shape[OF assms] obtain x t out err where
    res: "run_result r = (fst (classify x out err t timeout Map.empty))
                               (''metrics'' \<mapsto> PDict (metrics_of (run_result r)))"
    by auto
  have "run_result r ''status'' =
      Some (PStr (if t > real_of_int timeout then ''timeout'' else if x = 0 then ''success'' else ''error''))"
    by (subst res) (simp add: classify_status)
  then show ?thesis by auto
next
  case (Some e)
  from caught_fields(1)[OF assms Some] show ?thesis by simp
qed

lemma runner_populated:
  assumes "run_in_docker code language timeout warm env s = (Inr r, s')
           \<or> run_in_gvisor code language timeout env s = (Inr r, s')"
  shows "populated ''docker'' language (metrics_of (run_result r))
         \<or> populated ''gvisor'' language (metrics_of (run_result r))"
  using runner_shape[OF assms] by simp

lemma save_row:
  assumes "run_in_docker code language timeout warm env s = (Inr r, s')
           \<or> run_in_gvisor code language timeout env s = (Inr r, s')"
  shows "\<exists>row. save_execution_metrics db function_name (run_result r) now = db @ [row]
           \<and> m_cold_start row
           \<and> m_function_name row = function_name \<and> m_timestamp row = now
           \<and> run_result r ''status'' = Some (PStr (m_status row))
           \<and> m_status row \<in> {''success'', ''error'', ''timeout''}
           \<and> (\<exists>n. m_execution_time_ms row = Some n
                  \<and> metrics_of (run_result r) ''execution_time_ms'' = Some (PInt n))
           \<and> (\<exists>n. m_total_time_ms row = Some n)
           \<and> m_runtime row \<in> {''docker'', ''gvisor''}"
proof -
  from runner_status[OF assms] obtain st where
    st: "run_result r ''status'' = Some (PStr st)" "st \<in> {''success'', ''error'', ''timeout''}"
    by blast
  note k = runner_metrics_key[OF assms]
  from runner_shape[OF assms] have
    cold: "metrics_of (run_result r) ''cold_start'' = None" by simp
  from runner_populated[OF assms] obtain rt e t where
    "metrics_of (run_result r) ''runtime'' = Some (PStr rt)" "rt \<in> {''docker'', ''gvisor''}"
    "metrics_of (run_result r) ''execution_time_ms'' = Some (PInt e)"
    "metrics_of (run_result r) ''total_time_ms'' = Some (PInt t)"
    by (auto simp: populated_def)
  then show ?thesis
    using st cold by (simp add: save_execution_metrics_def k dict_get_def Let_def)
qed

lemma stores_rows:
  assumes "db \<in> stores"
  shows "\<forall>m \<in> set db. m_cold_start m \<and> m_status m \<in> {''success'', ''error'', ''timeout''}
            \<and> m_execution_time_ms m \<noteq> None \<and> m_total_time_ms m \<noteq> None"
  using assms
proof (induction rule: stores.induct)
  case empty
  then show ?case by simp
next
  case (docker db code language timeout warm env s r s' function_name now)
  from save_row[OF disjI1[OF docker.hyps(2)], of db function_name now] docker.IH
  show ?case by auto
next
  case (gvisor db code language timeout env s r s' function_name now)
  from save_row[OF disjI2[OF gvisor.hyps(2)], of db function_name now] gvisor.IH
  show ?case by auto
qed


text \<open>
  Claim C3 (a defect of the code). The runner records how the container was obtained
  under the key \<open>warm_start\<close>; \<open>save_execution_metrics\<close> reads the key \<open>cold_start\<close>,
  which no runner writes, and falls back to its default \<open>True\<close>. The execute request
  below checks its container out of the warm pool, and its row is stored with
  \<open>cold_start = True\<close>.
\<close>

theorem warm_execution_stored_as_cold_start:
  "\<exists>r db s'. warm_execute = (Inr (r, db), s') \<and> run_pooled r
      \<and> run_container r = Some ''a''
      \<and> metrics_of (run_result r) ''warm_start'' = Some (PBool True)
      \<and> metrics_of (run_result r) ''cold_start'' = None
      \<and> map m_cold_start db = [True]"
proof -
  from warm_run_eval obtain r s' where run: "warm_run = (Inr r, s')"
    and f: "run_pooled r" "run_container r = Some ''a''" by blast
  have h: "run_in_docker ''print(1)'' ''python'' 30 True sample_env full_state = (Inr r, s')"
    using run by (simp add: warm_run_def)
  from save_row[OF disjI1[OF h], of "[]" "''hello''" "utc_clock sample_env (steps s')"]
  obtain row where row: "save_execution_metrics [] ''hello'' (run_result r)
       (utc_clock sample_env (steps s')) = [row]" "m_cold_start row" by auto
  have w: "metrics_of (run_result r) ''warm_start'' = Some (PBool True)
           \<and> metrics_of (run_result r) ''cold_start'' = None"
    using h
    by (auto simp: run_in_docker_def bind_apply time_time_apply docker_from_env_apply
          docker_except_eq Let_def metrics_of_def error_result_def classify_def
        split: prod.splits sum.splits if_splits)
  have "warm_execute = (Inr (r, [row]), s'\<lparr>steps := Suc (steps s')\<rparr>)"
    by (simp add: warm_execute_def execute_function_def hello_function_def bind_apply h
          utcnow_def ret_def row)
  then show ?thesis using f row w by fastforce
qed

lemma metric_of_value:
  assumes "result ''metrics'' = Some (PDict (metrics_of result))"
      and "metrics_of result k = Some (PInt n)"
  shows "metric_of k result = Inr n"
  using assms by (simp add: metric_of_def)

lemma unsupported_docker_result:
  assumes "get_image_for_language language = Inl err"
      and ok: "from_env_outcome env (Suc (steps s)) = Inr ()"
  shows "\<exists>r s' n. run_in_docker code language timeout warm env s = (Inr r, s')
           \<and> metric_of ''initialization_time_ms'' (run_result r) = Inr 0
           \<and> metric_of ''execution_time_ms'' (run_result r) = Inr 0
           \<and> metric_of ''total_time_ms'' (run_result r) = Inr n"
proof -
  from run_in_docker_unsupported[OF assms, of code timeout warm] obtain r s' where
    run: "run_in_docker code language timeout warm env s = (Inr r, s')"
    and z: "metrics_of (run_result r) ''initialization_time_ms'' = Some (PInt 0)"
           "metrics_of (run_result r) ''execution_time_ms'' = Some (PInt 0)"
    by blast
  note k = runner_metrics_key[OF disjI1[OF run]]
  from runner_populated[OF disjI1[OF run]] obtain n where
    "metrics_of (run_result r) ''total_time_ms'' = Some (PInt n)"
    by (auto simp: populated_def)
  with run z k show ?thesis by (auto intro: metric_of_value)
qed

lemma unsupported_gvisor_result:
  assumes "get_image_for_language language = Inl err"
      and ok: "from_env_outcome env (Suc (steps s)) = Inr ()"
  shows "\<exists>r s' n. run_in_gvisor code language timeout env s = (Inr r, s')
           \<and> metric_of ''initialization_time_ms'' (run_result r) = Inr 0
           \<and> metric_of ''execution_time_ms'' (run_result r) = Inr 0
           \<and> metric_of ''total_time_ms'' (run_result r) = Inr n"
proof -
  from run_in_gvisor_unsupported[OF assms, of code timeout] obtain r s' where
    run: "run_in_gvisor code language timeout env s = (Inr r, s')"
    and z: "metrics_of (run_result r) ''initialization_time_ms'' = Some (PInt 0)"
           "metrics_of (run_result r) ''execution_time_ms'' = Some (PInt 0)"
    by blast
  have d: "run_in_docker code language timeout False env s = (Inr r, s')
           \<or> run_in_gvisor code language timeout env s = (Inr r, s')"
    using run by simp
  note k = runner_metrics_key[OF d]
  from runner_populated[OF d] obtain n where
    "metrics_of (run_result r) ''total_time_ms'' = Some (PInt n)"
    by (auto simp: populated_def)
  with run z k show ?thesis by (auto intro: metric_of_value)
qed

text \<open>
  Claim C4 (a defect of the code). \<open>compare_runtimes\<close> divides by the default runtime's
  means without a guard. For a function in a language without a profile every run fails
  before a container exists, the mean initialization time of the default runtime is 0,
  and the comparison raises \<open>ZeroDivisionError\<close> instead of reporting \<open>null\<close>. Whatever
  the outside answers, the call below returns no comparison: it raises
  \<open>ZeroDivisionError\<close>, unless the engine client could not even be built and that
  exception left the runner.
\<close>

theorem compare_divides_by_zero:
  "fst (compare_runtimes env ruby_function 1 db s) = Inl ZeroDivisionError
   \<or> (\<exists>k e. from_env_outcome env k = Inl e
          \<and> fst (compare_runtimes env ruby_function 1 db s) = Inl e)"
proof (cases "from_env_outcome env (Suc (steps s))")
  case (Inl e)
  have d: "run_in_docker ''puts 1'' ''ruby'' 30 False env s
             = (Inl e, s\<lparr>steps := Suc (Suc (steps s))\<rparr>)"
    by (rule run_in_docker_no_client[OF Inl])
  have di: "docker_iterations env ruby_function [0..<1] db s
              = (Inl e, s\<lparr>steps := Suc (Suc (steps s))\<rparr>)"
    by (simp add: ruby_function_def bind_apply d)
  have "compare_runtimes env ruby_function 1 db s = (Inl e, s\<lparr>steps := Suc (Suc (steps s))\<rparr>)"
    unfolding compare_runtimes_def
    by (simp only: bind_apply di prod.case sum.case)
  with Inl show ?thesis by auto
next
  case (Inr u)
  then have ok: "from_env_outcome env (Suc (steps s)) = Inr ()" by simp
  have g: "get_image_for_language ''ruby'' = Inl (ValueError ''Unsupported language: ruby'')"
    by (simp add: get_image_for_language_def lower_def lower_char_def)
  from unsupported_docker_result[OF g ok, of "''puts 1''" 30 False]
  obtain r1 s1 n1 where d: "run_in_docker ''puts 1'' ''ruby'' 30 False env s = (Inr r1, s1)"
    and m1: "metric_of ''initialization_time_ms'' (run_result r1) = Inr 0"
            "metric_of ''execution_time_ms'' (run_result r1) = Inr 0"
            "metric_of ''total_time_ms'' (run_result r1) = Inr n1"
    by blast
  let ?s2 = "s1\<lparr>steps := Suc (steps s1)\<rparr>"
  let ?db1 = "save_execution_metrics db ''hello_ruby'' (run_result r1) (utc_clock env (steps s1))"
  have di: "docker_iterations env ruby_function [0..<1] db s = (Inr ([run_result r1], ?db1), ?s2)"
    by (simp add: ruby_function_def bind_apply d utcnow_def ret_def)
  show ?thesis
  proof (cases "from_env_outcome env (Suc (steps ?s2))")
    case (Inl e)
    have v: "run_in_gvisor ''puts 1'' ''ruby'' 30 env ?s2
               = (Inl e, ?s2\<lparr>steps := Suc (Suc (steps ?s2))\<rparr>)"
      by (rule run_in_gvisor_no_client[OF Inl])
    have gi: "gvisor_iterations env ruby_function [0..<1] ?db1 ?s2
                = (Inl e, ?s2\<lparr>steps := Suc (Suc (steps ?s2))\<rparr>)"
      by (simp add: ruby_function_def bind_apply v)
    have "compare_runtimes env ruby_function 1 db s
            = (Inl e, ?s2\<lparr>steps := Suc (Suc (steps ?s2))\<rparr>)"
      unfolding compare_runtimes_def
      by (simp only: bind_apply di gi prod.case sum.case)
    with Inl show ?thesis by auto
  next
    case (Inr u2)
    then have ok2: "from_env_outcome env (Suc (steps ?s2)) = Inr ()" by simp
    from unsupported_gvisor_result[OF g ok2, of "''puts 1''" 30]
    obtain r2 s3 n2 where v: "run_in_gvisor ''puts 1'' ''ruby'' 30 env ?s2 = (Inr r2, s3)"
      and m2: "metric_of ''initialization_time_ms'' (run_result r2) = Inr 0"
              "metric_of ''execution_time_ms'' (run_result r2) = Inr 0"
              "metric_of ''total_time_ms'' (run_result r2) = Inr n2"
      by blast
    have gi: "gvisor_iterations env ruby_function [0..<1] ?db1 ?s2
                = (Inr ([run_result r2],
                     save_execution_metrics ?db1 ''hello_ruby'' (run_result r2) (utc_clock env (steps s3))),
                   s3\<lparr>steps := Suc (steps s3)\<rparr>)"
      by (simp add: ruby_function_def bind_apply v utcnow_def ret_def)
    have s1: "\<exists>st. runtime_stats [run_result r1] 1 = Inr st \<and> avg_init_time_ms st = 0"
      by (simp add: runtime_stats_def and_then_def m1 mean_or_raise_def min_or_raise_def
            max_or_raise_def py_div_def py_mean_def)
    have s2: "\<exists>st. runtime_stats [run_result r2] 1 = Inr st"
      by (simp add: runtime_stats_def and_then_def m2 mean_or_raise_def min_or_raise_def
            max_or_raise_def py_div_def py_mean_def)
    from s1 obtain st1 where st1: "runtime_stats [run_result r1] 1 = Inr st1"
      "avg_init_time_ms st1 = 0" by blast
    from s2 obtain st2 where st2: "runtime_stats [run_result r2] 1 = Inr st2" by blast
    have c: "compare_stats 1 st1 st2 = Inl ZeroDivisionError"
      by (simp add: compare_stats_def and_then_def py_div_def st1)
    have "compare_runtimes env ruby_function 1 db s
            = (Inl ZeroDivisionError, s3\<lparr>steps := Suc (steps s3)\<rparr>)"
      unfolding compare_runtimes_def
      by (simp only: bind_apply di gi prod.case sum.case lift_def st1 st2 c)
    then show ?thesis by simp
  qed
qed

section \<open>Aggregation over the stored rows\<close>

text \<open>The rounding of \<open>py_truediv\<close>: the result is within half a unit in the last
  place of the exact quotient, and a quotient in \<open>[0, 1]\<close> stays there.\<close>

lemma round_half_even_error: "\<bar>real_of_int (round_half_even x) - x\<bar> \<le> 1 / 2"
  unfolding round_half_even_def Let_def by (auto; linarith)

lemma round_half_even_le: "x \<le> real_of_int n \<Longrightarrow> round_half_even x \<le> n"
  unfolding round_half_even_def Let_def
  by (auto simp: floor_le_iff; linarith)

lemma round_half_even_nonneg: "0 \<le> x \<Longrightarrow> 0 \<le> round_half_even x"
  unfolding round_half_even_def Let_def by auto

lemma binade_down_le: "a \<le> b \<Longrightarrow> 0 < b \<Longrightarrow> binade_down a b 0 = 0"
  by (simp add: binade_down.simps)

lemma py_truediv_small:
  assumes "a \<le> b" "0 < b"
  shows "py_truediv a b
           = real_of_int (round_half_even (real a * 2 ^ (52 + binade_up a b 0) / real b))
               / 2 ^ (52 + binade_up a b 0)"
  using assms by (simp add: py_truediv_def Let_def binade_down_le round_half_even_def)

lemma py_truediv_bounds:
  assumes "a \<le> b" "0 < b"
  shows "0 \<le> py_truediv a b" "py_truediv a b \<le> 1"
proof -
  let ?P = "(2 :: real) ^ (52 + binade_up a b 0)"
  let ?m = "round_half_even (real a * ?P / real b)"
  have "real a * ?P / real b \<le> ?P"
    using assms by (simp add: divide_le_eq mult_right_mono)
  also have "?P = real_of_int (2 ^ (52 + binade_up a b 0))" by simp
  finally have "?m \<le> 2 ^ (52 + binade_up a b 0)" by (rule round_half_even_le)
  then have "real_of_int ?m \<le> ?P" by (metis of_int_le_iff of_int_numeral of_int_power)
  then show "py_truediv a b \<le> 1"
    by (simp add: py_truediv_small[OF assms] divide_le_eq)
  have "0 \<le> ?m" by (rule round_half_even_nonneg) simp
  then show "0 \<le> py_truediv a b"
    by (simp add: py_truediv_small[OF assms])
qed

lemma py_truediv_error:
  assumes "a \<le> b" "0 < b"
  shows "\<bar>py_truediv a b - real a / real b\<bar> \<le> 1 / 2 ^ 53"
proof -
  let ?k = "52 + binade_up a b 0"
  let ?P = "(2 :: real) ^ ?k"
  let ?y = "real a * ?P / real b"
  let ?m = "round_half_even ?y"
  have P: "0 < ?P" by simp
  have "py_truediv a b - real a / real b = (real_of_int ?m - ?y) / ?P"
    by (simp add: py_truediv_small[OF assms] diff_divide_distrib)
  then have "\<bar>py_truediv a b - real a / real b\<bar> = \<bar>real_of_int ?m - ?y\<bar> / ?P"
    by (simp add: abs_divide del: power_add)
  also have "\<dots> \<le> (1 / 2) / ?P"
    using round_half_even_error[of ?y] P by (intro divide_right_mono) simp_all
  also have "\<dots> \<le> (1 / 2) / 2 ^ 52"
  proof -
    have "(2 :: real) ^ 52 \<le> ?P" by (rule power_increasing) simp_all
    then show ?thesis by (intro divide_left_mono) simp_all
  qed
  also have "\<dots> = 1 / 2 ^ 53" by simp
  finally show ?thesis .
qed

lemma status_counts:
  assumes "\<forall>m \<in> set ms. m_status m \<in> {''success'', ''error'', ''timeout''}"
  shows "count_if (\<lambda>m. m_status m = ''success'') ms + count_if (\<lambda>m. m_status m = ''error'') ms
           + count_if (\<lambda>m. m_status m = ''timeout'') ms = length ms"
  using assms by (induction ms) (auto simp: count_if_def)

lemma count_if_le: "count_if p ms \<le> length ms"
  by (simp add: count_if_def)

lemma map_filter_all:
  assumes "\<forall>m \<in> set ms. f m \<noteq> None"
  shows "length (List.map_filter f ms) = length ms"
  using assms by (induction ms) (auto simp: List.map_filter_simps)

lemma aggregate_fields:
  assumes "ms \<noteq> []"
  shows "\<exists>d. aggregate ms = Inr d
     \<and> d ''count'' = Some (PInt (int (length ms)))
     \<and> d ''success_rate'' = Some (PFloat (py_truediv (count_if (\<lambda>m. m_status m = ''success'') ms) (length ms)))
     \<and> d ''error_rate'' = Some (PFloat (py_truediv (count_if (\<lambda>m. m_status m = ''error'') ms) (length ms)))
     \<and> d ''timeout_rate'' = Some (PFloat (py_truediv (count_if (\<lambda>m. m_status m = ''timeout'') ms) (length ms)))
     \<and> d ''avg_execution_time_ms'' =
          Some (if List.map_filter m_execution_time_ms ms \<noteq> []
                then PFloat (py_mean (List.map_filter m_execution_time_ms ms)) else PInt 0)
     \<and> d ''avg_total_time_ms'' =
          Some (if List.map_filter m_total_time_ms ms \<noteq> []
                then PFloat (py_mean (List.map_filter m_total_time_ms ms)) else PInt 0)
     \<and> d ''p95_execution_time_ms'' =
          Some (if 2 \<le> length (List.map_filter m_execution_time_ms ms)
                then PInt (sort (List.map_filter m_execution_time_ms ms)
                            ! nat (py_int (real (length (List.map_filter m_execution_time_ms ms)) * 0.95)))
                else PNone)
     \<and> d ''p99_execution_time_ms'' =
          Some (if 2 \<le> length (List.map_filter m_execution_time_ms ms)
                then PInt (sort (List.map_filter m_execution_time_ms ms)
                            ! nat (py_int (real (length (List.map_filter m_execution_time_ms ms)) * 0.99)))
                else PNone)"
proof (cases "2 \<le> length (List.map_filter m_execution_time_ms ms)")
  case True
  let ?xs = "List.map_filter m_execution_time_ms ms"
  from True have pos: "0 < length ?xs" by auto
  show ?thesis
    using True assms p95_lookup[OF pos] p99_lookup[OF pos]
    by (simp add: aggregate_def Let_def)
next
  case False
  then show ?thesis using assms by (simp add: aggregate_def Let_def)
qed

lemma query_subset: "set (query_all db fname time_range now) \<subseteq> set db"
  by (auto simp: query_all_def)

lemma normal_fields:
  assumes "run_in_docker code language timeout warm env s = (Inr r, s')
           \<or> run_in_gvisor code language timeout env s = (Inr r, s')"
      and "run_caught r = None" "run_exit_code r = Some x" "run_execution_time r = Some t"
  shows "run_result r ''status'' =
           Some (PStr (if t > real_of_int timeout then ''timeout''
                       else if x = 0 then ''success'' else ''error''))"
    and "metrics_of (run_result r) ''execution_time_ms'' = Some (PInt (py_int (t * 1000)))"
proof -
  from runner_shape[OF assms(1)] assms(2-4) obtain out err where
    res: "run_result r = (fst (classify x out err t timeout Map.empty))
                               (''metrics'' \<mapsto> PDict (metrics_of (run_result r)))"
    and ms: "metrics_of (run_result r) ''execution_time_ms'' = Some (PInt (py_int (t * 1000)))"
    by auto
  show "run_result r ''status'' =
           Some (PStr (if t > real_of_int timeout then ''timeout''
                       else if x = 0 then ''success'' else ''error''))"
    by (subst res) (simp add: classify_status)
  show "metrics_of (run_result r) ''execution_time_ms'' = Some (PInt (py_int (t * 1000)))"
    by (rule ms)
qed

lemma warm_run_docker:
  "run_in_docker ''print(1)'' ''python'' 30 True sample_env full_state
     = (Inr (the (run_of warm_run)), snd warm_run)"
  using warm_run_eval by (auto simp: warm_run_def run_of_def)

lemma slow_run_docker:
  "run_in_docker ''import time; time.sleep(1)'' ''python'' 1 False
       (sample_env\<lparr>clock := \<lambda>k. real k * 0.50025\<rparr>) empty_state
     = (Inr (the (run_of slow_run)), snd slow_run)"
proof -
  have ok: "from_env_outcome (sample_env\<lparr>clock := \<lambda>k. real k * 0.50025\<rparr>)
              (Suc (steps empty_state)) = Inr ()"
    by (rule sample_client)
  show ?thesis
    using run_of_docker[OF ok, of "''import time; time.sleep(1)''" "''python''" 1 False]
    by (auto simp: slow_run_def)
qed

lemma one_row_db_eq:
  "\<exists>row. one_row_db = [row] \<and> m_status row = ''success'' \<and> m_execution_time_ms row = Some 2000
       \<and> m_total_time_ms row \<noteq> None \<and> m_timestamp row = 100 \<and> m_function_name row = ''hello''"
proof -
  let ?r = "the (run_of warm_run)"
  from warm_run_eval obtain r s' where run: "warm_run = (Inr r, s')"
    and g: "run_caught r = None" "run_exit_code r = Some 0" "run_execution_time r = Some 2"
    by blast
  have "?r = r" by (simp add: run run_of_def)
  with g have f: "run_caught ?r = None" "run_exit_code ?r = Some 0"
    "run_execution_time ?r = Some 2"
    by simp_all
  note d = disjI1[OF warm_run_docker]
  from normal_fields[OF d f] have
    st: "run_result ?r ''status'' = Some (PStr ''success'')"
    and ms: "metrics_of (run_result ?r) ''execution_time_ms'' = Some (PInt 2000)"
    by (simp_all add: py_int_def)
  from save_row[OF d, of "[]" "''hello''" 100] obtain row n where
    row: "save_execution_metrics [] ''hello'' (run_result ?r) 100 = [] @ [row]"
      "m_function_name row = ''hello''" "m_timestamp row = 100"
      "run_result ?r ''status'' = Some (PStr (m_status row))"
      "m_execution_time_ms row = Some n"
      "metrics_of (run_result ?r) ''execution_time_ms'' = Some (PInt n)"
      "m_total_time_ms row \<noteq> None"
    by blast
  have "one_row_db = [row]" using row(1) by (simp add: one_row_db_def)
  moreover have "m_status row = ''success''" using row(4) st by simp
  moreover have "m_execution_time_ms row = Some 2000" using row(5,6) ms by simp
  ultimately show ?thesis using row(2,3,7) by blast
qed

lemma two_row_db_eq:
  "\<exists>row1 row2. two_row_db = [row1, row2]
       \<and> m_status row1 = ''success'' \<and> m_execution_time_ms row1 = Some 2000
       \<and> m_total_time_ms row1 \<noteq> None \<and> m_timestamp row1 = 100
       \<and> m_status row2 = ''timeout'' \<and> m_execution_time_ms row2 = Some 1000
       \<and> m_total_time_ms row2 \<noteq> None \<and> m_timestamp row2 = 200"
proof -
  let ?r = "the (run_of slow_run)"
  from slow_run_docker
  obtain r s' where run: "slow_run = (Inr r, s')" unfolding slow_run_def by blast
  from slow_run_eval have
    st: "run_result ?r ''status'' = Some (PStr ''timeout'')"
    and ms: "metrics_of (run_result ?r) ''execution_time_ms'' = Some (PInt 1000)"
    by (simp_all add: run run_of_def run_field_def run_metric_def)
  note d = disjI1[OF slow_run_docker]
  from one_row_db_eq obtain row1 where r1: "one_row_db = [row1]" "m_status row1 = ''success''"
    "m_execution_time_ms row1 = Some 2000" "m_timestamp row1 = 100"
    "m_total_time_ms row1 \<noteq> None" by blast
  from save_row[OF d, of one_row_db "''sleepy''" 200] obtain row n where
    row: "save_execution_metrics one_row_db ''sleepy'' (run_result ?r) 200 = one_row_db @ [row]"
      "m_timestamp row = 200"
      "run_result ?r ''status'' = Some (PStr (m_status row))"
      "m_execution_time_ms row = Some n"
      "metrics_of (run_result ?r) ''execution_time_ms'' = Some (PInt n)"
      "m_total_time_ms row \<noteq> None"
    by blast
  have "two_row_db = [row1, row]" using row(1) by (simp add: two_row_db_def r1(1))
  moreover have "m_status row = ''timeout''" using row(3) st by simp
  moreover have "m_execution_time_ms row = Some 1000" using row(4,5) ms by simp
  ultimately show ?thesis using r1(2-5) row(2,6) by blast
qed

lemma sample_dbs_stored: "one_row_db \<in> stores" "two_row_db \<in> stores"
proof -
  show one: "one_row_db \<in> stores"
    unfolding one_row_db_def by (rule stores.docker[OF stores.empty warm_run_docker])
  show "two_row_db \<in> stores"
    unfolding two_row_db_def by (rule stores.docker[OF one slow_run_docker])
qed

text \<open>
  Claim C6 (as amended). For every table the program can hold and every query that
  selects at least one row, the aggregation returns as \<open>success_rate\<close>, \<open>error_rate\<close>
  and \<open>timeout_rate\<close> the floats nearest to the quotients of the three status counts
  by the number of rows. The three counts add up to the number of rows, each rate lies
  in \<open>[0, 1]\<close>, and the sum of the three rates is 1 up to the rounding of the three
  divisions: it differs from 1 by at most \<open>3 * 2^-53\<close>.
\<close>

theorem rates_sum_to_one_up_to_rounding:
  assumes "db \<in> stores" and "query_all db fname time_range now \<noteq> []"
  shows "\<exists>d i j k. get_aggregated_metrics db fname time_range now = Inr d
           \<and> i = count_if (\<lambda>m. m_status m = ''success'') (query_all db fname time_range now)
           \<and> j = count_if (\<lambda>m. m_status m = ''error'') (query_all db fname time_range now)
           \<and> k = count_if (\<lambda>m. m_status m = ''timeout'') (query_all db fname time_range now)
           \<and> i + j + k = length (query_all db fname time_range now)
           \<and> d ''success_rate''
               = Some (PFloat (py_truediv i (length (query_all db fname time_range now))))
           \<and> d ''error_rate''
               = Some (PFloat (py_truediv j (length (query_all db fname time_range now))))
           \<and> d ''timeout_rate''
               = Some (PFloat (py_truediv k (length (query_all db fname time_range now))))
           \<and> 0 \<le> py_truediv i (length (query_all db fname time_range now))
           \<and> py_truediv i (length (query_all db fname time_range now)) \<le> 1
           \<and> 0 \<le> py_truediv j (length (query_all db fname time_range now))
           \<and> py_truediv j (length (query_all db fname time_range now)) \<le> 1
           \<and> 0 \<le> py_truediv k (length (query_all db fname time_range now))
           \<and> py_truediv k (length (query_all db fname time_range now)) \<le> 1
           \<and> \<bar>py_truediv i (length (query_all db fname time_range now))
                + py_truediv j (length (query_all db fname time_range now))
                + py_truediv k (length (query_all db fname time_range now)) - 1\<bar> \<le> 3 / 2 ^ 53"
proof -
  let ?ms = "query_all db fname time_range now"
  let ?n = "length ?ms"
  let ?a = "count_if (\<lambda>m. m_status m = ''success'') ?ms"
  let ?b = "count_if (\<lambda>m. m_status m = ''error'') ?ms"
  let ?c = "count_if (\<lambda>m. m_status m = ''timeout'') ?ms"
  have "\<forall>m \<in> set ?ms. m_status m \<in> {''success'', ''error'', ''timeout''}"
    using stores_rows[OF assms(1)] query_subset[of db fname time_range now] by blast
  from status_counts[OF this] have sum: "?a + ?b + ?c = ?n" .
  have n: "0 < ?n" using assms(2) by simp
  have le: "?a \<le> ?n" "?b \<le> ?n" "?c \<le> ?n" by (rule count_if_le)+
  have "real ?a / real ?n + real ?b / real ?n + real ?c / real ?n = real (?a + ?b + ?c) / real ?n"
    by (simp add: add_divide_distrib)
  also have "\<dots> = 1" using sum n by simp
  finally have one: "real ?a / real ?n + real ?b / real ?n + real ?c / real ?n = 1" .
  note ea = py_truediv_error[OF le(1) n] and eb = py_truediv_error[OF le(2) n]
    and ec = py_truediv_error[OF le(3) n]
  have close: "\<bar>py_truediv ?a ?n + py_truediv ?b ?n + py_truediv ?c ?n - 1\<bar> \<le> 3 / 2 ^ 53"
    using ea eb ec one by linarith
  note bounds = py_truediv_bounds[OF le(1) n] py_truediv_bounds[OF le(2) n]
    py_truediv_bounds[OF le(3) n]
  from aggregate_fields[OF assms(2)] obtain d where
    d: "aggregate ?ms = Inr d"
    "d ''success_rate'' = Some (PFloat (py_truediv ?a ?n))"
    "d ''error_rate'' = Some (PFloat (py_truediv ?b ?n))"
    "d ''timeout_rate'' = Some (PFloat (py_truediv ?c ?n))"
    by blast
  show ?thesis
    unfolding get_aggregated_metrics_def
    using d sum bounds close
    by (intro exI[of _ d] exI[of _ ?a] exI[of _ ?b] exI[of _ ?c]) (simp only: simp_thms)
qed

lemma create_fails_run_docker:
  "run_in_docker ''print(1)'' ''python'' 30 False
       (sample_env\<lparr>run_outcome := \<lambda>k. Inl (EngineError ''Cannot connect to the Docker daemon'')\<rparr>)
       empty_state
     = (Inr (the (run_of create_fails_run)), snd create_fails_run)"
  using create_fails_run_eval by (auto simp: create_fails_run_def run_of_def)

lemma error_row:
  "\<exists>row. save_execution_metrics db ''broken''
            (run_result (the (run_of create_fails_run))) now = db @ [row]
     \<and> m_status row = ''error'' \<and> m_timestamp row = now"
proof -
  let ?r = "the (run_of create_fails_run)"
  from create_fails_run_eval obtain r s' where run: "create_fails_run = (Inr r, s')"
    and g: "run_caught r = Some (EngineError ''Cannot connect to the Docker daemon'')"
    by blast
  have "?r = r" by (simp add: run run_of_def)
  with g have c: "run_caught ?r = Some (EngineError ''Cannot connect to the Docker daemon'')"
    by simp
  note d = disjI1[OF create_fails_run_docker]
  note st = caught_fields(1)[OF d c]
  from save_row[OF d, of db "''broken''" now] obtain row where
    row: "save_execution_metrics db ''broken'' (run_result ?r) now = db @ [row]"
      "m_timestamp row = now"
      "run_result ?r ''status'' = Some (PStr (m_status row))"
    by blast
  have "m_status row = ''error''" using row(3) st by simp
  with row(1,2) show ?thesis by blast
qed

lemma six_row_db_eq:
  "\<exists>r1 r2 r3 r4 r5 r6. six_row_db = [r1, r2, r3, r4, r5, r6]
       \<and> m_status r1 = ''success'' \<and> m_status r2 = ''timeout''
       \<and> m_status r3 = ''error'' \<and> m_status r4 = ''error''
       \<and> m_status r5 = ''error'' \<and> m_status r6 = ''error''
       \<and> m_timestamp r1 = 100 \<and> m_timestamp r2 = 200 \<and> m_timestamp r3 = 300
       \<and> m_timestamp r4 = 400 \<and> m_timestamp r5 = 500 \<and> m_timestamp r6 = 600"
proof -
  let ?res = "run_result (the (run_of create_fails_run))"
  from two_row_db_eq obtain r1 r2 where db2: "two_row_db = [r1, r2]"
    and f: "m_status r1 = ''success''" "m_timestamp r1 = 100"
           "m_status r2 = ''timeout''" "m_timestamp r2 = 200"
    by blast
  from error_row[of "[r1, r2]" 300] obtain r3 where
    r3: "save_execution_metrics [r1, r2] ''broken'' ?res 300 = [r1, r2, r3]"
      "m_status r3 = ''error''" "m_timestamp r3 = 300" by auto
  from error_row[of "[r1, r2, r3]" 400] obtain r4 where
    r4: "save_execution_metrics [r1, r2, r3] ''broken'' ?res 400 = [r1, r2, r3, r4]"
      "m_status r4 = ''error''" "m_timestamp r4 = 400" by auto
  from error_row[of "[r1, r2, r3, r4]" 500] obtain r5 where
    r5: "save_execution_metrics [r1, r2, r3, r4] ''broken'' ?res 500 = [r1, r2, r3, r4, r5]"
      "m_status r5 = ''error''" "m_timestamp r5 = 500" by auto
  from error_row[of "[r1, r2, r3, r4, r5]" 600] obtain r6 where
    r6: "save_execution_metrics [r1, r2, r3, r4, r5] ''broken'' ?res 600
           = [r1, r2, r3, r4, r5, r6]"
      "m_status r6 = ''error''" "m_timestamp r6 = 600" by auto
  have "six_row_db = [r1, r2, r3, r4, r5, r6]"
    by (simp add: six_row_db_def db2 r3(1) r4(1) r5(1) r6(1))
  with f r3(2,3) r4(2,3) r5(2,3) r6(2,3) show ?thesis by blast
qed

lemma six_row_db_stored: "six_row_db \<in> stores"
  unfolding six_row_db_def fold_simps
  by (intro stores.docker[OF _ create_fails_run_docker] sample_dbs_stored(2))

lemma sixth: "py_truediv 1 6 = 6004799503160661 / 2 ^ 55"
  by (simp add: py_truediv_def binade_up.simps binade_down.simps round_half_even_def Let_def)

lemma four_sixths: "py_truediv 4 6 = 6004799503160661 / 2 ^ 53"
  by (simp add: py_truediv_def binade_up.simps binade_down.simps round_half_even_def Let_def)

lemma half: "py_truediv 1 2 = 1 / 2" "py_truediv 0 2 = 0"
  by (simp_all add: py_truediv_def binade_up.simps binade_down.simps round_half_even_def Let_def)

theorem rates_sum_to_one_up_to_rounding_counterexample:
  "six_row_db \<in> stores
   \<and> length (query_all six_row_db None ''24h'' 600) = 6
   \<and> aggregate_field (get_aggregated_metrics six_row_db None ''24h'' 600) ''success_rate''
       = Some (PFloat (6004799503160661 / 2 ^ 55))
   \<and> aggregate_field (get_aggregated_metrics six_row_db None ''24h'' 600) ''error_rate''
       = Some (PFloat (6004799503160661 / 2 ^ 53))
   \<and> aggregate_field (get_aggregated_metrics six_row_db None ''24h'' 600) ''timeout_rate''
       = Some (PFloat (6004799503160661 / 2 ^ 55))
   \<and> (6004799503160661 / 2 ^ 55 + 6004799503160661 / 2 ^ 53 + 6004799503160661 / 2 ^ 55 :: real)
       = 18014398509481983 / 18014398509481984
   \<and> (6004799503160661 / 2 ^ 55 + 6004799503160661 / 2 ^ 53 + 6004799503160661 / 2 ^ 55 :: real)
       \<noteq> 1"
proof -
  from six_row_db_eq obtain r1 r2 r3 r4 r5 r6 where db: "six_row_db = [r1, r2, r3, r4, r5, r6]"
    and f: "m_status r1 = ''success''" "m_status r2 = ''timeout''"
       "m_status r3 = ''error''" "m_status r4 = ''error''"
       "m_status r5 = ''error''" "m_status r6 = ''error''"
       "m_timestamp r1 = 100" "m_timestamp r2 = 200" "m_timestamp r3 = 300"
       "m_timestamp r4 = 400" "m_timestamp r5 = 500" "m_timestamp r6 = 600"
    by blast
  let ?ms = "[r1, r2, r3, r4, r5, r6]"
  have q: "query_all six_row_db None ''24h'' 600 = ?ms"
    by (simp add: db query_all_def range_seconds_def f)
  have counts: "count_if (\<lambda>m. m_status m = ''success'') ?ms = 1"
    "count_if (\<lambda>m. m_status m = ''error'') ?ms = 4"
    "count_if (\<lambda>m. m_status m = ''timeout'') ?ms = 1"
    by (simp_all add: count_if_def f)
  from aggregate_fields[of ?ms] obtain d where
    d: "aggregate ?ms = Inr d"
    and r: "d ''success_rate'' = Some (PFloat (py_truediv (count_if (\<lambda>m. m_status m = ''success'') ?ms) (length ?ms)))"
       "d ''error_rate'' = Some (PFloat (py_truediv (count_if (\<lambda>m. m_status m = ''error'') ?ms) (length ?ms)))"
       "d ''timeout_rate'' = Some (PFloat (py_truediv (count_if (\<lambda>m. m_status m = ''timeout'') ?ms) (length ?ms)))"
    by blast
  have len: "length ?ms = 6" by simp
  have "d ''success_rate'' = Some (PFloat (6004799503160661 / 2 ^ 55))"
    using r(1) unfolding counts len sixth .
  moreover have "d ''error_rate'' = Some (PFloat (6004799503160661 / 2 ^ 53))"
    using r(2) unfolding counts len four_sixths .
  moreover have "d ''timeout_rate'' = Some (PFloat (6004799503160661 / 2 ^ 55))"
    using r(3) unfolding counts len sixth .
  ultimately show ?thesis
    using six_row_db_stored
    by (simp add: get_aggregated_metrics_def q d aggregate_field_def)
qed

theorem rates_sum_to_one_up_to_rounding_witness:
  "two_row_db \<in> stores \<and> query_all two_row_db None ''24h'' 200 \<noteq> []
   \<and> length (query_all two_row_db None ''24h'' 200) = 2
   \<and> (\<exists>d. get_aggregated_metrics two_row_db None ''24h'' 200 = Inr d
          \<and> d ''success_rate'' = Some (PFloat (1 / 2))
          \<and> d ''error_rate'' = Some (PFloat 0)
          \<and> d ''timeout_rate'' = Some (PFloat (1 / 2)))
   \<and> \<bar>(1 / 2 :: real) + 0 + 1 / 2 - 1\<bar> \<le> 3 / 2 ^ 53"
proof -
  from two_row_db_eq obtain row1 row2 where db: "two_row_db = [row1, row2]"
    and f: "m_status row1 = ''success''" "m_timestamp row1 = 100"
           "m_status row2 = ''timeout''" "m_timestamp row2 = 200"
    by blast
  have q: "query_all two_row_db None ''24h'' 200 = [row1, row2]"
    by (simp add: db query_all_def range_seconds_def f)
  have ne: "query_all two_row_db None ''24h'' 200 \<noteq> []" by (simp add: q)
  have counts: "count_if (\<lambda>m. m_status m = ''success'') [row1, row2] = 1"
    "count_if (\<lambda>m. m_status m = ''error'') [row1, row2] = 0"
    "count_if (\<lambda>m. m_status m = ''timeout'') [row1, row2] = 1"
    by (simp_all add: count_if_def f)
  have len: "length [row1, row2] = 2" by simp
  from rates_sum_to_one_up_to_rounding[OF sample_dbs_stored(2) ne, unfolded q] obtain d where
    d: "get_aggregated_metrics two_row_db None ''24h'' 200 = Inr d"
    and r: "d ''success_rate''
              = Some (PFloat (py_truediv (count_if (\<lambda>m. m_status m = ''success'') [row1, row2])
                                (length [row1, row2])))"
      "d ''error_rate''
              = Some (PFloat (py_truediv (count_if (\<lambda>m. m_status m = ''error'') [row1, row2])
                                (length [row1, row2])))"
      "d ''timeout_rate''
              = Some (PFloat (py_truediv (count_if (\<lambda>m. m_status m = ''timeout'') [row1, row2])
                                (length [row1, row2])))"
    by blast
  have "d ''success_rate'' = Some (PFloat (1 / 2))"
    using r(1) unfolding counts len half .
  moreover have "d ''error_rate'' = Some (PFloat 0)"
    using r(2) unfolding counts len half .
  moreover have "d ''timeout_rate'' = Some (PFloat (1 / 2))"
    using r(3) unfolding counts len half .
  ultimately show ?thesis using sample_dbs_stored(2) ne d by (simp add: q)
qed


lemma zero_record_fields:
  "zero_record ''count'' = Some (PInt 0)
   \<and> zero_record ''avg_execution_time_ms'' = Some (PInt 0)
   \<and> zero_record ''avg_total_time_ms'' = Some (PInt 0)
   \<and> zero_record ''success_rate'' = Some (PInt 0)
   \<and> zero_record ''error_rate'' = Some (PInt 0)
   \<and> zero_record ''timeout_rate'' = Some (PInt 0)
   \<and> zero_record ''cold_start_percentage'' = Some (PInt 0)
   \<and> zero_record ''p95_execution_time_ms'' = None
   \<and> zero_record ''p99_execution_time_ms'' = None"
  by (simp add: zero_record_def)

text \<open>
  Claim C7. For every table the program can hold: a query that selects no row returns
  the zero-filled record (count 0, both averages and all rates 0); a query that selects
  exactly one row returns that row's execution time and total time as the two averages,
  with \<open>p95\<close> and \<open>p99\<close> null; and a query that selects \<open>n \<ge> 2\<close> rows returns as
  \<open>p95\<close> and \<open>p99\<close> the elements of the sorted execution times at the indices
  \<open>floor(n * 0.95)\<close> and \<open>floor(n * 0.99)\<close>.
\<close>

theorem aggregate_by_window_size:
  assumes "db \<in> stores"
  shows "(query_all db fname time_range now = [] \<longrightarrow>
            get_aggregated_metrics db fname time_range now = Inr zero_record
            \<and> zero_record ''count'' = Some (PInt 0)
            \<and> zero_record ''avg_execution_time_ms'' = Some (PInt 0)
            \<and> zero_record ''avg_total_time_ms'' = Some (PInt 0)
            \<and> zero_record ''success_rate'' = Some (PInt 0)
            \<and> zero_record ''error_rate'' = Some (PInt 0)
            \<and> zero_record ''timeout_rate'' = Some (PInt 0)
            \<and> zero_record ''cold_start_percentage'' = Some (PInt 0))
       \<and> (\<forall>m. query_all db fname time_range now = [m] \<longrightarrow>
            (\<exists>d e t. get_aggregated_metrics db fname time_range now = Inr d
               \<and> m_execution_time_ms m = Some e \<and> m_total_time_ms m = Some t
               \<and> d ''count'' = Some (PInt 1)
               \<and> d ''avg_execution_time_ms'' = Some (PFloat (real_of_int e))
               \<and> d ''avg_total_time_ms'' = Some (PFloat (real_of_int t))
               \<and> d ''p95_execution_time_ms'' = Some PNone
               \<and> d ''p99_execution_time_ms'' = Some PNone))
       \<and> (2 \<le> length (query_all db fname time_range now) \<longrightarrow>
            (\<exists>d times. get_aggregated_metrics db fname time_range now = Inr d
               \<and> times = List.map_filter m_execution_time_ms (query_all db fname time_range now)
               \<and> length times = length (query_all db fname time_range now)
               \<and> d ''count'' = Some (PInt (int (length times)))
               \<and> nat \<lfloor>real (length times) * 0.95\<rfloor> < length times
               \<and> nat \<lfloor>real (length times) * 0.99\<rfloor> < length times
               \<and> d ''p95_execution_time_ms''
                   = Some (PInt (sort times ! nat \<lfloor>real (length times) * 0.95\<rfloor>))
               \<and> d ''p99_execution_time_ms''
                   = Some (PInt (sort times ! nat \<lfloor>real (length times) * 0.99\<rfloor>))))"
proof (intro conjI impI allI)
  let ?ms = "query_all db fname time_range now"
  have rows: "\<forall>m \<in> set ?ms. m_execution_time_ms m \<noteq> None \<and> m_total_time_ms m \<noteq> None"
    using stores_rows[OF assms] query_subset[of db fname time_range now] by blast
  {
    assume "?ms = []"
    then show "get_aggregated_metrics db fname time_range now = Inr zero_record"
      by (simp add: get_aggregated_metrics_def aggregate_def)
  }
  {
    fix m assume one: "?ms = [m]"
    with rows obtain e t where et: "m_execution_time_ms m = Some e" "m_total_time_ms m = Some t"
      by auto
    from aggregate_fields[of "[m]"] obtain d where
      "aggregate [m] = Inr d" "d ''count'' = Some (PInt (int (length [m])))"
      "d ''avg_execution_time_ms'' =
          Some (if List.map_filter m_execution_time_ms [m] \<noteq> []
                then PFloat (py_mean (List.map_filter m_execution_time_ms [m])) else PInt 0)"
      "d ''avg_total_time_ms'' =
          Some (if List.map_filter m_total_time_ms [m] \<noteq> []
                then PFloat (py_mean (List.map_filter m_total_time_ms [m])) else PInt 0)"
      "d ''p95_execution_time_ms'' =
          Some (if 2 \<le> length (List.map_filter m_execution_time_ms [m])
                then PInt (sort (List.map_filter m_execution_time_ms [m])
                            ! nat (py_int (real (length (List.map_filter m_execution_time_ms [m])) * 0.95)))
                else PNone)"
      "d ''p99_execution_time_ms'' =
          Some (if 2 \<le> length (List.map_filter m_execution_time_ms [m])
                then PInt (sort (List.map_filter m_execution_time_ms [m])
                            ! nat (py_int (real (length (List.map_filter m_execution_time_ms [m])) * 0.99)))
                else PNone)"
      by blast
    then show "\<exists>d e t. get_aggregated_metrics db fname time_range now = Inr d
               \<and> m_execution_time_ms m = Some e \<and> m_total_time_ms m = Some t
               \<and> d ''count'' = Some (PInt 1)
               \<and> d ''avg_execution_time_ms'' = Some (PFloat (real_of_int e))
               \<and> d ''avg_total_time_ms'' = Some (PFloat (real_of_int t))
               \<and> d ''p95_execution_time_ms'' = Some PNone
               \<and> d ''p99_execution_time_ms'' = Some PNone"
      using et by (simp add: get_aggregated_metrics_def one List.map_filter_simps py_mean_def)
  }
  {
    assume two: "2 \<le> length ?ms"
    let ?xs = "List.map_filter m_execution_time_ms ?ms"
    have len: "length ?xs = length ?ms" using rows by (intro map_filter_all) blast
    have ne: "?ms \<noteq> []"
    proof
      assume "?ms = []"
      then have "length ?ms = 0" by simp
      with two show False by simp
    qed
    have pos: "0 < length ?xs" using two len by linarith
    from aggregate_fields[OF ne] obtain d where
      d: "aggregate ?ms = Inr d" "d ''count'' = Some (PInt (int (length ?ms)))"
      "d ''p95_execution_time_ms'' =
          Some (if 2 \<le> length ?xs
                then PInt (sort ?xs ! nat (py_int (real (length ?xs) * 0.95)))
                else PNone)"
      "d ''p99_execution_time_ms'' =
          Some (if 2 \<le> length ?xs
                then PInt (sort ?xs ! nat (py_int (real (length ?xs) * 0.99)))
                else PNone)"
      by blast
    have i95: "py_int (real (length ?xs) * 0.95) = \<lfloor>real (length ?xs) * 0.95\<rfloor>"
      by (rule py_int_nonneg) simp
    have i99: "py_int (real (length ?xs) * 0.99) = \<lfloor>real (length ?xs) * 0.99\<rfloor>"
      by (rule py_int_nonneg) simp
    have b95: "nat \<lfloor>real (length ?xs) * 0.95\<rfloor> < length ?xs"
      using idx95[OF pos, unfolded i95] by linarith
    have b99: "nat \<lfloor>real (length ?xs) * 0.99\<rfloor> < length ?xs"
      using idx99[OF pos, unfolded i99] by linarith
    show "\<exists>d times. get_aggregated_metrics db fname time_range now = Inr d
               \<and> times = List.map_filter m_execution_time_ms (query_all db fname time_range now)
               \<and> length times = length (query_all db fname time_range now)
               \<and> d ''count'' = Some (PInt (int (length times)))
               \<and> nat \<lfloor>real (length times) * 0.95\<rfloor> < length times
               \<and> nat \<lfloor>real (length times) * 0.99\<rfloor> < length times
               \<and> d ''p95_execution_time_ms''
                   = Some (PInt (sort times ! nat \<lfloor>real (length times) * 0.95\<rfloor>))
               \<and> d ''p99_execution_time_ms''
                   = Some (PInt (sort times ! nat \<lfloor>real (length times) * 0.99\<rfloor>))"
      unfolding get_aggregated_metrics_def
      using d(1) d(2)[folded len] d(3,4)[unfolded i95 i99] two len b95 b99
      by (intro exI[of _ d] exI[of _ ?xs]) (simp only: if_True simp_thms)
  }
qed (simp_all add: zero_record_fields)


theorem aggregate_by_window_size_witness:
  "[] \<in> stores \<and> query_all [] None ''24h'' 0 = []
   \<and> get_aggregated_metrics [] None ''24h'' 0 = Inr zero_record
   \<and> one_row_db \<in> stores \<and> length (query_all one_row_db None ''24h'' 100) = 1
   \<and> (\<exists>d. get_aggregated_metrics one_row_db None ''24h'' 100 = Inr d
          \<and> d ''avg_execution_time_ms'' = Some (PFloat 2000)
          \<and> d ''p95_execution_time_ms'' = Some PNone
          \<and> d ''p99_execution_time_ms'' = Some PNone)
   \<and> two_row_db \<in> stores \<and> 2 \<le> length (query_all two_row_db None ''24h'' 200)
   \<and> (\<exists>d. get_aggregated_metrics two_row_db None ''24h'' 200 = Inr d
          \<and> d ''p95_execution_time_ms'' = Some (PInt 2000)
          \<and> d ''p99_execution_time_ms'' = Some (PInt 2000))"
proof -
  have q0: "query_all [] None ''24h'' 0 = []" by (simp add: query_all_def)
  from aggregate_by_window_size[OF stores.empty, of None "''24h''" 0] q0
  have z: "get_aggregated_metrics [] None ''24h'' 0 = Inr zero_record" by blast
  from one_row_db_eq obtain row where db1: "one_row_db = [row]"
    and f1: "m_execution_time_ms row = Some 2000" "m_timestamp row = 100" by blast
  have q1: "query_all one_row_db None ''24h'' 100 = [row]"
    by (simp add: db1 query_all_def range_seconds_def f1)
  from aggregate_by_window_size[OF sample_dbs_stored(1), of None "''24h''" 100] q1
  obtain d1 e where one: "get_aggregated_metrics one_row_db None ''24h'' 100 = Inr d1"
    "m_execution_time_ms row = Some e"
    "d1 ''avg_execution_time_ms'' = Some (PFloat (real_of_int e))"
    "d1 ''p95_execution_time_ms'' = Some PNone" "d1 ''p99_execution_time_ms'' = Some PNone"
    by blast
  have e: "e = 2000" using one(2) f1(1) by simp
  from two_row_db_eq obtain row1 row2 where db2: "two_row_db = [row1, row2]"
    and f2: "m_execution_time_ms row1 = Some 2000" "m_timestamp row1 = 100"
            "m_execution_time_ms row2 = Some 1000" "m_timestamp row2 = 200"
    by blast
  have q2: "query_all two_row_db None ''24h'' 200 = [row1, row2]"
    by (simp add: db2 query_all_def range_seconds_def f2)
  have l2: "2 \<le> length (query_all two_row_db None ''24h'' 200)" by (simp add: q2)
  have times: "List.map_filter m_execution_time_ms [row1, row2] = [2000, 1000]"
    by (simp add: List.map_filter_simps f2)
  from aggregate_by_window_size[OF sample_dbs_stored(2), of None "''24h''" 200] l2
  obtain d2 where two: "get_aggregated_metrics two_row_db None ''24h'' 200 = Inr d2"
    "d2 ''p95_execution_time_ms''
       = Some (PInt (sort (List.map_filter m_execution_time_ms (query_all two_row_db None ''24h'' 200))
            ! nat \<lfloor>real (length (List.map_filter m_execution_time_ms
                                      (query_all two_row_db None ''24h'' 200))) * 0.95\<rfloor>))"
    "d2 ''p99_execution_time_ms''
       = Some (PInt (sort (List.map_filter m_execution_time_ms (query_all two_row_db None ''24h'' 200))
            ! nat \<lfloor>real (length (List.map_filter m_execution_time_ms
                                      (query_all two_row_db None ''24h'' 200))) * 0.99\<rfloor>))"
    by blast
  have p: "d2 ''p95_execution_time_ms'' = Some (PInt 2000)"
          "d2 ''p99_execution_time_ms'' = Some (PInt 2000)"
    using two(2,3)[unfolded q2 times] by simp_all
  show ?thesis
    using stores.empty q0 z sample_dbs_stored one(1,3,4,5) two(1) p l2
    by (simp add: q1 e)
qed

section \<open>The program stays inside the two transition systems\<close>

text \<open>
  The functions of \<open>runner.py\<close> that touch the pool take reachable pool states to
  reachable pool states, and the two callers of \<open>save_execution_metrics\<close> take tables
  of \<open>stores\<close> to tables of \<open>stores\<close>.
\<close>

lemma bind_reachable:
  assumes "\<And>s. pool_reachable s \<Longrightarrow> pool_reachable (snd (m s))"
      and "\<And>x s. pool_reachable s \<Longrightarrow> pool_reachable (snd (f x s))"
      and "pool_reachable s"
  shows "pool_reachable (snd (bind m f s))"
proof (cases "m s")
  case (Pair r s1)
  from assms(1)[OF assms(3)] Pair have "pool_reachable s1" by simp
  with assms(2) Pair show ?thesis by (cases r) (simp_all add: bind_apply)
qed

lemma same_pools_reachable:
  assumes "pool_reachable s" and "container_pools (snd (m s)) = container_pools s"
  shows "pool_reachable (snd (m s))"
  using assms by (rule pool_reachable.unlocked)

lemma add_container_to_pool_reachable:
  assumes "pool_reachable s"
  shows "pool_reachable (snd (add_container_to_pool env language img s))"
proof -
  let ?s0 = "s\<lparr>steps := Suc (steps s)\<rparr>"
  let ?s1 = "?s0\<lparr>steps := Suc (steps ?s0)\<rparr>"
  let ?s2 = "?s1\<lparr>steps := Suc (steps ?s1),
                  trace := trace ?s1 @ [ContainersRun img (''function-'' @ language @ ''-'' @
                             take 8 (uuid env (steps ?s0))) None]\<rparr>"
  have r0: "pool_reachable ?s0"
    by (rule pool_reachable.unlocked[OF assms]) simp
  have r2: "pool_reachable ?s2"
    by (rule pool_reachable.unlocked[OF assms]) simp
  show ?thesis
  proof (cases "from_env_outcome env (steps s)")
    case (Inl e)
    then have "snd (add_container_to_pool env language img s) = ?s0"
      by (simp add: add_container_to_pool_def bind_apply docker_from_env_apply)
    with r0 show ?thesis by simp
  next
    case ok: (Inr u)
    show ?thesis
    proof (cases "run_outcome env (Suc (steps ?s0))")
      case (Inl e)
      then have "snd (add_container_to_pool env language img s) = ?s2"
        using ok
        by (simp add: add_container_to_pool_def swallow_def bind_apply docker_from_env_apply
              uuid4_def containers_run_def outside_def)
      with r2 show ?thesis by simp
    next
      case (Inr c)
      then have "snd (add_container_to_pool env language img s) = snd (add_locked env language c ?s2)"
        using ok
        by (simp add: add_container_to_pool_def swallow_def bind_apply docker_from_env_apply
              uuid4_def containers_run_def outside_def split: prod.splits sum.splits)
      with pool_reachable.add[OF r2, of env language c] show ?thesis by simp
    qed
  qed
qed

lemma initialize_container_pool_reachable:
  assumes "pool_reachable s"
  shows "pool_reachable (snd (initialize_container_pool env language s))"
  unfolding initialize_container_pool_def
  by (intro bind_reachable assms add_container_to_pool_reachable pool_reachable.init)
     (simp add: lift_def)

lemma create_function_container_pools:
  "container_pools (snd (create_function_container env language s)) = container_pools s"
  by (auto simp: create_function_container_def bind_apply uuid4_def containers_run_def
        outside_def lift_def split: sum.splits prod.splits)

lemma acquire_reachable:
  assumes "pool_reachable s"
  shows "pool_reachable (snd (acquire env language warm s))"
proof (cases warm)
  case False
  then have "container_pools (snd (acquire env language warm s)) = container_pools s"
    using create_function_container_pools[of env language s]
    by (auto simp: acquire_def bind_apply ret_def split: sum.splits prod.splits)
  with assms show ?thesis by (rule pool_reachable.unlocked)
next
  case True
  have "pool_reachable (snd (bind (get_container_from_pool env language) (\<lambda>got.
          case got of
            Some c \<Rightarrow> ret (c, True)
          | None \<Rightarrow>
              bind (initialize_container_pool env language) (\<lambda>_.
              bind (create_function_container env language) (\<lambda>c. ret (c, False)))) s))"
  proof (rule bind_reachable[OF _ _ assms])
    fix s assume "pool_reachable s"
    then show "pool_reachable (snd (get_container_from_pool env language s))"
      unfolding get_container_from_pool_def by (rule pool_reachable.get)
  next
    fix got s assume r: "pool_reachable s"
    show "pool_reachable (snd ((case got of
            Some c \<Rightarrow> ret (c, True)
          | None \<Rightarrow>
              bind (initialize_container_pool env language) (\<lambda>_.
              bind (create_function_container env language) (\<lambda>c. ret (c, False)))) s))"
    proof (cases got)
      case (Some c)
      then show ?thesis using r by (simp add: ret_def)
    next
      case None
      have "pool_reachable (snd (bind (initialize_container_pool env language) (\<lambda>_.
              bind (create_function_container env language) (\<lambda>c. ret (c, False))) s))"
      proof (rule bind_reachable[OF _ _ r])
        fix s assume "pool_reachable s"
        then show "pool_reachable (snd (initialize_container_pool env language s))"
          by (rule initialize_container_pool_reachable)
      next
        fix x :: unit and s assume r': "pool_reachable s"
        have "container_pools (snd (bind (create_function_container env language)
                 (\<lambda>c. ret (c, False)) s)) = container_pools s"
          using create_function_container_pools[of env language s]
          by (auto simp: bind_apply ret_def split: sum.splits prod.splits)
        with r' show "pool_reachable (snd (bind (create_function_container env language)
                 (\<lambda>c. ret (c, False)) s))"
          by (rule pool_reachable.unlocked)
      qed
      with None show ?thesis by simp
    qed
  qed
  with True show ?thesis by (simp add: acquire_def)
qed

lemma clean_expired_pools_reachable:
  assumes "pool_reachable s"
  shows "pool_reachable (snd (clean_expired_pools env s))"
proof -
  have r1: "pool_reachable (s\<lparr>steps := Suc (steps s)\<rparr>)"
    by (rule pool_reachable.unlocked[OF assms]) simp
  show ?thesis
    using pool_reachable.clean[OF r1, of env "clock env (steps s)"]
    by (simp add: clean_expired_pools_def bind_apply time_time_apply)
qed

lemma run_in_docker_reachable:
  assumes "pool_reachable s"
  shows "pool_reachable (snd (run_in_docker code language timeout warm env s))"
proof (cases "from_env_outcome env (Suc (steps s))")
  case (Inl e)
  from run_in_docker_no_client[OF Inl, of code language timeout warm]
  have "container_pools (snd (run_in_docker code language timeout warm env s)) = container_pools s"
    by simp
  with assms show ?thesis by (rule pool_reachable.unlocked)
next
  case (Inr u)
  then have ok: "from_env_outcome env (Suc (steps s)) = Inr ()" by simp
  let ?s0 = "s\<lparr>steps := Suc (Suc (steps s))\<rparr>"
  have r0: "pool_reachable ?s0" by (rule pool_reachable.unlocked[OF assms]) simp
  obtain a s1 where a: "acquire env language warm ?s0 = (a, s1)"
    by (cases "acquire env language warm ?s0")
  from acquire_reachable[OF r0, of env language warm] a have r1: "pool_reachable s1" by simp
  from run_in_docker_paths[OF ok, of code language timeout warm] obtain r s' where
    run: "run_in_docker code language timeout warm env s = (Inr r, s')"
    and paths: "(case acquire env language warm ?s0 of
        (Inl e, s1) \<Rightarrow>
          run_caught r = Some e \<and> run_container r = None \<and> \<not> run_pooled r
          \<and> run_execution_time r = None
          \<and> trace s' = trace s1 \<and> container_pools s' = container_pools s1
      | (Inr (c, from_pool), s1) \<Rightarrow>
          run_container r = Some c \<and> run_pooled r = from_pool
          \<and> (case docker_stage_and_execute env code language c (s1\<lparr>steps := Suc (steps s1)\<rparr>) of
                (Inl e, s3) \<Rightarrow>
                  run_caught r = Some e \<and> run_execution_time r = None
                  \<and> trace s' = trace s3 @ (if warm then [] else [ContainerStop c])
                  \<and> container_pools s' = container_pools s3
              | (Inr (execution_id, x, out, err, t), s3) \<Rightarrow>
                  run_exit_code r = Some x \<and> run_execution_time r = Some t
                  \<and> (case docker_teardown env warm c t timeout x execution_id
                              (s3\<lparr>steps := Suc (steps s3)\<rparr>) of
                        (Inl e, s5) \<Rightarrow>
                          run_caught r = Some e
                          \<and> trace s' = trace s5 @ (if warm then [] else [ContainerStop c])
                          \<and> container_pools s' = container_pools s5
                      | (Inr u, s5) \<Rightarrow> run_caught r = None \<and> s' = s5)))"
    by (elim exE conjE)
  have "container_pools s' = container_pools s1"
  proof (cases a)
    case (Inl e)
    with paths a show ?thesis by simp
  next
    case (Inr cp)
    obtain c from_pool where cp: "cp = (c, from_pool)" by (cases cp)
    let ?s2 = "s1\<lparr>steps := Suc (steps s1)\<rparr>"
    obtain b s3 where b: "docker_stage_and_execute env code language c ?s2 = (b, s3)"
      by (cases "docker_stage_and_execute env code language c ?s2")
    from docker_stage_and_execute_trace[of env code language c ?s2] b
    have p3: "container_pools s3 = container_pools s1" by auto
    show ?thesis
    proof (cases b)
      case (Inl e)
      with paths a Inr cp b p3 show ?thesis by simp
    next
      case (Inr res)
      obtain i x out err t where res: "res = (i, x, out, err, t)" by (cases res)
      let ?s4 = "s3\<lparr>steps := Suc (steps s3)\<rparr>"
      obtain d s5 where d: "docker_teardown env warm c t timeout x i ?s4 = (d, s5)"
        by (cases "docker_teardown env warm c t timeout x i ?s4")
      from docker_teardown_trace[of env warm c t timeout x i ?s4] d
      have p5: "container_pools s5 = container_pools s3" by simp
      from paths a \<open>a = Inr cp\<close> cp b Inr res d p3 p5 show ?thesis
        by (cases d) auto
    qed
  qed
  with r1 have "pool_reachable s'" by (rule pool_reachable.unlocked)
  with run show ?thesis by simp
qed

lemma execute_function_stored:
  assumes "db \<in> stores"
      and "execute_function env func params db s = (Inr (r, db'), s')"
  shows "db' \<in> stores"
proof (cases "p_runtime params = Some ''gvisor''")
  case True
  obtain x s1 where run: "run_in_gvisor (f_code func) (f_language func) (f_timeout func) env s
                             = (x, s1)"
    by (cases "run_in_gvisor (f_code func) (f_language func) (f_timeout func) env s")
  from assms(2) True run obtain r1 where x: "x = Inr r1"
    by (cases x) (auto simp: execute_function_def bind_apply)
  from assms(2) True have "db' = save_execution_metrics db (f_name func) (run_result r1)
                                   (utc_clock env (steps s1))"
    by (auto simp: execute_function_def bind_apply run x utcnow_def ret_def)
  with stores.gvisor[OF assms(1) run[unfolded x]] show ?thesis by simp
next
  case False
  obtain x s1 where run: "run_in_docker (f_code func) (f_language func) (f_timeout func)
                             (p_warm_start params = Some True) env s = (x, s1)"
    by (cases "run_in_docker (f_code func) (f_language func) (f_timeout func)
                 (p_warm_start params = Some True) env s")
  from assms(2) False run obtain r1 where x: "x = Inr r1"
    by (cases x) (auto simp: execute_function_def bind_apply)
  from assms(2) False have "db' = save_execution_metrics db (f_name func) (run_result r1)
                                   (utc_clock env (steps s1))"
    by (auto simp: execute_function_def bind_apply run x utcnow_def ret_def)
  with stores.docker[OF assms(1) run[unfolded x]] show ?thesis by simp
qed

lemma docker_iterations_stored:
  assumes "db \<in> stores"
      and "docker_iterations env func idx db s = (Inr (rs, db'), s')"
  shows "db' \<in> stores"
  using assms
proof (induction idx arbitrary: db s rs db' s')
  case Nil
  then show ?case by (simp add: ret_def)
next
  case (Cons i idx)
  obtain x s1 where run: "run_in_docker (f_code func) (f_language func) (f_timeout func)
                             (0 < i) env s = (x, s1)"
    by (cases "run_in_docker (f_code func) (f_language func) (f_timeout func) (0 < i) env s")
  from Cons.prems(2) run obtain r1 where x: "x = Inr r1"
    by (cases x) (auto simp: bind_apply)
  let ?db1 = "save_execution_metrics db (f_name func) (run_result r1) (utc_clock env (steps s1))"
  have st: "?db1 \<in> stores" by (rule stores.docker[OF Cons.prems(1) run[unfolded x]])
  obtain y s2 where rest: "docker_iterations env func idx ?db1 (s1\<lparr>steps := Suc (steps s1)\<rparr>)
                             = (y, s2)"
    by (cases "docker_iterations env func idx ?db1 (s1\<lparr>steps := Suc (steps s1)\<rparr>)")
  from Cons.prems(2) obtain rs1 where y: "y = Inr (rs1, db')"
    by (cases y) (auto simp: bind_apply run x utcnow_def rest ret_def split: prod.splits)
  from Cons.IH[OF st rest[unfolded y]] show ?case .
qed

lemma gvisor_iterations_stored:
  assumes "db \<in> stores"
      and "gvisor_iterations env func idx db s = (Inr (rs, db'), s')"
  shows "db' \<in> stores"
  using assms
proof (induction idx arbitrary: db s rs db' s')
  case Nil
  then show ?case by (simp add: ret_def)
next
  case (Cons i idx)
  obtain x s1 where run: "run_in_gvisor (f_code func) (f_language func) (f_timeout func)
                             env s = (x, s1)"
    by (cases "run_in_gvisor (f_code func) (f_language func) (f_timeout func) env s")
  from Cons.prems(2) run obtain r1 where x: "x = Inr r1"
    by (cases x) (auto simp: bind_apply)
  let ?db1 = "save_execution_metrics db (f_name func) (run_result r1) (utc_clock env (steps s1))"
  have st: "?db1 \<in> stores" by (rule stores.gvisor[OF Cons.prems(1) run[unfolded x]])
  obtain y s2 where rest: "gvisor_iterations env func idx ?db1 (s1\<lparr>steps := Suc (steps s1)\<rparr>)
                             = (y, s2)"
    by (cases "gvisor_iterations env func idx ?db1 (s1\<lparr>steps := Suc (steps s1)\<rparr>)")
  from Cons.prems(2) obtain rs1 where y: "y = Inr (rs1, db')"
    by (cases y) (auto simp: bind_apply run x utcnow_def rest ret_def split: prod.splits)
  from Cons.IH[OF st rest[unfolded y]] show ?case .
qed

lemma compare_runtimes_stored:
  assumes "db \<in> stores"
      and "compare_runtimes env func iterations db s = (Inr (cmp, db'), s')"
  shows "db' \<in> stores"
proof -
  obtain x s1 where d: "docker_iterations env func [0..<iterations] db s = (x, s1)"
    by (cases "docker_iterations env func [0..<iterations] db s")
  from assms(2) obtain rs1 db1 where x: "x = Inr (rs1, db1)"
    unfolding compare_runtimes_def
    by (cases x) (auto simp only: bind_apply d prod.case sum.case)
  from docker_iterations_stored[OF assms(1) d[unfolded x]] have s1: "db1 \<in> stores" .
  obtain y s2 where g: "gvisor_iterations env func [0..<iterations] db1 s1 = (y, s2)"
    by (cases "gvisor_iterations env func [0..<iterations] db1 s1")
  from assms(2) obtain rs2 db2 where y: "y = Inr (rs2, db2)"
    unfolding compare_runtimes_def
    by (cases y) (auto simp only: bind_apply d x g prod.case sum.case)
  from gvisor_iterations_stored[OF s1 g[unfolded y]] have s2: "db2 \<in> stores" .
  from assms(2) have "db' = db2"
    unfolding compare_runtimes_def
    by (simp only: bind_apply d x g y prod.case sum.case lift_def ret_def split: sum.splits)
       (auto split: sum.splits)
  with s2 show ?thesis by simp
qed

end
